theory Spec2Isabelle
  imports Complex_Main
begin

section \<open>Numbers, arrays and errors\<close>

text \<open>
  The thermodynamic core (\<^verbatim>\<open>despasito/thermodynamics/calc.py\<close>) computes with numpy
  doubles. A double is modelled as a real number or one of the three special values.
  The result of a product, a quotient or a sum of finite values is the exact real
  result brought into the range of the doubles by \<open>to_double\<close>: a result that rounds
  beyond the largest double (from \<open>2^1024 - 2^970\<close> on) is an infinity, and one that
  rounds to zero (up to \<open>2^-1075\<close>) is zero. In between the result is kept exact: the
  rounding to 53 bits and the sign of zero are not modelled. The special values
  follow IEEE 754 as numpy does (a division by zero gives an infinity or NaN with a
  warning, it does not raise).
\<close>

datatype npfloat = Num real | PInf | NInf | NaN

definition double_overflow :: real where
  "double_overflow = 2 ^ 1024 - 2 ^ 970"

definition double_underflow :: real where
  "double_underflow = 1 / 2 ^ 1075"

definition to_double :: "real \<Rightarrow> npfloat" where
  "to_double r =
     (if double_overflow \<le> \<bar>r\<bar> then (if 0 < r then PInf else NInf)
      else if \<bar>r\<bar> \<le> double_underflow then Num 0
      else Num r)"

fun isnan :: "npfloat \<Rightarrow> bool" where
  "isnan NaN = True"
| "isnan _ = False"

fun isfinite :: "npfloat \<Rightarrow> bool" where
  "isfinite (Num _) = True"
| "isfinite _ = False"

fun fneg :: "npfloat \<Rightarrow> npfloat" where
  "fneg (Num a) = Num (- a)"
| "fneg PInf = NInf"
| "fneg NInf = PInf"
| "fneg NaN = NaN"

fun fmul :: "npfloat \<Rightarrow> npfloat \<Rightarrow> npfloat" where
  "fmul NaN _ = NaN"
| "fmul _ NaN = NaN"
| "fmul (Num a) (Num b) = to_double (a * b)"
| "fmul (Num a) PInf = (if a = 0 then NaN else if 0 < a then PInf else NInf)"
| "fmul (Num a) NInf = (if a = 0 then NaN else if 0 < a then NInf else PInf)"
| "fmul PInf (Num b) = (if b = 0 then NaN else if 0 < b then PInf else NInf)"
| "fmul NInf (Num b) = (if b = 0 then NaN else if 0 < b then NInf else PInf)"
| "fmul PInf PInf = PInf"
| "fmul PInf NInf = NInf"
| "fmul NInf PInf = NInf"
| "fmul NInf NInf = PInf"

fun fdiv :: "npfloat \<Rightarrow> npfloat \<Rightarrow> npfloat" where
  "fdiv NaN _ = NaN"
| "fdiv _ NaN = NaN"
| "fdiv (Num a) (Num b) =
     (if b = 0 then (if a = 0 then NaN else if 0 < a then PInf else NInf)
      else to_double (a / b))"
| "fdiv (Num a) PInf = Num 0"
| "fdiv (Num a) NInf = Num 0"
| "fdiv PInf (Num b) = (if 0 \<le> b then PInf else NInf)"
| "fdiv NInf (Num b) = (if 0 \<le> b then NInf else PInf)"
| "fdiv PInf PInf = NaN"
| "fdiv PInf NInf = NaN"
| "fdiv NInf PInf = NaN"
| "fdiv NInf NInf = NaN"

text \<open>Comparison \<^verbatim>\<open>a > b\<close> of two doubles: false as soon as one side is NaN.\<close>

fun fgt :: "npfloat \<Rightarrow> npfloat \<Rightarrow> bool" where
  "fgt NaN _ = False"
| "fgt _ NaN = False"
| "fgt (Num a) (Num b) = (b < a)"
| "fgt PInf PInf = False"
| "fgt PInf _ = True"
| "fgt NInf _ = False"
| "fgt (Num a) PInf = False"
| "fgt (Num a) NInf = True"

definition flt :: "npfloat \<Rightarrow> npfloat \<Rightarrow> bool" where
  "flt a b = fgt b a"

definition fge :: "npfloat \<Rightarrow> npfloat \<Rightarrow> bool" where
  "fge a b = (\<not> isnan a \<and> \<not> isnan b \<and> \<not> fgt b a)"

definition fle :: "npfloat \<Rightarrow> npfloat \<Rightarrow> bool" where
  "fle a b = fge b a"

text \<open>\<^verbatim>\<open>a == b\<close>: NaN equals nothing, itself included.\<close>

definition feq :: "npfloat \<Rightarrow> npfloat \<Rightarrow> bool" where
  "feq a b = (\<not> isnan a \<and> a = b)"

fun fadd :: "npfloat \<Rightarrow> npfloat \<Rightarrow> npfloat" where
  "fadd NaN _ = NaN"
| "fadd _ NaN = NaN"
| "fadd (Num a) (Num b) = to_double (a + b)"
| "fadd PInf NInf = NaN"
| "fadd NInf PInf = NaN"
| "fadd PInf _ = PInf"
| "fadd _ PInf = PInf"
| "fadd NInf _ = NInf"
| "fadd _ NInf = NInf"

definition fsub :: "npfloat \<Rightarrow> npfloat \<Rightarrow> npfloat" where
  "fsub a b = fadd a (fneg b)"

fun fabs :: "npfloat \<Rightarrow> npfloat" where
  "fabs (Num a) = Num \<bar>a\<bar>"
| "fabs PInf = PInf"
| "fabs NInf = PInf"
| "fabs NaN = NaN"

text \<open>\<^verbatim>\<open>a != 0.0\<close>: true for every value but zero, NaN included.\<close>

definition nonzero :: "npfloat \<Rightarrow> bool" where
  "nonzero a = (a \<noteq> Num 0)"

text \<open>
  The exceptions the code raises or lets through. A \<^verbatim>\<open>ValueError\<close> carries the
  message template of the source and the values formatted into it.
\<close>

datatype fmtarg = Names "string list" | Floats "npfloat list"

datatype error =
    IndexError
  | UnboundLocalError
  | ZeroDivisionError
  | NameError
  | ValueError string "fmtarg list"
  | TypeError string
  | External string

text \<open>A computation that returns a value or raises: \<open>Inl\<close> is the exception.\<close>

definition bindE :: "error + 'a \<Rightarrow> ('a \<Rightarrow> error + 'b) \<Rightarrow> error + 'b" where
  "bindE m f = (case m of Inl e \<Rightarrow> Inl e | Inr v \<Rightarrow> f v)"

text \<open>\<^verbatim>\<open>try: ... except: ...\<close> with a bare \<^verbatim>\<open>except\<close>: every exception is caught.\<close>

definition try_except :: "error + 'a \<Rightarrow> (error + 'a) \<Rightarrow> error + 'a" where
  "try_except m handler = (case m of Inl e \<Rightarrow> handler | Inr v \<Rightarrow> Inr v)"

fun mapE :: "('a \<Rightarrow> error + 'b) \<Rightarrow> 'a list \<Rightarrow> error + 'b list" where
  "mapE f [] = Inr []"
| "mapE f (x # xs) = bindE (f x) (\<lambda>y. bindE (mapE f xs) (\<lambda>ys. Inr (y # ys)))"

text \<open>
  Division of two Python floats (the entries of a list made by \<^verbatim>\<open>tolist()\<close>, a
  literal): a zero divisor raises. Division with a numpy operand is \<open>fdiv\<close>.
\<close>

definition pydiv :: "npfloat \<Rightarrow> npfloat \<Rightarrow> error + npfloat" where
  "pydiv a b = (if b = Num 0 then Inl ZeroDivisionError else Inr (fdiv a b))"

text \<open>Indexing: \<^verbatim>\<open>xs[i]\<close> for \<open>i \<ge> 0\<close>, and \<^verbatim>\<open>xs[-1]\<close>.\<close>

definition nthE :: "'a list \<Rightarrow> nat \<Rightarrow> error + 'a" where
  "nthE xs i = (if i < length xs then Inr (xs ! i) else Inl IndexError)"

definition lastE :: "'a list \<Rightarrow> error + 'a" where
  "lastE xs = (if xs = [] then Inl IndexError else Inr (last xs))"

subsection \<open>numpy and the Python built-ins on arrays\<close>

definition np_sum :: "npfloat list \<Rightarrow> npfloat" where
  "np_sum xs = foldl fadd (Num 0) xs"

definition np_nansum :: "npfloat list \<Rightarrow> npfloat" where
  "np_nansum xs = np_sum (filter (\<lambda>x. \<not> isnan x) xs)"

definition np_any_isnan :: "npfloat list \<Rightarrow> bool" where
  "np_any_isnan xs = list_ex isnan xs"

text \<open>
  \<^verbatim>\<open>np.amax\<close>, \<^verbatim>\<open>np.amin\<close>: NaN if an entry is NaN, \<^verbatim>\<open>ValueError\<close> on an empty
  array.
\<close>

definition np_amax :: "npfloat list \<Rightarrow> error + npfloat" where
  "np_amax xs =
     (if xs = [] then Inl (ValueError ''zero-size array to reduction operation maximum which has no identity'' [])
      else if np_any_isnan xs then Inr NaN
      else Inr (foldl (\<lambda>m x. if fgt x m then x else m) (hd xs) (tl xs)))"

definition np_amin :: "npfloat list \<Rightarrow> error + npfloat" where
  "np_amin xs =
     (if xs = [] then Inl (ValueError ''zero-size array to reduction operation minimum which has no identity'' [])
      else if np_any_isnan xs then Inr NaN
      else Inr (foldl (\<lambda>m x. if flt x m then x else m) (hd xs) (tl xs)))"

text \<open>
  The built-ins \<^verbatim>\<open>max\<close> and \<^verbatim>\<open>min\<close> walk the sequence and replace the current
  value only when the next one compares greater (smaller): \<^verbatim>\<open>ValueError\<close> on an empty
  sequence, and a NaN is kept or skipped according to its position.
\<close>

definition py_max :: "npfloat list \<Rightarrow> error + npfloat" where
  "py_max xs =
     (if xs = [] then Inl (ValueError ''max() arg is an empty sequence'' [])
      else Inr (foldl (\<lambda>m x. if fgt x m then x else m) (hd xs) (tl xs)))"

definition py_min :: "npfloat list \<Rightarrow> error + npfloat" where
  "py_min xs =
     (if xs = [] then Inl (ValueError ''min() arg is an empty sequence'' [])
      else Inr (foldl (\<lambda>m x. if flt x m then x else m) (hd xs) (tl xs)))"

text \<open>
  \<^verbatim>\<open>np.arange(start, stop, step)\<close> on doubles: \<open>ceil((stop - start) / step)\<close> values
  \<open>start + i * step\<close>; numpy raises when the length cannot be computed.
\<close>

definition np_arange :: "npfloat \<Rightarrow> npfloat \<Rightarrow> npfloat \<Rightarrow> error + npfloat list" where
  "np_arange start stop step =
     (case (start, stop, step) of
        (Num a, Num b, Num h) \<Rightarrow>
          if h = 0 then Inl (External ''numpy.arange'')
          else Inr (map (\<lambda>i. Num (a + real i * h)) [0..<nat \<lceil>(b - a) / h\<rceil>])
      | _ \<Rightarrow> Inl (External ''numpy.arange''))"

text \<open>
  \<^verbatim>\<open>np.argmax\<close>: the index of the first NaN if there is one, of the first maximum
  otherwise.
\<close>

definition np_argmax :: "npfloat list \<Rightarrow> error + nat" where
  "np_argmax xs =
     (if xs = [] then Inl (ValueError ''attempt to get argmax of an empty sequence'' [])
      else if np_any_isnan xs then Inr (length (takeWhile (\<lambda>x. \<not> isnan x) xs))
      else let m = foldl (\<lambda>m x. if fgt x m then x else m) (hd xs) (tl xs)
           in Inr (length (takeWhile (\<lambda>x. x \<noteq> m) xs)))"

text \<open>\<^verbatim>\<open>xs[-n:]\<close>: the last \<open>n\<close> entries, all of them when there are fewer.\<close>

definition last_n :: "nat \<Rightarrow> 'a list \<Rightarrow> 'a list" where
  "last_n n xs = drop (length xs - n) xs"

text \<open>\<^verbatim>\<open>np.finfo(float).eps\<close>.\<close>

definition float_eps :: npfloat where
  "float_eps = Num (1 / 2 ^ 52)"

text \<open>
  An operation on two one-dimensional arrays: entry by entry when the lengths agree, an
  array of one entry is broadcast, and other lengths raise \<^verbatim>\<open>ValueError\<close>.
\<close>

definition np_binop ::
  "(npfloat \<Rightarrow> npfloat \<Rightarrow> npfloat) \<Rightarrow> npfloat list \<Rightarrow> npfloat list \<Rightarrow> error + npfloat list" where
  "np_binop f xs ys =
     (if length xs = length ys then Inr (map2 f xs ys)
      else if length xs = 1 then Inr (map (f (hd xs)) ys)
      else if length ys = 1 then Inr (map (\<lambda>x. f x (hd ys)) xs)
      else Inl (ValueError ''operands could not be broadcast together'' []))"

text \<open>\<^verbatim>\<open>arr[np.isnan(arr)] = 0.\<close>\<close>

definition nan_to_zero :: "npfloat list \<Rightarrow> npfloat list" where
  "nan_to_zero xs = map (\<lambda>x. if isnan x then Num 0 else x) xs"

text \<open>
  The truth value of a boolean array in an \<^verbatim>\<open>if\<close>: that of its entry when it has one,
  false when it is empty (with a deprecation warning), \<^verbatim>\<open>ValueError\<close> otherwise.
\<close>

definition array_truth :: "bool list \<Rightarrow> error + bool" where
  "array_truth bs =
     (case bs of
        [] \<Rightarrow> Inr False
      | [b] \<Rightarrow> Inr b
      | _ \<Rightarrow> Inl (ValueError
          ''The truth value of an array with more than one element is ambiguous. Use a.any() or a.all()'' []))"

text \<open>\<^verbatim>\<open>np.sort\<close> of two numbers: a NaN goes last.\<close>

definition np_sort2 :: "npfloat \<Rightarrow> npfloat \<Rightarrow> npfloat \<times> npfloat" where
  "np_sort2 a b =
     (if isnan a then (b, a) else if isnan b then (a, b)
      else if fgt a b then (b, a) else (a, b))"

text \<open>\<^verbatim>\<open>np.nanmax\<close> of two numbers: the NaNs are left out; NaN when both are.\<close>

definition np_nanmax2 :: "npfloat \<Rightarrow> npfloat \<Rightarrow> npfloat" where
  "np_nanmax2 a b =
     (if isnan a then b else if isnan b then a else if fgt b a then b else a)"

text \<open>
  An array built from Python integers has the dtype \<^verbatim>\<open>int64\<close>: a number stored in it
  is cut to an integer as the C cast does (towards zero; the smallest integer for a
  value that does not fit or is not finite), and sums, differences and doubles of its
  entries wrap around.
\<close>

definition wrap64 :: "int \<Rightarrow> int" where
  "wrap64 n = (n + 2 ^ 63) mod 2 ^ 64 - 2 ^ 63"

definition int_cast :: "npfloat \<Rightarrow> npfloat" where
  "int_cast v =
     (case v of
        Num r \<Rightarrow>
          (let t = (if 0 \<le> r then \<lfloor>r\<rfloor> else \<lceil>r\<rceil>)
           in if - (2 ^ 63) \<le> t \<and> t < 2 ^ 63 then Num (of_int t) else Num (- (2 ^ 63)))
      | _ \<Rightarrow> Num (- (2 ^ 63)))"

definition P_store :: "bool \<Rightarrow> npfloat \<Rightarrow> npfloat" where
  "P_store ints v = (if ints then int_cast v else v)"

definition int_op :: "bool \<Rightarrow> (int \<Rightarrow> int \<Rightarrow> int) \<Rightarrow> (npfloat \<Rightarrow> npfloat \<Rightarrow> npfloat)
    \<Rightarrow> npfloat \<Rightarrow> npfloat \<Rightarrow> npfloat" where
  "int_op ints f g a b =
     (case (ints, a, b) of
        (True, Num x, Num y) \<Rightarrow> Num (of_int (wrap64 (f \<lfloor>x\<rfloor> \<lfloor>y\<rfloor>)))
      | _ \<Rightarrow> g a b)"

definition P_add :: "bool \<Rightarrow> npfloat \<Rightarrow> npfloat \<Rightarrow> npfloat" where
  "P_add ints a b = int_op ints (+) fadd a b"

definition P_sub :: "bool \<Rightarrow> npfloat \<Rightarrow> npfloat \<Rightarrow> npfloat" where
  "P_sub ints a b = int_op ints (-) fsub a b"

definition P_double :: "bool \<Rightarrow> npfloat \<Rightarrow> npfloat" where
  "P_double ints a = int_op ints (*) fmul (Num 2) a"

text \<open>Sorting numbers, none of them NaN, by insertion.\<close>

fun insert_float :: "npfloat \<Rightarrow> npfloat list \<Rightarrow> npfloat list" where
  "insert_float x [] = [x]"
| "insert_float x (y # ys) = (if fgt x y then y # insert_float x ys else x # y # ys)"

definition sort_floats :: "npfloat list \<Rightarrow> npfloat list" where
  "sort_floats xs = foldr insert_float xs []"

section \<open>The collaborators: the equation of state and the numerical library\<close>

text \<open>
  The core is written against an EOS object with the attributes \<^verbatim>\<open>beads\<close> and
  \<^verbatim>\<open>nui\<close> and the methods \<^verbatim>\<open>pressure(rho, T, xi)\<close>, \<^verbatim>\<open>density_max(xi, T)\<close> and
  \<^verbatim>\<open>fugacity_coefficient(P, rho, xi, T)\<close>. The methods are parameters of the model:
  each returns a value or raises. \<^verbatim>\<open>pressure\<close> is given for one density; on an array
  of densities it is applied to each entry.
\<close>

record eos =
  beads :: "string list"
  nui :: "npfloat list list"
  pressure :: "npfloat \<Rightarrow> npfloat \<Rightarrow> npfloat list \<Rightarrow> error + npfloat"
  density_max :: "npfloat list \<Rightarrow> npfloat \<Rightarrow> error + npfloat"
  fugacity_coefficient :: "npfloat \<Rightarrow> npfloat \<Rightarrow> npfloat list \<Rightarrow> npfloat \<Rightarrow> error + npfloat list"

text \<open>
  The routines of scipy and numpy the core calls, parameters of the model as well:
  \<^verbatim>\<open>gaussian_filter1d(y, sigma)\<close>; \<^verbatim>\<open>InterpolatedUnivariateSpline(x, y, k)\<close>, which
  gives a spline object \<open>'s\<close> with its \<^verbatim>\<open>roots()\<close>, \<^verbatim>\<open>derivative().roots()\<close>,
  \<^verbatim>\<open>__call__\<close> and \<^verbatim>\<open>integral(a, b)\<close>; \<^verbatim>\<open>np.polyfit(x, y, 1)\<close>, which gives slope
  and intercept; \<^verbatim>\<open>spo.minimize(f, x0, bounds)\<close>, \<^verbatim>\<open>spo.minimize_scalar(f, bounds)\<close>,
  \<^verbatim>\<open>spo.brentq(f, a, b)\<close> and \<^verbatim>\<open>spo.least_squares(f, x0, bounds)\<close>, each giving the
  point \<^verbatim>\<open>x\<close> it found.
\<close>

record 's scipy =
  gaussian_filter1d :: "npfloat list \<Rightarrow> npfloat \<Rightarrow> error + npfloat list"
  InterpolatedUnivariateSpline :: "npfloat list \<Rightarrow> npfloat list \<Rightarrow> nat \<Rightarrow> error + 's"
  spline_roots :: "'s \<Rightarrow> error + npfloat list"
  spline_derivative_roots :: "'s \<Rightarrow> error + npfloat list"
  spline_call :: "'s \<Rightarrow> npfloat \<Rightarrow> error + npfloat"
  spline_integral :: "'s \<Rightarrow> npfloat \<Rightarrow> npfloat \<Rightarrow> error + npfloat"
  polyfit :: "npfloat list \<Rightarrow> npfloat list \<Rightarrow> error + (npfloat \<times> npfloat)"
  minimize :: "(npfloat \<Rightarrow> error + npfloat) \<Rightarrow> npfloat \<Rightarrow> npfloat \<times> npfloat \<Rightarrow> error + npfloat"
  minimize_scalar :: "(npfloat \<Rightarrow> error + npfloat) \<Rightarrow> npfloat \<times> npfloat \<Rightarrow> error + npfloat"
  brentq :: "(npfloat \<Rightarrow> error + npfloat) \<Rightarrow> npfloat \<Rightarrow> npfloat \<Rightarrow> error + npfloat"
  least_squares :: "(npfloat \<Rightarrow> error + npfloat) \<Rightarrow> npfloat \<Rightarrow> npfloat \<times> npfloat \<Rightarrow> error + npfloat"

text \<open>
  The options of the density grid, \<^verbatim>\<open>rhodict\<close>, with the defaults of \<^verbatim>\<open>PvsRho\<close>.
\<close>

record rhodict =
  minrhofrac :: npfloat
  rhoinc :: npfloat
  vspacemax :: npfloat
  maxrho :: "npfloat option"

definition rhodict_default :: rhodict where
  "rhodict_default =
     \<lparr>minrhofrac = Num (1 / 500000), rhoinc = Num 5, vspacemax = Num (1 / 10000), maxrho = None\<rparr>"

section \<open>The K-value relation: \<^verbatim>\<open>calc_yi\<close> and \<^verbatim>\<open>calc_xi\<close>\<close>




section \<open>The pressure-volume curve and its spline\<close>

text \<open>
  \<^verbatim>\<open>PvsRho\<close>: the density grid from \<open>maxrho * minrhofrac\<close> to \<open>maxrho\<close> in steps of
  \<^verbatim>\<open>rhoinc\<close>, resampled at uniform specific volume where the spacing in specific
  volume exceeds \<^verbatim>\<open>vspacemax\<close>; the pressures on it; both reversed, so that the
  specific volume increases.
\<close>

definition PvsRho ::
  "npfloat \<Rightarrow> npfloat list \<Rightarrow> eos \<Rightarrow> rhodict \<Rightarrow> error + (npfloat list \<times> npfloat list)" where
  "PvsRho T xi e rd =
     bindE (case maxrho rd of
              None \<Rightarrow> density_max e xi T
            | Some m \<Rightarrow> if m = Num 0 then density_max e xi T else Inr m) (\<lambda>maxrho'.
     let minrho = fmul maxrho' (minrhofrac rd) in
     if flt (fsub maxrho' minrho) (rhoinc rd)
     then Inl (ValueError
       ''Density range, {}, is less than incement, {}. Check parameters used in eos.density_max().''
       [Floats [fsub maxrho' minrho], Floats [rhoinc rd]])
     else
     bindE (np_arange minrho maxrho' (rhoinc rd)) (\<lambda>rholist.
     let vspace = map2 fsub (map (fdiv (Num 1)) (butlast rholist)) (map (fdiv (Num 1)) (tl rholist)) in
     bindE (np_amax vspace) (\<lambda>vmax.
     bindE (if fgt vmax (vspacemax rd)
            then bindE (lastE (filter (\<lambda>i. fgt (vspace ! i) (vspacemax rd)) [0..<length vspace]))
                   (\<lambda>vspaceswitch.
                 bindE (nthE rholist (vspaceswitch + 1)) (\<lambda>r1.
                 bindE (np_arange (fdiv (Num 1) r1) (fdiv (Num 1) minrho) (vspacemax rd)) (\<lambda>a.
                 Inr (map (fdiv (Num 1)) (rev a) @ drop (vspaceswitch + 2) rholist))))
            else Inr rholist) (\<lambda>rholist'.
     bindE (mapE (\<lambda>rho. pressure e rho T xi) rholist') (\<lambda>Plist.
     Inr (map (fdiv (Num 1)) (rev rholist'), rev Plist))))))"

text \<open>
  \<^verbatim>\<open>PvsV_spline\<close>: the roots of a cubic spline through the smoothed pressures, the
  extrema from the derivative of a quartic spline (the first two at most), and the
  roots replaced by \<^verbatim>\<open>[nan]\<close> when \<^verbatim>\<open>np.any(np.isnan(Plist))\<close>. The test comes after
  the splines are fitted.
\<close>

definition PvsV_spline ::
  "'s scipy \<Rightarrow> npfloat list \<Rightarrow> npfloat list \<Rightarrow> error + ('s \<times> npfloat list \<times> npfloat list)" where
  "PvsV_spline L vlist Plist =
     bindE (gaussian_filter1d L Plist (Num (1 / 100))) (\<lambda>Psmoothed.
     bindE (InterpolatedUnivariateSpline L vlist Psmoothed 3) (\<lambda>Pvspline3.
     bindE (spline_roots L Pvspline3) (\<lambda>roots0.
     bindE (InterpolatedUnivariateSpline L vlist Psmoothed 4) (\<lambda>Pvspline.
     bindE (spline_derivative_roots L Pvspline) (\<lambda>extrema0.
     let extrema = (if extrema0 \<noteq> [] \<and> 2 < length extrema0 then take 2 extrema0 else extrema0);
         roots = (if np_any_isnan Plist then [NaN] else roots0)
     in Inr (Pvspline, roots, extrema))))))"

text \<open>\<^verbatim>\<open>Pdiff\<close>: the pressure the EOS predicts at a density, less the set pressure.\<close>

definition Pdiff :: "npfloat \<Rightarrow> npfloat \<Rightarrow> npfloat \<Rightarrow> npfloat list \<Rightarrow> eos \<Rightarrow> error + npfloat" where
  "Pdiff rho Pset T xi e = bindE (pressure e rho T xi) (\<lambda>Pguess. Inr (fsub Pguess Pset))"

text \<open>
  \<^verbatim>\<open>eq_area\<close>: the objective of the Maxwell construction. With fewer than two roots
  neither area is assigned and the \<^verbatim>\<open>return\<close> raises \<^verbatim>\<open>UnboundLocalError\<close>.
\<close>

definition eq_area :: "'s scipy \<Rightarrow> npfloat \<Rightarrow> npfloat list \<Rightarrow> npfloat list \<Rightarrow> error + npfloat" where
  "eq_area L shift Pv vlist =
     bindE (PvsV_spline L vlist (map (\<lambda>p. fsub p shift) Pv)) (\<lambda>(Pvspline, roots, extrema).
     if 3 \<le> length roots then
       bindE (spline_integral L Pvspline (roots ! 0) (roots ! 1)) (\<lambda>a.
       bindE (spline_integral L Pvspline (roots ! 1) (roots ! 2)) (\<lambda>b.
       Inr (fmul (fadd a b) (fadd a b))))
     else if length roots = 2 then
       bindE (spline_integral L Pvspline (roots ! 0) (roots ! 1)) (\<lambda>a.
       bindE (polyfit L (last_n 4 vlist) (map (\<lambda>p. fsub p shift) (last_n 4 Pv))) (\<lambda>(slope, yroot).
       bindE (lastE vlist) (\<lambda>vend.
       bindE (spline_integral L Pvspline (roots ! 1) vend) (\<lambda>b1.
       bindE (lastE Pv) (\<lambda>pend.
       let b = fadd b1 (fdiv (fmul (fsub pend shift) (fsub (fdiv (fneg yroot) slope) vend)) (Num 2))
       in Inr (fmul (fadd a b) (fadd a b)))))))
     else Inl UnboundLocalError)"

section \<open>The saturation solver \<^verbatim>\<open>calc_Psat\<close>\<close>

text \<open>
  The composition test comes first, lines 375 to 380:
  \<^verbatim>\<open>
  if np.count_nonzero(xi) != 1:
      if np.count_nonzero(xi>0.1) != 1:
          raise ValueError("Multiple components have compositions greater than 10%, check code for source")
      else:
          ind = np.where((xi>0.1)==True)[0]
          raise ValueError("Multiple components ... saturation pressure of {} with a mole fraction of {}?".format(eos.beads[ind],xi[ind]))
  \<close>
  The threshold is the double written \<^verbatim>\<open>0.1\<close>, which is
  \<open>3602879701896397 / 2^55\<close>, a little above one tenth. \<^verbatim>\<open>eos.beads\<close> is a Python
  list of names and \<^verbatim>\<open>ind\<close> an array of positions: the first argument of \<^verbatim>\<open>format\<close>,
  \<^verbatim>\<open>eos.beads[ind]\<close>, raises \<^verbatim>\<open>TypeError\<close> (a list takes an integer or a slice as its
  index, and an array of one dimension is not converted to an integer), so the second
  \<^verbatim>\<open>ValueError\<close> is never built. Then the curve is sampled and fitted. With fewer
  than two extrema, or a NaN among the roots,
  \<^verbatim>\<open>Psat\<close> is NaN and the roots become \<^verbatim>\<open>[1.0, 1.0, 1.0]\<close>; otherwise the equal-area
  pressure is searched between the bounds found on the curve. The result is
  \<^verbatim>\<open>(Psat, 1.0 / roots[0], 1.0 / roots[2])\<close>, written in each branch: the roots are a
  Python list, or a numpy array once a third root has been appended.
\<close>

definition double_tenth :: real where
  "double_tenth = 3602879701896397 / 2 ^ 55"

definition Psat_composition_check :: "npfloat list \<Rightarrow> eos \<Rightarrow> error + unit" where
  "Psat_composition_check xi e =
     (if length (filter nonzero xi) \<noteq> 1 then
        (if length (filter (\<lambda>x. fgt x (Num double_tenth)) xi) \<noteq> 1
         then Inl (ValueError
           ''Multiple components have compositions greater than 10%, check code for source'' [])
         else Inl (TypeError ''only integer scalar arrays can be converted to a scalar index''))
      else Inr ())"

text \<open>
  The \<^verbatim>\<open>else\<close> branch of \<^verbatim>\<open>calc_Psat\<close>: the equal-area search, the roots at
  \<^verbatim>\<open>Psat\<close> and the \<^verbatim>\<open>return\<close>. The debug message formats \<^verbatim>\<open>eq_area(Psat, Plist, vlist)\<close>,
  which is evaluated whatever the log level.
\<close>

definition Psat_equal_area ::
  "'s scipy \<Rightarrow> npfloat \<Rightarrow> npfloat list \<Rightarrow> eos \<Rightarrow> npfloat list \<Rightarrow> npfloat list
     \<Rightarrow> error + (npfloat \<times> npfloat \<times> npfloat)" where
  "Psat_equal_area L T xi e vlist Plist =
     bindE (case filter (\<lambda>i. fgt (fsub (Plist ! (i + 1)) (Plist ! i)) (Num 0))
                   [0..<length Plist - 1] of
              [] \<Rightarrow> Inl IndexError
            | i # _ \<Rightarrow> Inr i) (\<lambda>ind_Pmin1.
     bindE (np_argmax (drop ind_Pmin1 Plist)) (\<lambda>am.
     let ind_Pmax1 = am + ind_Pmin1 in
     bindE (nthE Plist ind_Pmax1) (\<lambda>Pmaxsearch.
     bindE (np_amin (take (ind_Pmax1 - ind_Pmin1) (drop ind_Pmin1 Plist))) (\<lambda>pm.
     bindE (py_max [Num 10, pm]) (\<lambda>Pminsearch.
     bindE (minimize_scalar L (\<lambda>shift. eq_area L shift Plist vlist)
              (Pminsearch, Pmaxsearch)) (\<lambda>Psat.
     bindE (PvsV_spline L vlist (map (\<lambda>p. fsub p Psat) Plist)) (\<lambda>(Pvspline, roots, extrema).
     bindE (eq_area L Psat Plist vlist) (\<lambda>logged_objective.
     if length roots = 2 then
       bindE (polyfit L (last_n 4 vlist) (map (\<lambda>p. fsub p Psat) (last_n 4 Plist)))
         (\<lambda>(slope, yroot).
       let vroot0 = fdiv (fneg yroot) slope;
           vroot = (if flt vroot0 (Num 0) then float_eps else vroot0)
       in
       bindE (pydiv (Num 1) (fmul (Num (11 / 10)) (last roots))) (\<lambda>upper.
       bindE (minimize L (\<lambda>rho. Pdiff rho Psat T xi e) (fdiv (Num 1) vroot)
                (fdiv (Num 1) (fmul vroot (Num 100)), upper)) (\<lambda>rho_tmp.
       let roots' = roots @ [fdiv (Num 1) rho_tmp]
       in Inr (Psat, fdiv (Num 1) (roots' ! 0), fdiv (Num 1) (roots' ! 2)))))
     else
       bindE (nthE roots 0) (\<lambda>r0.
       bindE (pydiv (Num 1) r0) (\<lambda>rhol.
       bindE (nthE roots 2) (\<lambda>r2.
       bindE (pydiv (Num 1) r2) (\<lambda>rhov.
       Inr (Psat, rhol, rhov)))))))))))))"

definition calc_Psat ::
  "'s scipy \<Rightarrow> npfloat \<Rightarrow> npfloat list \<Rightarrow> eos \<Rightarrow> rhodict \<Rightarrow> error + (npfloat \<times> npfloat \<times> npfloat)" where
  "calc_Psat L T xi e rd =
     bindE (Psat_composition_check xi e) (\<lambda>_.
     bindE (PvsRho T xi e rd) (\<lambda>(vlist, Plist).
     bindE (PvsV_spline L vlist Plist) (\<lambda>(Pvspline, roots, extrema).
     if extrema = [] \<or> length extrema < 2 \<or> np_any_isnan roots
     then (let Psat = NaN; roots' = [Num 1, Num 1, Num 1]
           in bindE (pydiv (Num 1) (roots' ! 0)) (\<lambda>rhol.
              bindE (pydiv (Num 1) (roots' ! 2)) (\<lambda>rhov.
              Inr (Psat, rhol, rhov))))
     else Psat_equal_area L T xi e vlist Plist)))"

section \<open>The phase density classifier\<close>

text \<open>
  The phase flag is the integer of the source: 0 vapor, 1 liquid, 2 critical fluid,
  3 neither, 4 ideal gas assumed.

  \<^verbatim>\<open>interp_vroot\<close> looks for the sign changes of the sampled pressures (at most three),
  takes the one closest to the estimate \<open>v0\<close> and, when \<open>v0\<close> is not between the two
  samples around it, interpolates a new estimate. The second component of the result
  tells whether the value is a numpy number (the interpolated one) or the Python float
  it was given.
\<close>

fun interp_scan :: "nat list \<Rightarrow> npfloat list \<Rightarrow> nat list \<Rightarrow> nat list" where
  "interp_scan [] Plist ind_array = ind_array"
| "interp_scan (i # rest) Plist ind_array =
     (if ind_array ! i + 1 < length Plist then
        (let tmp = filter
               (\<lambda>k. flt (fmul (Plist ! (ind_array ! i + k)) (if even i then Num 1 else Num (- 1)))
                      (Num 0))
               [0..<length Plist - ind_array ! i]
         in if list_ex (\<lambda>k. k \<noteq> 0) tmp
            then interp_scan rest Plist (ind_array[i + 1 := hd tmp + ind_array ! i])
            else ind_array)
      else interp_scan rest Plist ind_array)"

definition interp_vroot :: "npfloat \<Rightarrow> npfloat list \<Rightarrow> npfloat list \<Rightarrow> error + (npfloat \<times> bool)" where
  "interp_vroot v0 vlist Plist =
     (let ind_array = filter (\<lambda>k. 0 < k) (interp_scan [0, 1, 2] Plist [0, 0, 0, 0]);
          Nind = length ind_array
      in
      bindE (if Nind = 0 then Inl UnboundLocalError
             else if Nind = 1 then Inr (ind_array ! 0)
             else
               bindE (mapE (nthE vlist) ind_array) (\<lambda>vs.
               let tmp = map (\<lambda>v. fabs (fsub v v0)) vs in
               bindE (np_amin tmp) (\<lambda>m.
               case filter (\<lambda>j. feq (tmp ! j) m) [0..<length tmp] of
                 [] \<Rightarrow> Inl IndexError
               | ind_tmp # _ \<Rightarrow> Inr (ind_array ! ind_tmp)))) (\<lambda>ind.
      bindE (nthE vlist (ind - 1)) (\<lambda>vlo.
      if flt v0 vlo then
        bindE (nthE Plist ind) (\<lambda>pi.
        bindE (nthE Plist (ind - 1)) (\<lambda>plo.
        bindE (nthE vlist ind) (\<lambda>vi.
        let m = fdiv (fsub pi plo) (fsub vi vlo)
        in Inr (fdiv (fneg m) (fsub pi (fmul m vi)), True))))
      else
        bindE (nthE vlist ind) (\<lambda>vi.
        if fgt v0 vi then
          bindE (nthE Plist ind) (\<lambda>pi.
          bindE (nthE Plist (ind - 1)) (\<lambda>plo.
          let m = fdiv (fsub pi plo) (fsub vi vlo)
          in Inr (fdiv (fneg m) (fsub pi (fmul m vi)), True)))
        else Inr (v0, False)))))"

text \<open>
  \<^verbatim>\<open>calc_rhov\<close>, first part: the \<^verbatim>\<open>if\<close>/\<^verbatim>\<open>elif\<close> chain over the number of roots of
  the curve shifted by \<open>P\<close>. It gives the density estimate \<^verbatim>\<open>rho_tmp\<close>, the flag and
  \<^verbatim>\<open>flag_NoOpt\<close>. With one root and one extremum that is not below the root's pressure,
  no branch assigns the flag and the test that follows raises.
\<close>

definition calc_rhov_classify ::
  "'s scipy \<Rightarrow> npfloat \<Rightarrow> npfloat \<Rightarrow> npfloat list \<Rightarrow> eos \<Rightarrow> npfloat list \<Rightarrow> npfloat list
     \<Rightarrow> 's \<Rightarrow> npfloat list \<Rightarrow> npfloat list \<Rightarrow> error + (npfloat \<times> nat \<times> bool)" where
  "calc_rhov_classify L P T xi e vlist Plist Pvspline roots extrema =
     (let l_roots = length roots in
      if np_any_isnan roots then Inr (NaN, 3, False)
      else if l_roots = 0 then
        bindE (lastE vlist) (\<lambda>vend.
        bindE (spline_call L Pvspline (fdiv (Num 1) vend)) (\<lambda>pv.
        if flt pv (Num 0) then
          bindE (try_except
                   (bindE (nthE vlist 0) (\<lambda>v0.
                    bindE (density_max e xi T) (\<lambda>dm.
                    minimize L (\<lambda>rho. Pdiff rho P T xi e) (fdiv (Num 1) v0)
                      (Num (1 / 10 ^ 28), fmul dm (Num (99 / 100))))))
                   (bindE (nthE vlist 0) (\<lambda>v0. Inr (fdiv (Num 1) v0)))) (\<lambda>rho_tmp.
          Inr (rho_tmp, if extrema = [] then 2 else 1, True))
        else
          bindE (py_min Plist) (\<lambda>pmin.
          if fgt (fadd pmin P) (Num 0) then
            bindE (polyfit L (last_n 4 vlist) (last_n 4 Plist)) (\<lambda>(slope, yroot).
            let vroot = fdiv (fneg yroot) slope in
            bindE (try_except
                     (bindE (lastE roots) (\<lambda>rl.
                      bindE (pydiv (Num 1) (fmul (Num (11 / 10)) rl)) (\<lambda>upper.
                      minimize L (\<lambda>rho. Pdiff rho P T xi e) (fdiv (Num 1) vroot)
                        (Num (1 / 10 ^ 28), upper))))
                     (Inr NaN)) (\<lambda>rho_tmp.
            Inr (rho_tmp, if isnan rho_tmp then 4 else 0, False)))
          else Inr (NaN, 3, False))))
      else if l_roots = 1 then
        (if extrema = [] then
           bindE (pydiv (Num 1) (roots ! 0)) (\<lambda>rho_tmp. Inr (rho_tmp, 2, False))
         else
           bindE (spline_call L Pvspline (roots ! 0)) (\<lambda>pr.
           bindE (py_max extrema) (\<lambda>emax.
           bindE (spline_call L Pvspline emax) (\<lambda>pe.
           if fgt (fadd pr P) (fadd pe P) then
             bindE (pydiv (Num 1) (roots ! 0)) (\<lambda>rho_tmp. Inr (rho_tmp, 1, False))
           else if 1 < length extrema then
             bindE (pydiv (Num 1) (roots ! 0)) (\<lambda>rho_tmp. Inr (rho_tmp, 0, False))
           else Inl UnboundLocalError))))
      else if l_roots = 2 then
        bindE (spline_call L Pvspline (roots ! 0)) (\<lambda>pr.
        if flt (fadd pr P) (Num 0) then
          bindE (pydiv (Num 1) (roots ! 0)) (\<lambda>rho_tmp. Inr (rho_tmp, 1, False))
        else
          bindE (polyfit L (last_n 4 vlist) (last_n 4 Plist)) (\<lambda>(slope, yroot).
          let vroot = fdiv (fneg yroot) slope in
          bindE (pydiv (Num 1) (fmul (Num (11 / 10)) (last roots))) (\<lambda>upper.
          bindE (minimize L (\<lambda>rho. Pdiff rho P T xi e) (fdiv (Num 1) vroot)
                   (Num (1 / 10 ^ 28), upper)) (\<lambda>rho_tmp.
          Inr (rho_tmp, 0, False)))))
      else
        bindE (pydiv (Num 1) (roots ! 2)) (\<lambda>rho_tmp. Inr (rho_tmp, 0, False)))"

text \<open>
  \<^verbatim>\<open>calc_rhov\<close>, second part: for a vapor or a critical fluid the estimate is refined,
  by \<^verbatim>\<open>brentq\<close> when the pressure difference changes sign within one percent of it
  (the upper end capped by the maximum density), by \<^verbatim>\<open>minimize\<close> otherwise unless
  the first shifted pressure is negative or \<^verbatim>\<open>flag_NoOpt\<close> is set.
\<close>

definition calc_rhov_refine ::
  "'s scipy \<Rightarrow> npfloat \<Rightarrow> npfloat \<Rightarrow> npfloat list \<Rightarrow> eos \<Rightarrow> npfloat list
     \<Rightarrow> npfloat \<Rightarrow> nat \<Rightarrow> bool \<Rightarrow> error + npfloat" where
  "calc_rhov_refine L P T xi e Plist rho_tmp flag flag_NoOpt =
     (if flag = 0 \<or> flag = 2 then
        bindE (density_max e xi T) (\<lambda>dm.
        let lo = fmul rho_tmp (Num (99 / 100));
            hi = (if fgt (fmul rho_tmp (Num (101 / 100))) (fmul dm (Num (9999 / 10000)))
                  then fmul dm (Num (9999 / 10000)) else fmul rho_tmp (Num (101 / 100)))
        in
        bindE (Pdiff lo P T xi e) (\<lambda>d0.
        bindE (Pdiff hi P T xi e) (\<lambda>d1.
        if flt (fmul d0 d1) (Num 0) then brentq L (\<lambda>rho. Pdiff rho P T xi e) lo hi
        else
          bindE (nthE Plist 0) (\<lambda>p0.
          if flt p0 (Num 0) then Inr rho_tmp
          else if \<not> flag_NoOpt then
            minimize L (\<lambda>rho. Pdiff rho P T xi e) rho_tmp
              (Num (1 / 10 ^ 28), fmul dm (Num (99 / 100)))
          else Inr rho_tmp))))
      else Inr rho_tmp)"

definition calc_rhov ::
  "'s scipy \<Rightarrow> npfloat \<Rightarrow> npfloat \<Rightarrow> npfloat list \<Rightarrow> eos \<Rightarrow> rhodict \<Rightarrow> error + (npfloat \<times> nat)" where
  "calc_rhov L P T xi e rd =
     bindE (PvsRho T xi e rd) (\<lambda>(vlist, Plist0).
     let Plist = map (\<lambda>p. fsub p P) Plist0 in
     bindE (PvsV_spline L vlist Plist) (\<lambda>(Pvspline, roots, extrema).
     bindE (calc_rhov_classify L P T xi e vlist Plist Pvspline roots extrema)
       (\<lambda>(rho_tmp, flag, flag_NoOpt).
     bindE (calc_rhov_refine L P T xi e Plist rho_tmp flag flag_NoOpt) (\<lambda>rho.
     Inr (rho, flag)))))"

text \<open>
  \<^verbatim>\<open>calc_rhol\<close>: the same two parts for the liquid. The warning for a single extremum
  formats \<^verbatim>\<open>1/extrema[0]\<close>; with no root the spline value at the boundary is tested for
  being nonzero; two roots are looked at before one.
\<close>

definition calc_rhol_classify ::
  "'s scipy \<Rightarrow> npfloat \<Rightarrow> npfloat \<Rightarrow> npfloat list \<Rightarrow> eos \<Rightarrow> npfloat list \<Rightarrow> npfloat list
     \<Rightarrow> 's \<Rightarrow> npfloat list \<Rightarrow> npfloat list \<Rightarrow> error + (npfloat \<times> nat \<times> bool)" where
  "calc_rhol_classify L P T xi e vlist Plist Pvspline roots extrema =
     bindE (if length extrema = 1 then bindE (pydiv (Num 1) (extrema ! 0)) (\<lambda>_. Inr ())
            else Inr ()) (\<lambda>_.
     let l_roots = length roots in
     if np_any_isnan roots then Inr (NaN, 3, False)
     else if l_roots = 0 then
       bindE (lastE vlist) (\<lambda>vend.
       bindE (spline_call L Pvspline (fdiv (Num 1) vend)) (\<lambda>pv.
       if nonzero pv then
         bindE (try_except
                  (bindE (nthE vlist 0) (\<lambda>v0.
                   bindE (density_max e xi T) (\<lambda>dm.
                   minimize L (\<lambda>rho. Pdiff rho P T xi e) (fdiv (Num 1) v0)
                     (Num (1 / 10 ^ 28), fmul dm (Num (99 / 100))))))
                  (bindE (nthE vlist 0) (\<lambda>v0. Inr (fdiv (Num 1) v0)))) (\<lambda>rho_tmp.
         Inr (rho_tmp, if extrema = [] then 2 else 1, True))
       else
         bindE (py_min Plist) (\<lambda>pmin.
         if fgt (fadd pmin P) (Num 0) then
           bindE (polyfit L (last_n 4 vlist) (last_n 4 Plist)) (\<lambda>(slope, yroot).
           let vroot = fdiv (fneg yroot) slope in
           bindE (try_except
                    (bindE (lastE roots) (\<lambda>rl.
                     bindE (pydiv (Num 1) (fmul (Num (11 / 10)) rl)) (\<lambda>upper.
                     minimize L (\<lambda>rho. Pdiff rho P T xi e) (fdiv (Num 1) vroot)
                       (Num (1 / 10 ^ 28), upper))))
                    (Inr NaN)) (\<lambda>rho_tmp.
           Inr (rho_tmp, if isnan rho_tmp then 4 else 0, False)))
         else Inr (NaN, 3, False))))
     else if l_roots = 2 then
       bindE (spline_call L Pvspline (roots ! 0)) (\<lambda>pr.
       bindE (pydiv (Num 1) (roots ! 0)) (\<lambda>rho_tmp. Inr (rho_tmp, 1, False)))
     else if l_roots = 1 then
       (if extrema = [] then
          bindE (interp_vroot (roots ! 0) vlist Plist) (\<lambda>(v, is_numpy).
          bindE (if is_numpy then Inr (fdiv (Num 1) v) else pydiv (Num 1) v) (\<lambda>rho_tmp.
          Inr (rho_tmp, 2, False)))
        else
          bindE (spline_call L Pvspline (roots ! 0)) (\<lambda>pr.
          bindE (py_max extrema) (\<lambda>emax.
          bindE (spline_call L Pvspline emax) (\<lambda>pe.
          if fgt (fadd pr P) (fadd pe P) then
            bindE (pydiv (Num 1) (roots ! 0)) (\<lambda>rho_tmp. Inr (rho_tmp, 1, False))
          else if 1 < length extrema then
            bindE (pydiv (Num 1) (roots ! 0)) (\<lambda>rho_tmp. Inr (rho_tmp, 0, False))
          else Inl UnboundLocalError))))
     else
       bindE (pydiv (Num 1) (roots ! 0)) (\<lambda>rho_tmp. Inr (rho_tmp, 1, False)))"

definition calc_rhol_refine ::
  "'s scipy \<Rightarrow> npfloat \<Rightarrow> npfloat \<Rightarrow> npfloat list \<Rightarrow> eos \<Rightarrow> npfloat list
     \<Rightarrow> npfloat \<Rightarrow> nat \<Rightarrow> bool \<Rightarrow> error + npfloat" where
  "calc_rhol_refine L P T xi e Plist rho_tmp flag flag_NoOpt =
     (if flag = 1 \<or> flag = 2 then
        (let lo = fmul rho_tmp (Num (99 / 100));
             hi = fmul rho_tmp (Num (101 / 100))
         in
         bindE (Pdiff lo P T xi e) (\<lambda>d0.
         bindE (Pdiff hi P T xi e) (\<lambda>d1.
         if flt (fmul d0 d1) (Num 0) then brentq L (\<lambda>rho. Pdiff rho P T xi e) lo hi
         else
           bindE (nthE Plist 0) (\<lambda>p0.
           if flt p0 (Num 0) then Inr rho_tmp
           else if \<not> flag_NoOpt then
             bindE (density_max e xi T) (\<lambda>dm.
             minimize L (\<lambda>rho. Pdiff rho P T xi e) rho_tmp
               (Num (1 / 10 ^ 28), fmul dm (Num (99 / 100))))
           else Inr rho_tmp))))
      else Inr rho_tmp)"

definition calc_rhol ::
  "'s scipy \<Rightarrow> npfloat \<Rightarrow> npfloat \<Rightarrow> npfloat list \<Rightarrow> eos \<Rightarrow> rhodict \<Rightarrow> error + (npfloat \<times> nat)" where
  "calc_rhol L P T xi e rd =
     bindE (PvsRho T xi e rd) (\<lambda>(vlist, Plist0).
     let Plist = map (\<lambda>p. fsub p P) Plist0 in
     bindE (PvsV_spline L vlist Plist) (\<lambda>(Pvspline, roots, extrema).
     bindE (calc_rhol_classify L P T xi e vlist Plist Pvspline roots extrema)
       (\<lambda>(rho_tmp, flag, flag_NoOpt).
     bindE (calc_rhol_refine L P T xi e Plist rho_tmp flag flag_NoOpt) (\<lambda>rho.
     Inr (rho, flag)))))"

section \<open>The fugacity layer\<close>

text \<open>
  \<^verbatim>\<open>
  rhov, flagv = calc_rhov(P, T, yi, eos, rhodict)
  if flagv == 4:
      phiv = np.ones_like(yi)
      rhov = 0.
  elif flagv == 3:
      phiv = np.array([np.nan,np.nan])
  else:
      phiv = eos.fugacity_coefficient(P, np.array([rhov]), yi, T)
  return phiv, rhov, flagv
  \<close>
  \<^verbatim>\<open>calc_phil\<close> has no branch for flag 4.
\<close>

definition calc_phiv ::
  "'s scipy \<Rightarrow> npfloat \<Rightarrow> npfloat \<Rightarrow> npfloat list \<Rightarrow> eos \<Rightarrow> rhodict
     \<Rightarrow> error + (npfloat list \<times> npfloat \<times> nat)" where
  "calc_phiv L P T yi e rd =
     bindE (calc_rhov L P T yi e rd) (\<lambda>(rhov, flagv).
     if flagv = 4 then Inr (replicate (length yi) (Num 1), Num 0, flagv)
     else if flagv = 3 then Inr ([NaN, NaN], rhov, flagv)
     else bindE (fugacity_coefficient e P rhov yi T) (\<lambda>phiv. Inr (phiv, rhov, flagv)))"

definition calc_phil ::
  "'s scipy \<Rightarrow> npfloat \<Rightarrow> npfloat \<Rightarrow> npfloat list \<Rightarrow> eos \<Rightarrow> rhodict
     \<Rightarrow> error + (npfloat list \<times> npfloat \<times> nat)" where
  "calc_phil L P T xi e rd =
     bindE (calc_rhol L P T xi e rd) (\<lambda>(rhol, flagl).
     if flagl = 3 then Inr ([NaN, NaN], rhol, flagl)
     else bindE (fugacity_coefficient e P rhol xi T) (\<lambda>phil. Inr (phil, rhol, flagl)))"

section \<open>The fallback saturation pressures \<^verbatim>\<open>setPsat\<close>\<close>

text \<open>\<^verbatim>\<open>"CH4" in name\<close>: the substring test of Python.\<close>

fun is_substring :: "string \<Rightarrow> string \<Rightarrow> bool" where
  "is_substring s [] = (s = [])"
| "is_substring s (c # cs) = (take (length s) (c # cs) = s \<or> is_substring s cs)"

text \<open>
  \<^verbatim>\<open>
  for j in range(np.size(eos.nui[ind])):
      if eos.nui[ind][j] > 0.0 and eos.beads[j] == "CO2":
          Psat = 10377000.0
      elif eos.nui[ind][j] > 0.0 and eos.beads[j] == "N2":
          Psat = 7377000.0
      elif eos.nui[ind][j] > 0.0 and ("CH4" in eos.beads[j]):
          Psat = 6377000.0
      elif eos.nui[ind][j] > 0.0 and ("CH3CH3" in eos.beads[j]):
          Psat = 7377000.0
      elif eos.nui[ind][j] > 0.0:
          Psat = 7377000.0
          NaNbead = eos.beads[j]
  if "NaNbead" not in list(locals().keys()):
     NaNbead = "No NaNbead"
  return Psat, NaNbead
  \<close>
  The loop carries the two local variables, unbound at first. \<^verbatim>\<open>eos.beads[j]\<close> is read
  only where \<^verbatim>\<open>eos.nui[ind][j] > 0.0\<close>.
\<close>

fun setPsat_loop ::
  "nat list \<Rightarrow> npfloat list \<Rightarrow> string list \<Rightarrow> npfloat option \<times> string option
     \<Rightarrow> error + (npfloat option \<times> string option)" where
  "setPsat_loop [] row bs st = Inr st"
| "setPsat_loop (j # js) row bs (Psat, NaNbead) =
     (if fgt (row ! j) (Num 0) then
        bindE (nthE bs j) (\<lambda>b.
        if b = ''CO2'' then setPsat_loop js row bs (Some (Num 10377000), NaNbead)
        else if b = ''N2'' then setPsat_loop js row bs (Some (Num 7377000), NaNbead)
        else if is_substring ''CH4'' b then setPsat_loop js row bs (Some (Num 6377000), NaNbead)
        else if is_substring ''CH3CH3'' b then setPsat_loop js row bs (Some (Num 7377000), NaNbead)
        else setPsat_loop js row bs (Some (Num 7377000), Some b))
      else setPsat_loop js row bs (Psat, NaNbead))"

definition setPsat :: "nat \<Rightarrow> eos \<Rightarrow> error + (npfloat \<times> string)" where
  "setPsat ind e =
     bindE (nthE (nui e) ind) (\<lambda>row.
     bindE (setPsat_loop [0..<length row] row (beads e) (None, None)) (\<lambda>(Psat, NaNbead).
     case Psat of
       None \<Rightarrow> Inl UnboundLocalError
     | Some p \<Rightarrow> Inr (p, case NaNbead of None \<Rightarrow> ''No NaNbead'' | Some b \<Rightarrow> b)))"

section \<open>The inner composition solver \<^verbatim>\<open>solve_yi_xiT\<close>\<close>

text \<open>
  The module-level variables \<^verbatim>\<open>yi_global\<close> and \<^verbatim>\<open>xi_global\<close>, absent until first
  assigned, are passed in and out.
\<close>

record globals =
  yi_global :: "npfloat list option"
  xi_global :: "npfloat list option"

text \<open>
  The composition searches \<^verbatim>\<open>find_new_yi(P, T, phil, xi, ...)\<close> and
  \<^verbatim>\<open>bracket_bounding_yi(P, T, phil, xi, ..., bounds)\<close> and the random vector
  \<^verbatim>\<open>np.random.rand(n)\<close> are parameters of the model: what follows holds whatever they
  return or raise.
\<close>

record searches =
  find_new_yi :: "npfloat \<Rightarrow> npfloat \<Rightarrow> npfloat list \<Rightarrow> npfloat list \<Rightarrow> error + npfloat list"
  bracket_bounding_yi ::
    "npfloat \<Rightarrow> npfloat \<Rightarrow> npfloat list \<Rightarrow> npfloat list \<Rightarrow> npfloat \<times> npfloat
       \<Rightarrow> error + (npfloat list \<times> npfloat)"
  random_rand :: "nat \<Rightarrow> npfloat list"

text \<open>
  \<^verbatim>\<open>obj_yi\<close>: a single number (as \<^verbatim>\<open>least_squares\<close> passes it) stands for the first
  mole fraction of a binary mixture.
\<close>

definition obj_yi ::
  "'s scipy \<Rightarrow> npfloat list \<Rightarrow> npfloat \<Rightarrow> npfloat \<Rightarrow> npfloat list \<Rightarrow> npfloat list \<Rightarrow> eos \<Rightarrow> rhodict
     \<Rightarrow> error + (npfloat \<times> nat)" where
  "obj_yi L yi0 P T phil xi e rd =
     bindE (if length yi0 = 1 then Inr [yi0 ! 0, fsub (Num 1) (yi0 ! 0)] else Inr yi0) (\<lambda>yi1.
     let yi = map (\<lambda>y. fdiv y (np_sum yi1)) yi1 in
     bindE (calc_phiv L P T yi e rd) (\<lambda>(phiv, rhov, flagv).
     bindE (np_binop fmul yi phiv) (\<lambda>tmp1.
     bindE (np_binop fmul xi phil) (\<lambda>xp.
     bindE (np_binop fdiv xp phiv) (\<lambda>yinew.
     let yi2 = map (\<lambda>y. fdiv y (np_sum yinew)) yinew in
     bindE (calc_phiv L P T yi2 e rd) (\<lambda>(phiv2, rhov2, flagv2).
     bindE (np_binop fmul yi2 phiv2) (\<lambda>tmp2.
     bindE (np_binop fdiv xp phiv2) (\<lambda>q.
     bindE (np_binop fsub yinew q) (\<lambda>d.
     Inr (np_sum (map fabs d), flagv))))))))))"

text \<open>
  The local variables of \<^verbatim>\<open>solve_yi_xiT\<close> that live across iterations and after the
  loop. \<^verbatim>\<open>yinew\<close>, \<^verbatim>\<open>yi2\<close>, \<^verbatim>\<open>phiv2\<close> and \<^verbatim>\<open>flagv2\<close> are unbound until an
  iteration assigns them. Where the source stores the scalar \<^verbatim>\<open>np.nan\<close> in \<^verbatim>\<open>phiv\<close>,
  the model stores the one-entry array (the value is not read again before it is
  reassigned).
\<close>

record yi_state =
  s_yi :: "npfloat list"
  s_yi_total :: "npfloat list"
  s_flag_check_vapor :: bool
  s_flag_trivial_sol :: bool
  s_yi_tmp :: "npfloat list"
  s_phiv :: "npfloat list"
  s_rhov :: npfloat
  s_flagv :: nat
  s_yinew :: "npfloat list option"
  s_yi2 :: "npfloat list option"
  s_phiv2 :: "npfloat list option"
  s_flagv2 :: "nat option"

text \<open>
  \<^verbatim>\<open>np.where(yi_tmp == min(yi_tmp[yi_tmp>0]))[0]\<close>, and the relative change of the
  entries at those positions, \<^verbatim>\<open>np.abs(yi2[ind_tmp] - yi_tmp[ind_tmp]) / yi_tmp[ind_tmp]\<close>.
\<close>

definition smallest_fraction_index :: "npfloat list \<Rightarrow> error + nat list" where
  "smallest_fraction_index ys =
     bindE (py_min (filter (\<lambda>y. fgt y (Num 0)) ys)) (\<lambda>m.
     Inr (filter (\<lambda>i. feq (ys ! i) m) [0..<length ys]))"

definition relative_change :: "npfloat list \<Rightarrow> npfloat list \<Rightarrow> nat list \<Rightarrow> error + npfloat list" where
  "relative_change ys2 ys ind =
     bindE (mapE (nthE ys2) ind) (\<lambda>a.
     bindE (mapE (nthE ys) ind) (\<lambda>b.
     Inr (map2 (\<lambda>u v. fdiv (fabs (fsub u v)) v) a b)))"

text \<open>
  One pass through the body of the loop \<^verbatim>\<open>for z in range(maxiter)\<close> is
  \<open>solve_yi_step\<close>: the result holds the variables after the pass and tells whether the
  pass ended in \<^verbatim>\<open>break\<close>. Its first half (\<open>solve_yi_propose\<close>, lines 1334 to 1370)
  evaluates the current guess and proposes the new mole numbers \<^verbatim>\<open>yinew\<close>, through a
  new guess (\<open>solve_yi_new_guess\<close>) when the guess gives no vapor or the trivial
  solution; its second half (\<open>solve_yi_check\<close>, lines 1372 to 1405) evaluates the
  normalised proposal and tests for bouncing and for convergence.
\<close>

definition solve_yi_new_guess ::
  "'s scipy \<Rightarrow> searches \<Rightarrow> bool \<Rightarrow> npfloat list \<Rightarrow> npfloat list \<Rightarrow> npfloat \<Rightarrow> npfloat \<Rightarrow> eos \<Rightarrow> rhodict
     \<Rightarrow> yi_state \<Rightarrow> error + (yi_state \<times> bool)" where
  "solve_yi_new_guess L S search xi phil P T e rd s =
     bindE (if search then find_new_yi S P T phil xi
            else (let r = random_rand S (length (s_yi_tmp s))
                  in Inr (map (\<lambda>y. fdiv y (np_sum r)) r))) (\<lambda>yi2.
     if np_any_isnan yi2
     then Inr (s\<lparr>s_yi2 := Some yi2, s_phiv := [NaN], s_rhov := NaN, s_flagv := 3\<rparr>, True)
     else
       bindE (calc_phiv L P T yi2 e rd) (\<lambda>(phiv, rhov, flagv).
       bindE (np_binop fmul xi phil) (\<lambda>xp.
       bindE (np_binop fdiv xp phiv) (\<lambda>yinew.
       Inr (s\<lparr>s_yi2 := Some yi2, s_phiv := phiv, s_rhov := rhov, s_flagv := flagv,
               s_yinew := Some yinew\<rparr>, False)))))"

definition solve_yi_propose ::
  "'s scipy \<Rightarrow> searches \<Rightarrow> npfloat list \<Rightarrow> npfloat list \<Rightarrow> npfloat \<Rightarrow> npfloat \<Rightarrow> eos \<Rightarrow> rhodict
     \<Rightarrow> yi_state \<Rightarrow> error + (yi_state \<times> bool)" where
  "solve_yi_propose L S xi phil P T e rd s0 =
     (let yi_tmp = map (\<lambda>y. fdiv y (np_sum (s_yi s0))) (s_yi s0) in
      bindE (calc_phiv L P T yi_tmp e rd) (\<lambda>(phiv, rhov, flagv).
      let s1 = s0\<lparr>s_yi_tmp := yi_tmp, s_phiv := phiv, s_rhov := rhov, s_flagv := flagv\<rparr> in
      if (np_any_isnan phiv \<or> flagv = 1) \<and> s_flag_check_vapor s1 then
        (let s2 = s1\<lparr>s_flag_check_vapor := False\<rparr> in
         if list_all nonzero yi_tmp \<and> length yi_tmp = 2
         then solve_yi_new_guess L S True xi phil P T e rd s2
         else Inr (s2\<lparr>s_yinew := Some (s_yi s2)\<rparr>, False))
      else
        bindE (np_binop fsub xi yi_tmp) (\<lambda>d.
        if flt (np_sum (map fabs d)) (Num (1 / 10 ^ 5)) \<and> s_flag_trivial_sol s1 then
          solve_yi_new_guess L S (list_all nonzero yi_tmp \<and> length yi_tmp = 2)
            xi phil P T e rd (s1\<lparr>s_flag_trivial_sol := False\<rparr>)
        else
          bindE (np_binop fmul xi phil) (\<lambda>xp.
          bindE (np_binop fdiv xp phiv) (\<lambda>yinew.
          Inr (s1\<lparr>s_yinew := Some yinew\<rparr>, False))))))"

text \<open>
  The test for a composition bouncing between two values, made once the history
  \<^verbatim>\<open>yi_total\<close> has more than three entries.
\<close>

definition solve_yi_bouncing :: "npfloat list \<Rightarrow> npfloat list \<Rightarrow> nat \<Rightarrow> nat \<Rightarrow> bool" where
  "solve_yi_bouncing totals yinew flagv flagv2 =
     (let n = length totals in
      3 < n \<and>
      flt (fadd (fabs (fsub (np_sum yinew) (totals ! (n - 2))))
                (fabs (fsub (totals ! (n - 1)) (totals ! (n - 3)))))
          (fabs (fsub (np_sum yinew) (totals ! (n - 1)))) \<and>
      flagv \<noteq> flagv2)"

text \<open>The convergence test: the change of the totals, then that of the smallest fraction.\<close>

definition solve_yi_converged ::
  "npfloat list \<Rightarrow> npfloat list \<Rightarrow> npfloat list \<Rightarrow> npfloat list \<Rightarrow> npfloat \<Rightarrow> error + bool" where
  "solve_yi_converged totals yinew yi2 yi_tmp tol =
     bindE (lastE totals) (\<lambda>prev.
     if flt (fabs (fsub (np_sum yinew) prev)) tol then
       bindE (smallest_fraction_index yi_tmp) (\<lambda>ind_tmp.
       bindE (relative_change yi2 yi_tmp ind_tmp) (\<lambda>change.
       array_truth (map (\<lambda>c. flt c tol) change)))
     else Inr False)"

definition solve_yi_check ::
  "'s scipy \<Rightarrow> searches \<Rightarrow> npfloat list \<Rightarrow> npfloat list \<Rightarrow> npfloat \<Rightarrow> npfloat \<Rightarrow> eos \<Rightarrow> rhodict
     \<Rightarrow> nat \<Rightarrow> npfloat \<Rightarrow> nat \<Rightarrow> yi_state \<Rightarrow> globals \<Rightarrow> npfloat list
     \<Rightarrow> error + ((yi_state \<times> globals) \<times> bool)" where
  "solve_yi_check L S xi phil P T e rd maxiter tol z s3 g yinew0 =
     (let yinew = nan_to_zero yinew0;
          yi2 = map (\<lambda>y. fdiv y (np_sum yinew)) yinew
      in
      bindE (calc_phiv L P T yi2 e rd) (\<lambda>(phiv2, rhov2, flagv2).
      let s4 = s3\<lparr>s_yinew := Some yinew, s_yi2 := Some yi2, s_phiv2 := Some phiv2,
                  s_flagv2 := Some flagv2,
                  s_phiv := (if np_any_isnan (s_phiv s3) then [NaN] else s_phiv s3)\<rparr>;
          totals = s_yi_total s4
      in
      if solve_yi_bouncing totals yinew (s_flagv s4) flagv2 then
        bindE (nthE (s_yi_tmp s4) 0) (\<lambda>a.
        bindE (nthE yi2 0) (\<lambda>b.
        bindE (bracket_bounding_yi S P T phil xi (np_sort2 a b)) (\<lambda>(yi2', obj).
        bindE (calc_phiv L P T yi2' e rd) (\<lambda>(phiv2', rhov2', flagv2').
        Inr ((s4\<lparr>s_yi2 := Some yi2', s_phiv2 := Some phiv2', s_flagv2 := Some flagv2'\<rparr>,
              g\<lparr>yi_global := Some yi2'\<rparr>), True)))))
      else
        bindE (solve_yi_converged totals yinew yi2 (s_yi_tmp s4) tol) (\<lambda>converged.
        if converged then Inr ((s4, g\<lparr>yi_global := Some yi2\<rparr>), True)
        else if z < maxiter - 1
        then Inr ((s4\<lparr>s_yi_total := totals @ [np_sum yinew], s_yi := yinew\<rparr>, g), False)
        else Inr ((s4, g), False))))"

definition solve_yi_step ::
  "'s scipy \<Rightarrow> searches \<Rightarrow> npfloat list \<Rightarrow> npfloat list \<Rightarrow> npfloat \<Rightarrow> npfloat \<Rightarrow> eos \<Rightarrow> rhodict
     \<Rightarrow> nat \<Rightarrow> npfloat \<Rightarrow> nat \<Rightarrow> yi_state \<times> globals \<Rightarrow> error + ((yi_state \<times> globals) \<times> bool)" where
  "solve_yi_step L S xi phil P T e rd maxiter tol z sg =
     bindE (solve_yi_propose L S xi phil P T e rd (fst sg)) (\<lambda>(s3, stop).
     if stop then Inr ((s3, snd sg), True)
     else
       (case s_yinew s3 of
          None \<Rightarrow> Inl UnboundLocalError
        | Some yinew0 \<Rightarrow> solve_yi_check L S xi phil P T e rd maxiter tol z s3 (snd sg) yinew0))"

text \<open>
  \<^verbatim>\<open>for z in range(maxiter)\<close>: the passes are made for \<open>z\<close>, \<open>z + 1\<close>, ... while
  \<open>n\<close> of them remain; the result holds the variables and the value of \<open>z\<close> at the
  exit, which is \<open>maxiter - 1\<close> when the range is used up.
\<close>

fun for_range ::
  "(nat \<Rightarrow> 'a \<Rightarrow> error + ('a \<times> bool)) \<Rightarrow> nat \<Rightarrow> nat \<Rightarrow> 'a \<Rightarrow> error + ('a \<times> nat)" where
  "for_range body z 0 s = Inr (s, z - 1)"
| "for_range body z (Suc n) s =
     bindE (body z s) (\<lambda>(s', stop).
     if stop then Inr (s', z) else for_range body (Suc z) n s')"

text \<open>
  The block after the loop, lines 1407 to 1431 of the source:
  \<^verbatim>\<open>
  ind_tmp = np.where(yi_tmp == min(yi_tmp[yi_tmp>0.]))[0]
  if flagv==3:
      yi2 = yinew/np.sum(yinew)
      phiv2 = np.full(len(yi_tmp), np.nan)
      flagv2 = np.nan
  elif z == maxiter - 1:
      yi2 = yinew/np.sum(yinew)
      tmp = (np.abs(yi2[ind_tmp] - yi_tmp[ind_tmp]) / yi_tmp[ind_tmp])
      if tmp > .1:
          yinew = find_new_yi(P, T, phil, xi, eos, rhodict=rhodict)
      y1 = spo.least_squares(obj_yi, yi2[0], bounds=(0.,1.), args=(P, T, phil, xi, eos, rhodict))
      yi = y1.x[0]
      yi = np.array([yi,1-yi])
      phiv, rhov, flagv = calc_phiv(P, T, yi, eos, rhodict=rhodict)
      obj = obj_yi(yi, P, T, phil, xi, eos, rhodict=rhodict)
      if obj > tol:
          phiv = np.full(len(yi_tmp),np.nan)
          flagv = 3
  return yi2, phiv2, flagv2
  \<close>
  The flag returned is an integer or, in the first branch, \<^verbatim>\<open>np.nan\<close>. The function
  gives the variables at the \<^verbatim>\<open>return\<close> as well, so that the last assignments to
  \<^verbatim>\<open>phiv\<close> and \<^verbatim>\<open>flagv\<close> can be seen.
\<close>

datatype pflag = Flag nat | Flag_nan

definition solve_yi_finish ::
  "'s scipy \<Rightarrow> searches \<Rightarrow> npfloat list \<Rightarrow> npfloat list \<Rightarrow> npfloat \<Rightarrow> npfloat \<Rightarrow> eos \<Rightarrow> rhodict
     \<Rightarrow> nat \<Rightarrow> npfloat \<Rightarrow> nat \<Rightarrow> yi_state
     \<Rightarrow> error + ((npfloat list \<times> npfloat list \<times> pflag) \<times> yi_state)" where
  "solve_yi_finish L S xi phil P T e rd maxiter tol z s =
     bindE (smallest_fraction_index (s_yi_tmp s)) (\<lambda>ind_tmp.
     if s_flagv s = 3 then
       (case s_yinew s of
          None \<Rightarrow> Inl UnboundLocalError
        | Some yinew \<Rightarrow>
            Inr ((map (\<lambda>y. fdiv y (np_sum yinew)) yinew,
                  replicate (length (s_yi_tmp s)) NaN, Flag_nan), s))
     else if z = maxiter - 1 then
       (case s_yinew s of
          None \<Rightarrow> Inl UnboundLocalError
        | Some yinew \<Rightarrow>
       let yi2 = map (\<lambda>y. fdiv y (np_sum yinew)) yinew in
       bindE (relative_change yi2 (s_yi_tmp s) ind_tmp) (\<lambda>tmp.
       bindE (array_truth (map (\<lambda>c. fgt c (Num (1 / 10))) tmp)) (\<lambda>above.
       bindE (if above then bindE (find_new_yi S P T phil xi) (\<lambda>y. Inr (Some y))
              else Inr (Some yinew)) (\<lambda>yinew'.
       bindE (nthE yi2 0) (\<lambda>start.
       bindE (least_squares L (\<lambda>y. bindE (obj_yi L [y] P T phil xi e rd) (\<lambda>r. Inr (fst r)))
                start (Num 0, Num 1)) (\<lambda>y1.
       let yi = [y1, fsub (Num 1) y1] in
       bindE (calc_phiv L P T yi e rd) (\<lambda>(phiv, rhov, flagv).
       bindE (obj_yi L yi P T phil xi e rd) (\<lambda>(obj, oflag).
       let s1 = s\<lparr>s_yi := yi, s_yinew := yinew', s_yi2 := Some yi2,
                  s_phiv := phiv, s_rhov := rhov, s_flagv := flagv\<rparr>;
           s2 = (if fgt obj tol
                 then s1\<lparr>s_phiv := replicate (length (s_yi_tmp s)) NaN, s_flagv := 3\<rparr>
                 else s1)
       in
       (case (s_phiv2 s2, s_flagv2 s2) of
          (Some phiv2, Some flagv2) \<Rightarrow> Inr ((yi2, phiv2, Flag flagv2), s2)
        | _ \<Rightarrow> Inl UnboundLocalError)))))))))
     else
       (case (s_yi2 s, s_phiv2 s, s_flagv2 s) of
          (Some yi2, Some phiv2, Some flagv2) \<Rightarrow> Inr ((yi2, phiv2, Flag flagv2), s)
        | _ \<Rightarrow> Inl UnboundLocalError))"

text \<open>
  \<^verbatim>\<open>solve_yi_xiT(yi, xi, phil, P, T, eos, rhodict, maxiter, tol)\<close>: the guess is
  normalised, the loop is run and the block after it gives the result
  \<^verbatim>\<open>(yi2, phiv2, flagv2)\<close>. With \<open>maxiter = 0\<close> no pass is made and the block after
  the loop reads the unbound \<^verbatim>\<open>yi_tmp\<close>. The defaults are \<open>maxiter = 30\<close> and
  \<open>tol = 1e-8\<close>.
\<close>

definition solve_yi_maxiter :: nat where
  "solve_yi_maxiter = 30"

definition solve_yi_tol :: npfloat where
  "solve_yi_tol = Num (1 / 10 ^ 8)"

definition solve_yi_init :: "npfloat list \<Rightarrow> yi_state" where
  "solve_yi_init yi0 =
     \<lparr>s_yi = map (\<lambda>y. fdiv y (np_sum yi0)) yi0, s_yi_total = [np_sum yi0],
      s_flag_check_vapor = True, s_flag_trivial_sol = True,
      s_yi_tmp = [], s_phiv = [], s_rhov = NaN, s_flagv = 0,
      s_yinew = None, s_yi2 = None, s_phiv2 = None, s_flagv2 = None\<rparr>"

definition solve_yi_xiT_run ::
  "'s scipy \<Rightarrow> searches \<Rightarrow> npfloat list \<Rightarrow> npfloat list \<Rightarrow> npfloat list \<Rightarrow> npfloat \<Rightarrow> npfloat
     \<Rightarrow> eos \<Rightarrow> rhodict \<Rightarrow> nat \<Rightarrow> npfloat \<Rightarrow> globals
     \<Rightarrow> error + (((npfloat list \<times> npfloat list \<times> pflag) \<times> yi_state) \<times> globals)" where
  "solve_yi_xiT_run L S yi0 xi phil P T e rd maxiter tol g =
     (if maxiter = 0 then Inl UnboundLocalError
      else
        bindE (for_range (solve_yi_step L S xi phil P T e rd maxiter tol) 0 maxiter
                 (solve_yi_init yi0, g)) (\<lambda>((s, g'), z).
        bindE (solve_yi_finish L S xi phil P T e rd maxiter tol z s) (\<lambda>r.
        Inr (r, g'))))"

definition solve_yi_xiT ::
  "'s scipy \<Rightarrow> searches \<Rightarrow> npfloat list \<Rightarrow> npfloat list \<Rightarrow> npfloat list \<Rightarrow> npfloat \<Rightarrow> npfloat
     \<Rightarrow> eos \<Rightarrow> rhodict \<Rightarrow> nat \<Rightarrow> npfloat \<Rightarrow> globals
     \<Rightarrow> error + ((npfloat list \<times> npfloat list \<times> pflag) \<times> globals)" where
  "solve_yi_xiT L S yi0 xi phil P T e rd maxiter tol g =
     bindE (solve_yi_xiT_run L S yi0 xi phil P T e rd maxiter tol g) (\<lambda>((r, s), g').
     Inr (r, g'))"

section \<open>The inner composition solver \<^verbatim>\<open>solve_xi_yiT\<close>\<close>

text \<open>
  \<^verbatim>\<open>obj_xi(xi, P, T, phiv, yi, eos, rhodict)\<close>: a single number stands for the first
  mole fraction of a binary mixture.
  \<^verbatim>\<open>
  phil, rhol, flagl = calc_phil(P, T, xi, eos, rhodict=rhodict)
  xinew = yi * phiv / phil
  xinew_total_1 = np.sum(xinew)
  xi2 = xinew/xinew_total_1
  phil2, rhol2, flagl2 = calc_phil(P, T, xi2, eos, rhodict=rhodict)
  xinew = yi * phiv / phil2
  xinew_total_2 = np.sum(xinew)
  obj = np.abs(xinew_total_1 - xinew_total_2)
  \<close>
\<close>

definition obj_xi ::
  "'s scipy \<Rightarrow> npfloat list \<Rightarrow> npfloat \<Rightarrow> npfloat \<Rightarrow> npfloat list \<Rightarrow> npfloat list \<Rightarrow> eos \<Rightarrow> rhodict
     \<Rightarrow> error + npfloat" where
  "obj_xi L xi0 P T phiv yi e rd =
     (let xi = (if length xi0 = 1 then [xi0 ! 0, fsub (Num 1) (xi0 ! 0)] else xi0) in
      bindE (calc_phil L P T xi e rd) (\<lambda>(phil, rhol, flagl).
      bindE (np_binop fmul yi phiv) (\<lambda>yp.
      bindE (np_binop fdiv yp phil) (\<lambda>xinew.
      let xinew_total_1 = np_sum xinew;
          xi2 = map (\<lambda>x. fdiv x xinew_total_1) xinew
      in
      bindE (calc_phil L P T xi2 e rd) (\<lambda>(phil2, rhol2, flagl2).
      bindE (np_binop fdiv yp phil2) (\<lambda>xinew'.
      Inr (fabs (fsub xinew_total_1 (np_sum xinew')))))))))"

text \<open>
  The local variables of \<^verbatim>\<open>solve_xi_yiT\<close> that live across passes and after the loop.
  \<^verbatim>\<open>xinew\<close> and \<^verbatim>\<open>xi2\<close> are unbound until a pass assigns them. \<open>t_alias\<close> tells
  whether \<^verbatim>\<open>xinew\<close> is the very array \<^verbatim>\<open>xi\<close> (after \<^verbatim>\<open>xinew = xi\<close>), so that the
  assignments made in place to \<^verbatim>\<open>xinew\<close> change \<^verbatim>\<open>xi\<close> as well. Where the source stores
  the scalar \<^verbatim>\<open>np.nan\<close> in \<^verbatim>\<open>phil\<close>, the model stores the one-entry array, which
  broadcasts in the same way.
\<close>

record xi_state =
  t_xi :: "npfloat list"
  t_xi_total :: "npfloat list"
  t_xi_tmp :: "npfloat list"
  t_phil :: "npfloat list"
  t_flagl :: nat
  t_xinew :: "npfloat list option"
  t_xi2 :: "npfloat list option"
  t_alias :: bool

text \<open>
  The first half of a pass, lines 1482 to 1500; \<^verbatim>\<open>find_new_xi(P, T, phiv, yi, ...)\<close> is
  the argument \<open>F\<close> of the model.
  \<^verbatim>\<open>
  xi_tmp = xi/np.sum(xi)
  phil, rhol, flagl = calc_phil(P, T, xi_tmp, eos, rhodict=rhodict)
  if (any(np.isnan(phil)) or flagl==0):
      if all(xi != 0.):
          xinew = find_new_xi(P, T, phiv, yi, eos, rhodict=rhodict)
          phil, rhol, flagl = calc_phil(P, T, xinew, eos, rhodict=rhodict)
          xinew = yi * phiv / phil
      else:
          xinew = xi
      if any(np.isnan(phil)):
          phil = np.nan
  else:
      xinew = yi * phiv / phil
  xinew[np.isnan(xinew)] = 0.
  \<close>
\<close>

definition solve_xi_propose ::
  "'s scipy \<Rightarrow> (npfloat \<Rightarrow> npfloat \<Rightarrow> npfloat list \<Rightarrow> npfloat list \<Rightarrow> error + npfloat list)
     \<Rightarrow> npfloat list \<Rightarrow> npfloat list \<Rightarrow> npfloat \<Rightarrow> npfloat \<Rightarrow> eos \<Rightarrow> rhodict
     \<Rightarrow> xi_state \<Rightarrow> error + xi_state" where
  "solve_xi_propose L F yi phiv P T e rd s =
     (let xi_tmp = map (\<lambda>x. fdiv x (np_sum (t_xi s))) (t_xi s) in
      bindE (calc_phil L P T xi_tmp e rd) (\<lambda>(phil, rhol, flagl).
      bindE
        (if np_any_isnan phil \<or> flagl = 0 then
           bindE
             (if list_all nonzero (t_xi s) then
                bindE (F P T phiv yi) (\<lambda>xn.
                bindE (calc_phil L P T xn e rd) (\<lambda>(phil', rhol', flagl').
                bindE (np_binop fmul yi phiv) (\<lambda>yp.
                bindE (np_binop fdiv yp phil') (\<lambda>xinew.
                Inr (xinew, phil', flagl', False)))))
              else Inr (t_xi s, phil, flagl, True)) (\<lambda>(xinew, phil1, flagl1, alias).
           Inr (xinew, if np_any_isnan phil1 then [NaN] else phil1, flagl1, alias))
         else
           bindE (np_binop fmul yi phiv) (\<lambda>yp.
           bindE (np_binop fdiv yp phil) (\<lambda>xinew.
           Inr (xinew, phil, flagl, False)))) (\<lambda>(xinew0, phil2, flagl2, alias).
      let xinew = nan_to_zero xinew0 in
      Inr (s\<lparr>t_xi := (if alias then xinew else t_xi s), t_xi_tmp := xi_tmp, t_phil := phil2,
              t_flagl := flagl2, t_xinew := Some xinew, t_alias := alias\<rparr>))))"

text \<open>
  The second half of a pass, lines 1505 to 1516: the convergence test (the change of
  the totals, then that of the smallest fraction) and the update of the guess.
  \<^verbatim>\<open>
  if abs(np.sum(xinew)-xi_total[-1]) < tol:
      ind_tmp = np.where(xi_tmp == min(xi_tmp[xi_tmp>0]))[0]
      xi2 = xinew/np.sum(xinew)
      if np.abs(xi2[ind_tmp] - xi_tmp[ind_tmp]) / xi_tmp[ind_tmp] < tol:
          xi_global = xi_tmp
          break
  if z < maxiter-1:
      xi_total.append(np.sum(xinew))
      xi = xinew
  \<close>
\<close>

definition solve_xi_check ::
  "nat \<Rightarrow> npfloat \<Rightarrow> nat \<Rightarrow> xi_state \<Rightarrow> globals \<Rightarrow> npfloat list
     \<Rightarrow> error + ((xi_state \<times> globals) \<times> bool)" where
  "solve_xi_check maxiter tol z s g xinew =
     bindE (lastE (t_xi_total s)) (\<lambda>prev.
     bindE
       (if flt (fabs (fsub (np_sum xinew) prev)) tol then
          bindE (smallest_fraction_index (t_xi_tmp s)) (\<lambda>ind_tmp.
          let xi2 = map (\<lambda>x. fdiv x (np_sum xinew)) xinew in
          bindE (relative_change xi2 (t_xi_tmp s) ind_tmp) (\<lambda>change.
          bindE (array_truth (map (\<lambda>c. flt c tol) change)) (\<lambda>converged.
          Inr (Some xi2, converged))))
        else Inr (t_xi2 s, False)) (\<lambda>(xi2, converged).
     let s1 = s\<lparr>t_xi2 := xi2\<rparr> in
     if converged then Inr ((s1, g\<lparr>xi_global := Some (t_xi_tmp s1)\<rparr>), True)
     else if z < maxiter - 1
     then Inr ((s1\<lparr>t_xi_total := t_xi_total s1 @ [np_sum xinew], t_xi := xinew,
                   t_alias := True\<rparr>, g), False)
     else Inr ((s1, g), False)))"

definition solve_xi_step ::
  "'s scipy \<Rightarrow> (npfloat \<Rightarrow> npfloat \<Rightarrow> npfloat list \<Rightarrow> npfloat list \<Rightarrow> error + npfloat list)
     \<Rightarrow> npfloat list \<Rightarrow> npfloat list \<Rightarrow> npfloat \<Rightarrow> npfloat \<Rightarrow> eos \<Rightarrow> rhodict
     \<Rightarrow> nat \<Rightarrow> npfloat \<Rightarrow> nat \<Rightarrow> xi_state \<times> globals \<Rightarrow> error + ((xi_state \<times> globals) \<times> bool)" where
  "solve_xi_step L F yi phiv P T e rd maxiter tol z sg =
     bindE (solve_xi_propose L F yi phiv P T e rd (fst sg)) (\<lambda>s1.
     case t_xinew s1 of
       None \<Rightarrow> Inl UnboundLocalError
     | Some xinew \<Rightarrow> solve_xi_check maxiter tol z s1 (snd sg) xinew)"

text \<open>
  The block after the loop, lines 1518 to 1535:
  \<^verbatim>\<open>
  xinew /= np.sum(xinew)
  ind_tmp = np.where(xi == min(xi[xi>0]))[0]
  if z == maxiter - 1:
      xi2 = xinew/np.sum(xinew)
      tmp = (np.abs(xi2[ind_tmp] - xi_tmp[ind_tmp]) / xi_tmp[ind_tmp])
      if tmp > .1:
          xinew = find_new_xi(P, T, phiv, yi, eos, rhodict=rhodict)
      xinew = spo.least_squares(obj_xi, xinew[0], bounds=(0.,1.), args=(P, T, phiv, yi, eos, rhodict))
      xi = xinew.x[0]
      xi = np.array([xi,1-xi])
      obj = obj_xi(xi, P, T, phiv, yi, eos, rhodict=rhodict)
  else:
      logger.info("...".format(xi_tmp, np.abs(xi2[ind_tmp] - xi_tmp[ind_tmp]) / xi_tmp[ind_tmp]*100))
  return xi_tmp, phil, flagl
  \<close>
  Whatever the re-solve finds, the values returned are those of the last pass.
\<close>

definition solve_xi_finish ::
  "'s scipy \<Rightarrow> (npfloat \<Rightarrow> npfloat \<Rightarrow> npfloat list \<Rightarrow> npfloat list \<Rightarrow> error + npfloat list)
     \<Rightarrow> npfloat list \<Rightarrow> npfloat list \<Rightarrow> npfloat \<Rightarrow> npfloat \<Rightarrow> eos \<Rightarrow> rhodict
     \<Rightarrow> nat \<Rightarrow> nat \<Rightarrow> xi_state \<Rightarrow> error + (npfloat list \<times> npfloat list \<times> nat)" where
  "solve_xi_finish L F yi phiv P T e rd maxiter z s =
     (case t_xinew s of
        None \<Rightarrow> Inl UnboundLocalError
      | Some xinew0 \<Rightarrow>
     let xinew = map (\<lambda>x. fdiv x (np_sum xinew0)) xinew0;
         xi = (if t_alias s then xinew else t_xi s)
     in
     bindE (smallest_fraction_index xi) (\<lambda>ind_tmp.
     if z = maxiter - 1 then
       (let xi2 = map (\<lambda>x. fdiv x (np_sum xinew)) xinew in
        bindE (relative_change xi2 (t_xi_tmp s) ind_tmp) (\<lambda>tmp.
        bindE (array_truth (map (\<lambda>c. fgt c (Num (1 / 10))) tmp)) (\<lambda>above.
        bindE (if above then F P T phiv yi else Inr xinew) (\<lambda>xinew'.
        bindE (nthE xinew' 0) (\<lambda>start.
        bindE (least_squares L (\<lambda>x. obj_xi L [x] P T phiv yi e rd) start (Num 0, Num 1))
          (\<lambda>x1.
        bindE (obj_xi L [x1, fsub (Num 1) x1] P T phiv yi e rd) (\<lambda>obj.
        Inr (t_xi_tmp s, t_phil s, t_flagl s))))))))
     else
       (case t_xi2 s of
          None \<Rightarrow> Inl UnboundLocalError
        | Some xi2 \<Rightarrow>
            bindE (relative_change xi2 (t_xi_tmp s) ind_tmp) (\<lambda>shown.
            Inr (t_xi_tmp s, t_phil s, t_flagl s)))))"

text \<open>
  \<^verbatim>\<open>solve_xi_yiT(xi, yi, phiv, P, T, eos, rhodict, maxiter, tol)\<close>: the guess is
  normalised (\<^verbatim>\<open>xi /= np.sum(xi)\<close>, then \<^verbatim>\<open>xi_total = [np.sum(xi)]\<close>), the loop is run
  and the block after it gives the result \<^verbatim>\<open>(xi_tmp, phil, flagl)\<close>. With
  \<open>maxiter = 0\<close> no pass is made and the block after the loop reads the unbound
  \<^verbatim>\<open>xinew\<close>. The defaults are \<open>maxiter = 20\<close> and \<open>tol = 1e-6\<close>.
\<close>

definition solve_xi_maxiter :: nat where
  "solve_xi_maxiter = 20"

definition solve_xi_tol :: npfloat where
  "solve_xi_tol = Num (1 / 10 ^ 6)"

definition solve_xi_init :: "npfloat list \<Rightarrow> xi_state" where
  "solve_xi_init xi0 =
     (let xi = map (\<lambda>x. fdiv x (np_sum xi0)) xi0 in
      \<lparr>t_xi = xi, t_xi_total = [np_sum xi], t_xi_tmp = [], t_phil = [], t_flagl = 0,
       t_xinew = None, t_xi2 = None, t_alias = False\<rparr>)"

definition solve_xi_yiT ::
  "'s scipy \<Rightarrow> (npfloat \<Rightarrow> npfloat \<Rightarrow> npfloat list \<Rightarrow> npfloat list \<Rightarrow> error + npfloat list)
     \<Rightarrow> npfloat list \<Rightarrow> npfloat list \<Rightarrow> npfloat list \<Rightarrow> npfloat \<Rightarrow> npfloat
     \<Rightarrow> eos \<Rightarrow> rhodict \<Rightarrow> nat \<Rightarrow> npfloat \<Rightarrow> globals
     \<Rightarrow> error + ((npfloat list \<times> npfloat list \<times> nat) \<times> globals)" where
  "solve_xi_yiT L F xi0 yi phiv P T e rd maxiter tol g =
     (if maxiter = 0 then Inl UnboundLocalError
      else
        bindE (for_range (solve_xi_step L F yi phiv P T e rd maxiter tol) 0 maxiter
                 (solve_xi_init xi0, g)) (\<lambda>((s, g'), z).
        bindE (solve_xi_finish L F yi phiv P T e rd maxiter z s) (\<lambda>r.
        Inr (r, g'))))"

section \<open>The outer pressure solver\<close>

text \<open>
  The options of the inner loop, \<^verbatim>\<open>zi_opts\<close>: an iteration cap and a tolerance, each
  absent or given. The entry points lower a tolerance above \<open>1e-10\<close> to \<open>1e-10\<close>
  before the last evaluation.
\<close>

record zi_opts =
  zi_maxiter :: "nat option"
  zi_tol :: "npfloat option"

definition tighten_tol :: "zi_opts \<Rightarrow> zi_opts" where
  "tighten_tol zo =
     (case zi_tol zo of
        None \<Rightarrow> zo
      | Some t \<Rightarrow> if fgt t (Num (1 / 10 ^ 10)) then zo\<lparr>zi_tol := Some (Num (1 / 10 ^ 10))\<rparr> else zo)"

text \<open>
  What the outer solver calls besides the fugacity layer, as parameters of the model:
  the two inner composition solvers \<^verbatim>\<open>solve_yi_xiT(yi, xi, phil, P, T, ...)\<close> and
  \<^verbatim>\<open>solve_xi_yiT(xi, yi, phiv, P, T, ...)\<close> with their options, which read and write
  the module-level guesses (the embeddings of the sections above fit these fields, so
  that what is shown for every inner solver holds for the code's); the root finder \<^verbatim>\<open>gtb.solve_root(f, x0, bounds, ...)\<close>
  of the toolbox module, which evaluates the objective it is given any number of times;
  the random numbers \<^verbatim>\<open>np.random.rand(1)[0]\<close>, named by the place and the pass of the
  draw; and the numbers of roots found by \<^verbatim>\<open>np.roots\<close> for the quadratic fit and for
  the derivative of the cubic fit. The arrays an inner solver normalises in place are
  not tracked.
\<close>

record solvers =
  inner_yi ::
    "zi_opts \<Rightarrow> npfloat list \<Rightarrow> npfloat list \<Rightarrow> npfloat list \<Rightarrow> npfloat \<Rightarrow> npfloat \<Rightarrow> globals
       \<Rightarrow> error + ((npfloat list \<times> npfloat list \<times> pflag) \<times> globals)"
  inner_xi ::
    "zi_opts \<Rightarrow> npfloat list \<Rightarrow> npfloat list \<Rightarrow> npfloat list \<Rightarrow> npfloat \<Rightarrow> npfloat \<Rightarrow> globals
       \<Rightarrow> error + ((npfloat list \<times> npfloat list \<times> nat) \<times> globals)"
  solve_root ::
    "(npfloat \<Rightarrow> globals \<Rightarrow> error + (npfloat \<times> globals)) \<Rightarrow> npfloat \<Rightarrow> npfloat \<times> npfloat
       \<Rightarrow> globals \<Rightarrow> error + (npfloat \<times> globals)"
  random_draw :: "nat \<Rightarrow> nat \<Rightarrow> npfloat"
  quadratic_root_count :: "npfloat list \<Rightarrow> npfloat list \<Rightarrow> error + nat"
  cubic_extrema_count :: "npfloat list \<Rightarrow> npfloat list \<Rightarrow> error + nat"

text \<open>
  The inner liquid solver as the outer solver calls it,
  \<^verbatim>\<open>solve_xi_yiT(xi, yi, phiv, P, T, eos, rhodict=rhodict, **zi_opts)\<close>: the options
  that are given replace the defaults. It fits the field \<open>inner_xi\<close>.
\<close>

definition call_solve_xi_yiT ::
  "'s scipy \<Rightarrow> (npfloat \<Rightarrow> npfloat \<Rightarrow> npfloat list \<Rightarrow> npfloat list \<Rightarrow> error + npfloat list)
     \<Rightarrow> eos \<Rightarrow> rhodict \<Rightarrow> zi_opts \<Rightarrow> npfloat list \<Rightarrow> npfloat list \<Rightarrow> npfloat list
     \<Rightarrow> npfloat \<Rightarrow> npfloat \<Rightarrow> globals
     \<Rightarrow> error + ((npfloat list \<times> npfloat list \<times> nat) \<times> globals)" where
  "call_solve_xi_yiT L F e rd zo xi yi phiv P T g =
     solve_xi_yiT L F xi yi phiv P T e rd
       (case zi_maxiter zo of None \<Rightarrow> solve_xi_maxiter | Some m \<Rightarrow> m)
       (case zi_tol zo of None \<Rightarrow> solve_xi_tol | Some t \<Rightarrow> t) g"

text \<open>The equilibrium objective \<^verbatim>\<open>np.nansum(a * phi_a / phi_b) - 1.0\<close>.\<close>

definition equilibrium_objective ::
  "npfloat list \<Rightarrow> npfloat list \<Rightarrow> npfloat list \<Rightarrow> error + npfloat" where
  "equilibrium_objective zs phi_a phi_b =
     bindE (np_binop fmul zs phi_a) (\<lambda>num.
     bindE (np_binop fdiv num phi_b) (\<lambda>q.
     Inr (fsub (np_nansum q) (Num 1))))"

text \<open>
  \<^verbatim>\<open>solve_P_yiT\<close>, the objective of the dew-point pressure search, and \<^verbatim>\<open>solve_P_xiT\<close>,
  that of the bubble-point search. Each reads the module-level guess (a \<^verbatim>\<open>NameError\<close>
  when it was never assigned) and replaces it.
\<close>

definition solve_P_yiT ::
  "'s scipy \<Rightarrow> solvers \<Rightarrow> npfloat \<Rightarrow> npfloat list \<Rightarrow> npfloat \<Rightarrow> eos \<Rightarrow> rhodict \<Rightarrow> zi_opts
     \<Rightarrow> globals \<Rightarrow> error + (npfloat \<times> globals)" where
  "solve_P_yiT L V P yi T e rd zo g =
     (if flt P (Num 0) then Inr (Num 10, g)
      else
        bindE (calc_phiv L P T yi e rd) (\<lambda>(phiv, rhov, flagv).
        case xi_global g of
          None \<Rightarrow> Inl NameError
        | Some xg \<Rightarrow>
        bindE (inner_xi V zo xg yi phiv P T g) (\<lambda>((xinew, phil0, flagl0), g1).
        let xg' = map (\<lambda>x. fdiv x (np_sum xinew)) xinew;
            g2 = g1\<lparr>xi_global := Some xg'\<rparr>
        in
        bindE (calc_phil L P T xg' e rd) (\<lambda>(phil, rhol, flagl).
        bindE (pressure e rhol T xg') (\<lambda>Pv_test.
        bindE (equilibrium_objective yi phiv phil) (\<lambda>obj_value.
        Inr (obj_value, g2)))))))"

definition solve_P_xiT ::
  "'s scipy \<Rightarrow> solvers \<Rightarrow> npfloat \<Rightarrow> npfloat list \<Rightarrow> npfloat \<Rightarrow> eos \<Rightarrow> rhodict \<Rightarrow> zi_opts
     \<Rightarrow> globals \<Rightarrow> error + (npfloat \<times> globals)" where
  "solve_P_xiT L V P xi T e rd zo g =
     (if flt P (Num 0) then Inr (Num 10, g)
      else
        bindE (calc_phil L P T xi e rd) (\<lambda>(phil, rhol, flagl).
        case yi_global g of
          None \<Rightarrow> Inl NameError
        | Some yg \<Rightarrow>
        bindE (inner_yi V zo yg xi phil P T g) (\<lambda>((yinew, phiv0, flagv0), g1).
        let yg' = map (\<lambda>y. fdiv y (np_sum yinew)) yinew;
            g2 = g1\<lparr>yi_global := Some yg'\<rparr>
        in
        bindE (calc_phiv L P T yg' e rd) (\<lambda>(phiv, rhov, flagv).
        bindE (pressure e rhov T yg') (\<lambda>Pv_test.
        bindE (equilibrium_objective xi phil phiv) (\<lambda>obj_value.
        Inr (obj_value, g2)))))))"

text \<open>
  The first loop of both entry points: the saturation pressure of each pure component,
  from \<^verbatim>\<open>calc_Psat\<close> and, where that is NaN, from \<^verbatim>\<open>setPsat\<close>. \<^verbatim>\<open>calc_yT_phase\<close>
  raises when \<^verbatim>\<open>setPsat\<close> gives NaN as well (\<open>strict\<close>); \<^verbatim>\<open>calc_xT_phase\<close> only logs it.
\<close>

fun estimate_Psat ::
  "'s scipy \<Rightarrow> bool \<Rightarrow> npfloat \<Rightarrow> nat \<Rightarrow> eos \<Rightarrow> rhodict \<Rightarrow> nat list \<Rightarrow> error + npfloat list" where
  "estimate_Psat L strict T n e rd [] = Inr []"
| "estimate_Psat L strict T n e rd (i # rest) =
     bindE (calc_Psat L T ((replicate n (Num 0))[i := Num 1]) e rd) (\<lambda>(Psat, rhol, rhov).
     bindE (if isnan Psat then
              bindE (setPsat i e) (\<lambda>(Psat', NaNbead).
              if isnan Psat' \<and> strict
              then Inl (ValueError
                ''Component, {}, is beyond it's critical point at {} K. Add an exception to setPsat''
                [Names [NaNbead], Floats [T]])
              else Inr Psat')
            else Inr Psat) (\<lambda>Pi.
     bindE (estimate_Psat L strict T n e rd rest) (\<lambda>Ps. Inr (Pi # Ps))))"

section \<open>Bracketing the dew-point pressure: \<^verbatim>\<open>calc_Prange_yi\<close>\<close>

text \<open>
  The variables of the loop of \<^verbatim>\<open>calc_Prange_yi\<close>: the bracket, the objective values
  at its ends, the liquid guess, the trial pressure, the two flags, the pressure guess
  (unbound until assigned) and the module-level guesses.
\<close>

record prange_yi_state =
  py_Prange :: "npfloat \<times> npfloat"
  py_ObjRange :: "npfloat \<times> npfloat"
  py_xi_range :: "npfloat list"
  py_p :: npfloat
  py_flag_sol :: bool
  py_flag_vapor :: bool
  py_Pguess :: "npfloat option"
  py_globals :: globals

text \<open>\<^verbatim>\<open>flagv not in [0,2,4]\<close>\<close>

definition not_vapor :: "nat \<Rightarrow> bool" where
  "not_vapor flagv = (flagv \<noteq> 0 \<and> flagv \<noteq> 2 \<and> flagv \<noteq> 4)"

text \<open>
  The secant step shared by the branches that move the upper end of the bracket to
  \<open>p\<close>: the bracket and objective values after the move, and \<open>-intercept / slope\<close>.
\<close>

definition move_upper ::
  "npfloat \<times> npfloat \<Rightarrow> npfloat \<times> npfloat \<Rightarrow> npfloat \<Rightarrow> npfloat
     \<Rightarrow> (npfloat \<times> npfloat) \<times> (npfloat \<times> npfloat) \<times> npfloat" where
  "move_upper Prange ObjRange p obj =
     (let P0 = (if flt (snd Prange) p then snd Prange else fst Prange);
          O0 = (if flt (snd Prange) p then snd ObjRange else fst ObjRange);
          slope = fdiv (fsub obj O0) (fsub p P0);
          intercept = fsub obj (fmul slope p)
      in ((P0, p), (O0, obj), fdiv (fneg intercept) slope))"

definition calc_Prange_yi_step ::
  "'s scipy \<Rightarrow> solvers \<Rightarrow> npfloat \<Rightarrow> npfloat list \<Rightarrow> eos \<Rightarrow> rhodict \<Rightarrow> zi_opts
     \<Rightarrow> nat \<Rightarrow> prange_yi_state \<Rightarrow> error + (prange_yi_state \<times> bool)" where
  "calc_Prange_yi_step L V T yi e rd zo i s =
     bindE (calc_phiv L (py_p s) T yi e rd) (\<lambda>(phiv, rhov, flagv).
     bindE (inner_xi V zo (py_xi_range s) yi phiv (py_p s) T (py_globals s))
       (\<lambda>((xi_range, phil, flagl), g).
     bindE (equilibrium_objective yi phiv phil) (\<lambda>obj.
     let s1 = s\<lparr>py_xi_range := xi_range, py_globals := g\<rparr>;
         Prange = py_Prange s1; ObjRange = py_ObjRange s1; p = py_p s1
     in
     if i = 0 then
       (if not_vapor flagv
        then Inr (s1\<lparr>py_Prange := (NaN, NaN), py_Pguess := Some NaN\<rparr>, True)
        else Inr (s1\<lparr>py_ObjRange := (obj, snd ObjRange), py_p := snd Prange\<rparr>, False))
     else
       (let ObjRange1 = (if i = 1 then (fst ObjRange, obj) else ObjRange) in
        if not_vapor flagv then
          Inr (s1\<lparr>py_flag_vapor := True, py_Prange := (fst Prange, p),
                  py_ObjRange := (fst ObjRange1, p),
                  py_p := fadd (fdiv (fsub p (fst Prange)) (Num 2)) (fst Prange)\<rparr>, False)
        else if fgt obj (Num 0) then
          (case move_upper Prange ObjRange1 p obj of (Prange', ObjRange', guess) \<Rightarrow>
           Inr (s1\<lparr>py_Prange := Prange', py_ObjRange := ObjRange', py_Pguess := Some guess,
                   py_flag_sol := True\<rparr>, True))
        else if py_flag_vapor s1 then
          Inr (s1\<lparr>py_Prange := (p, snd Prange), py_ObjRange := (obj, snd ObjRange1),
                  py_p := fadd (fdiv (fsub (snd Prange) p) (Num 2)) p\<rparr>, False)
        else
          (case move_upper Prange ObjRange1 p obj of (Prange', ObjRange', guess) \<Rightarrow>
           Inr (s1\<lparr>py_Prange := Prange', py_ObjRange := ObjRange',
                   py_p := np_nanmax2 guess (fmul (Num 2) (snd Prange'))\<rparr>, False))))))"

text \<open>
  The bracket before the loop: between the pressures at the two extrema of the curve,
  or from the smallest sampled pressure (100 when that is negative) to ten times it.
\<close>

definition calc_Prange_yi_start ::
  "'s scipy \<Rightarrow> npfloat \<Rightarrow> npfloat list \<Rightarrow> eos \<Rightarrow> rhodict \<Rightarrow> error + (npfloat \<times> npfloat)" where
  "calc_Prange_yi_start L T yi e rd =
     bindE (PvsRho T yi e rd) (\<lambda>(vlist, Plist).
     bindE (PvsV_spline L vlist Plist) (\<lambda>(Pvspline, roots, extrema).
     if 1 < length extrema then
       bindE (mapE (spline_call L Pvspline) extrema) (\<lambda>pe.
       bindE (py_min pe) (\<lambda>Pmin.
       bindE (py_max pe) (\<lambda>Pmax. Inr (Pmin, Pmax))))
     else
       bindE (py_min Plist) (\<lambda>Pmin0.
       let Pmin = (if flt Pmin0 (Num 0) then Num 100 else Pmin0)
       in Inr (Pmin, fmul (Num 10) Pmin))))"

text \<open>
  \<^verbatim>\<open>calc_Prange_yi\<close>: 200 passes at most; after the loop
  \<^verbatim>\<open>
  if i == maxiter-1:
      Prange = np.array([np.nan, np.nan])
      Pguess = np.nan
  elif flag_sol:
      (log)
  else:
      (log)
      xi_global = xi_range
  return Prange, Pguess
  \<close>
\<close>

definition calc_Prange_maxiter :: nat where
  "calc_Prange_maxiter = 200"

definition calc_Prange_yi_loop ::
  "'s scipy \<Rightarrow> solvers \<Rightarrow> npfloat \<Rightarrow> npfloat list \<Rightarrow> npfloat list \<Rightarrow> eos \<Rightarrow> rhodict \<Rightarrow> zi_opts
     \<Rightarrow> npfloat \<times> npfloat \<Rightarrow> globals \<Rightarrow> error + (prange_yi_state \<times> nat)" where
  "calc_Prange_yi_loop L V T xi yi e rd zo Prange g =
     for_range (calc_Prange_yi_step L V T yi e rd zo) 0 calc_Prange_maxiter
       \<lparr>py_Prange = Prange, py_ObjRange = (Num 0, Num 0), py_xi_range = xi,
        py_p = fst Prange, py_flag_sol = False, py_flag_vapor = False,
        py_Pguess = None, py_globals = g\<rparr>"

definition calc_Prange_yi ::
  "'s scipy \<Rightarrow> solvers \<Rightarrow> npfloat \<Rightarrow> npfloat list \<Rightarrow> npfloat list \<Rightarrow> eos \<Rightarrow> rhodict \<Rightarrow> zi_opts
     \<Rightarrow> globals \<Rightarrow> error + (((npfloat \<times> npfloat) \<times> npfloat) \<times> globals)" where
  "calc_Prange_yi L V T xi yi e rd zo g =
     bindE (calc_Prange_yi_start L T yi e rd) (\<lambda>Prange.
     bindE (calc_Prange_yi_loop L V T xi yi e rd zo Prange g) (\<lambda>(s, i).
     if i = calc_Prange_maxiter - 1 then Inr (((NaN, NaN), NaN), py_globals s)
     else
       (case py_Pguess s of
          None \<Rightarrow> Inl UnboundLocalError
        | Some Pguess \<Rightarrow>
            if py_flag_sol s then Inr ((py_Prange s, Pguess), py_globals s)
            else Inr ((py_Prange s, Pguess),
                      (py_globals s)\<lparr>xi_global := Some (py_xi_range s)\<rparr>))))"

section \<open>The dew-point entry point \<^verbatim>\<open>calc_yT_phase\<close>\<close>

text \<open>
  After the saturation pressures, the first pressure and the liquid guess:
  \<^verbatim>\<open>
  Prange, Pguess = calc_Prange_yi(T, xi, yi, eos, rhodict, zi_opts=zi_opts)
  P = Pguess
  P = gtb.solve_root(solve_P_yiT, args=(yi, T, eos, rhodict, zi_opts), x0=P, method=meth,
                     bounds=Prange, options=pressure_opts)
  \<close>
  Nothing is tested between the bracketing and the root finder. The result is
  \<^verbatim>\<open>(P, xi, flagl, flagv, obj)\<close>.
\<close>

definition calc_yT_phase ::
  "'s scipy \<Rightarrow> solvers \<Rightarrow> npfloat list \<Rightarrow> npfloat \<Rightarrow> eos \<Rightarrow> rhodict \<Rightarrow> zi_opts \<Rightarrow> npfloat
     \<Rightarrow> globals \<Rightarrow> error + ((npfloat \<times> npfloat list \<times> nat \<times> nat \<times> npfloat) \<times> globals)" where
  "calc_yT_phase L V yi T e rd zo Pguess0 g =
     bindE (estimate_Psat L True T (length yi) e rd [0..<length yi]) (\<lambda>Psat.
     bindE (np_binop fdiv yi Psat) (\<lambda>ratio.
     let P0 = (if flt Pguess0 (Num 0) then fdiv (Num 1) (np_sum ratio) else Pguess0);
         fresh = (let xg = map (fmul P0) ratio in map (\<lambda>x. fdiv x (np_sum xg)) xg);
         xi = (case xi_global g of
                 None \<Rightarrow> fresh
               | Some xg \<Rightarrow> if np_any_isnan xg then fresh else xg);
         g1 = g\<lparr>xi_global := Some xi\<rparr>
     in
     bindE (calc_Prange_yi L V T xi yi e rd zo g1) (\<lambda>((Prange, Pguess), g2).
     bindE (solve_root V (\<lambda>P. solve_P_yiT L V P yi T e rd zo) Pguess Prange g2) (\<lambda>(P, g3).
     bindE (calc_phiv L P T yi e rd) (\<lambda>(phiv, rhov, flagv).
     bindE (calc_phil L P T xi e rd) (\<lambda>(phil, rhol, flagl).
     bindE (solve_P_yiT L V P yi T e rd (tighten_tol zo) g3) (\<lambda>(obj, g4).
     Inr ((P, xi, flagl, flagv, obj), g4))))))))"

section \<open>Bracketing the bubble-point pressure: \<^verbatim>\<open>calc_Prange_xi\<close>\<close>

text \<open>
  \<^verbatim>\<open>_clean_plot_data\<close>: the distinct abscissas in increasing order, each with the
  ordinate of its first occurrence.
\<close>

definition clean_plot_data :: "npfloat list \<Rightarrow> npfloat list \<Rightarrow> npfloat list \<times> npfloat list" where
  "clean_plot_data x_old y_old =
     (let x_new = sort_floats (remdups x_old)
      in (x_new, map (\<lambda>x. y_old ! length (takeWhile (\<lambda>u. \<not> feq u x) x_old)) x_new))"

text \<open>
  The variables of \<^verbatim>\<open>calc_Prange_xi\<close>. \<^verbatim>\<open>Prange\<close> is the array
  \<^verbatim>\<open>np.array([Pmin, Pmax])\<close>: \<open>Pmin\<close> is a Python integer (10000 by default), and
  when the curve has no extremum \<open>Pmax\<close> is the integer 100000, so that the array
  holds integers (\<open>px_ints\<close>).
\<close>

record prange_xi_state =
  px_ints :: bool
  px_Prange :: "npfloat \<times> npfloat"
  px_ObjRange :: "npfloat \<times> npfloat"
  px_yi_range :: "npfloat list"
  px_p :: npfloat
  px_flag_liqu :: bool
  px_flag_min :: bool
  px_Parray :: "npfloat list"
  px_ObjArray :: "npfloat list"
  px_Pguess :: "npfloat option"
  px_globals :: globals

text \<open>\<^verbatim>\<open>(Prange[1]-Prange[0])*np.random.rand(1)[0] + Prange[0]\<close>\<close>

definition random_pressure :: "bool \<Rightarrow> npfloat \<times> npfloat \<Rightarrow> npfloat \<Rightarrow> npfloat" where
  "random_pressure ints Prange r = fadd (fmul (P_sub ints (snd Prange) (fst Prange)) r) (fst Prange)"

text \<open>\<^verbatim>\<open>(Prange[1]-Prange[0])/2.0 + Prange[0]\<close>\<close>

definition midpoint :: "bool \<Rightarrow> npfloat \<times> npfloat \<Rightarrow> npfloat" where
  "midpoint ints Prange =
     fadd (fdiv (P_sub ints (snd Prange) (fst Prange)) (Num 2)) (fst Prange)"

text \<open>\<^verbatim>\<open>flagv_max not in [0,2,4]\<close>, for a flag that may be \<^verbatim>\<open>np.nan\<close>.\<close>

fun pflag_not_vapor :: "pflag \<Rightarrow> bool" where
  "pflag_not_vapor (Flag n) = not_vapor n"
| "pflag_not_vapor Flag_nan = True"

text \<open>
  One pass of the first loop, which looks for a lower pressure with a positive
  objective. The pass ends in \<^verbatim>\<open>continue\<close> when the liquid coefficients are NaN, in
  \<^verbatim>\<open>break\<close> when the objective is positive, and raises when the trial pressure is not
  positive.
\<close>

definition calc_Prange_xi_lower_step ::
  "'s scipy \<Rightarrow> solvers \<Rightarrow> npfloat \<Rightarrow> npfloat list \<Rightarrow> eos \<Rightarrow> rhodict \<Rightarrow> zi_opts \<Rightarrow> int
     \<Rightarrow> nat \<Rightarrow> prange_xi_state \<Rightarrow> error + (prange_xi_state \<times> bool)" where
  "calc_Prange_xi_lower_step L V T xi e rd zo Pmin z s =
     (let ints = px_ints s; Prange = px_Prange s; ObjRange = px_ObjRange s; p = px_p s in
      bindE (calc_phil L p T xi e rd) (\<lambda>(phil, rhol, flagl).
      if np_any_isnan phil then
        Inr (s\<lparr>px_Prange := (P_add ints (fst Prange) (Num (of_int Pmin)), snd Prange)\<rparr>, False)
      else
        bindE
          (if flagl = 1 \<or> flagl = 2 then
             bindE (inner_yi V zo (px_yi_range s) xi phil p T (px_globals s))
               (\<lambda>((yi_range, phiv_min, flagv_min), g).
             bindE (equilibrium_objective xi phil phiv_min) (\<lambda>obj.
             let s1 = s\<lparr>px_yi_range := yi_range, px_globals := g\<rparr> in
             if np_any_isnan yi_range then
               Inr (s1\<lparr>px_Prange := (P_store ints p, snd Prange),
                       px_ObjRange := (obj, snd ObjRange), px_p := fdiv p (Num 2)\<rparr>, False)
             else
               bindE (np_binop fsub xi yi_range) (\<lambda>d.
               if flt (np_sum (map fabs d)) (Num (1 / 10 ^ 5)) then
                 Inr (s1\<lparr>px_flag_liqu := True, px_ObjRange := (fst ObjRange, obj),
                         px_Prange := (fst Prange, P_store ints p),
                         px_p := fmul (Num (3 / 4)) p\<rparr>, False)
               else if fgt obj (Num 0) then
                 Inr (s1\<lparr>px_Prange := (P_store ints p, snd Prange),
                         px_ObjRange := (obj, snd ObjRange)\<rparr>, True)
               else if flt (fst ObjRange) (Num 0) then
                 Inr (s1\<lparr>px_ObjRange := (fst ObjRange, obj),
                         px_Prange := (fst Prange, P_store ints p),
                         px_p := fdiv p (Num 2)\<rparr>, False)
               else Inr (s1, False))))
           else
             Inr (s\<lparr>px_Prange := (P_store ints p, snd Prange),
                     px_p := P_double ints (P_store ints p)\<rparr>, False))
          (\<lambda>(s2, stop).
        if stop then Inr (s2, True)
        else
          (let Prange2 = px_Prange s2; ObjRange2 = px_ObjRange s2;
               s3 = (if fgt (fst Prange2) (snd Prange2)
                     then s2\<lparr>px_Prange := (snd Prange2, snd Prange2),
                             px_ObjRange := (snd ObjRange2, snd ObjRange2)\<rparr>
                     else s2);
               Prange3 = px_Prange s3; p3 = px_p s3;
               s4 = (if (flt p3 (fst Prange3) \<and> \<not> feq (fst Prange3) (snd Prange3)) \<or>
                        (px_flag_liqu s3 \<and> fgt p3 (snd Prange3))
                     then s3\<lparr>px_p := random_pressure ints Prange3 (random_draw V 1 z)\<rparr>
                     else s3)
           in if fle (px_p s4) (Num 0)
              then Inl (ValueError
                ''Pressure, {}, cannot be equal to or less than zero. Given composition, {}, and T {}, results in a supercritical value without a coexistent fluid.''
                [Floats [px_p s4], Floats xi, Floats [T]])
              else Inr (s4, False)))))"

text \<open>
  The choice of the next trial pressure once the objective has stopped decreasing
  (\<^verbatim>\<open>flag_min\<close>): bisection when the objective is above that of the lower end, otherwise
  a random pressure of the bracket unless a fit through more than three samples of the
  bracket has a root or an extremum; and a random pressure again when the trial
  pressure is below the bracket.
\<close>

definition calc_Prange_xi_min_search ::
  "solvers \<Rightarrow> nat \<Rightarrow> npfloat \<Rightarrow> prange_xi_state \<Rightarrow> error + prange_xi_state" where
  "calc_Prange_xi_min_search V z obj s =
     (let ints = px_ints s; Prange = px_Prange s; p = px_p s in
      bindE
        (if fgt obj (fst (px_ObjRange s)) then
           (let Prange' = (fst Prange, P_store ints p)
            in Inr (s\<lparr>px_Prange := Prange', px_ObjRange := (fst (px_ObjRange s), obj),
                       px_p := midpoint ints Prange'\<rparr>))
         else
           (let Parray = px_Parray s;
                ind = filter (\<lambda>k. fle (fst Prange) (Parray ! k) \<and> fle (Parray ! k) (snd Prange))
                        [0..<length Parray]
            in
            if 3 < length ind then
              (case clean_plot_data (map (\<lambda>k. Parray ! k) ind) (map (\<lambda>k. px_ObjArray s ! k) ind)
               of (x, y) \<Rightarrow>
                 bindE (quadratic_root_count V x y) (\<lambda>n2.
                 bindE (if n2 = 0 then cubic_extrema_count V x y else Inr n2) (\<lambda>n3.
                 if n3 = 0
                 then Inr (s\<lparr>px_p := random_pressure ints Prange (random_draw V 2 z)\<rparr>)
                 else Inr s)))
            else Inr (s\<lparr>px_p := random_pressure ints Prange (random_draw V 2 z)\<rparr>)))
        (\<lambda>s1.
      if flt (px_p s1) (fst (px_Prange s1))
      then Inr (s1\<lparr>px_p := random_pressure ints (px_Prange s1) (random_draw V 3 z)\<rparr>)
      else Inr s1))"

text \<open>
  The move of the upper end of the array bracket to \<open>p\<close> with the secant through
  the two ends, as \<open>move_upper\<close> but with the stores and differences of the array.
\<close>

definition move_upper_array ::
  "bool \<Rightarrow> npfloat \<times> npfloat \<Rightarrow> npfloat \<times> npfloat \<Rightarrow> npfloat \<Rightarrow> npfloat
     \<Rightarrow> (npfloat \<times> npfloat) \<times> (npfloat \<times> npfloat) \<times> npfloat" where
  "move_upper_array ints Prange ObjRange p obj =
     (let P0 = (if flt (snd Prange) p then snd Prange else fst Prange);
          O0 = (if flt (snd Prange) p then snd ObjRange else fst ObjRange);
          P1 = P_store ints p;
          slope = fdiv (fsub obj O0) (P_sub ints P1 P0);
          intercept = fsub obj (fmul slope P1)
      in ((P0, P1), (O0, obj), fdiv (fneg intercept) slope))"

text \<open>
  One pass of the second loop, which looks for an upper pressure with a negative
  objective. It ends in \<^verbatim>\<open>break\<close> when the objective is negative, or when the objective
  has stopped decreasing and the trial pressure repeats an earlier one within 0.01.
\<close>

definition calc_Prange_xi_upper_step ::
  "'s scipy \<Rightarrow> solvers \<Rightarrow> npfloat \<Rightarrow> npfloat list \<Rightarrow> eos \<Rightarrow> rhodict \<Rightarrow> zi_opts
     \<Rightarrow> nat \<Rightarrow> prange_xi_state \<Rightarrow> error + (prange_xi_state \<times> bool)" where
  "calc_Prange_xi_upper_step L V T xi e rd zo z s =
     (let ints = px_ints s; Prange = px_Prange s; ObjRange = px_ObjRange s; p = px_p s in
      bindE (calc_phil L p T xi e rd) (\<lambda>(phil, rhol, flagl).
      if np_any_isnan phil
      then Inl (ValueError ''Fugacity coefficient should not be NaN, pressure could be too high.'' [])
      else
        bindE (inner_yi V zo (px_yi_range s) xi phil p T (px_globals s))
          (\<lambda>((yi_range, phiv_max, flagv_max), g).
        bindE (equilibrium_objective xi phil phiv_max) (\<lambda>obj.
        let s1 = s\<lparr>px_yi_range := yi_range, px_globals := g\<rparr> in
        if pflag_not_vapor flagv_max \<or> np_any_isnan yi_range then
          (let Prange' = (fst Prange, P_store ints p)
           in Inr (s1\<lparr>px_flag_liqu := True, px_Prange := Prange',
                      px_ObjRange := (fst ObjRange, obj), px_p := midpoint ints Prange'\<rparr>, False))
        else if flt obj (Num 0) then
          (case move_upper_array ints Prange ObjRange p obj of (Prange', ObjRange', guess) \<Rightarrow>
           Inr (s1\<lparr>px_Prange := Prange', px_ObjRange := ObjRange', px_Pguess := Some guess\<rparr>,
                True))
        else
          (let s2 = s1\<lparr>px_Parray := px_Parray s1 @ [p], px_ObjArray := px_ObjArray s1 @ [obj]\<rparr>;
               n = length (px_ObjArray s2)
           in
           if px_flag_liqu s2 then
             (let Prange' = (P_store ints p, snd Prange)
              in Inr (s2\<lparr>px_Prange := Prange', px_ObjRange := (obj, snd ObjRange),
                         px_p := midpoint ints Prange'\<rparr>, False))
           else if (0 < z \<and> fgt (px_ObjArray s2 ! (n - 1))
                                 (fmul (Num (11 / 10)) (px_ObjArray s2 ! (n - 2)))) \<or>
                   px_flag_min s2 then
             (let s3 = (if \<not> px_flag_min s2
                        then s2\<lparr>px_flag_min := True, px_Prange := (snd Prange, snd Prange),
                                px_ObjRange := (snd ObjRange, snd ObjRange)\<rparr>
                        else s2)
              in
              if list_ex (\<lambda>q. flt (fabs (fsub p q)) (Num (1 / 100))) (px_Parray s1)
              then Inr (s3, True)
              else bindE (calc_Prange_xi_min_search V z obj s3) (\<lambda>s4. Inr (s4, False)))
           else
             (case move_upper_array ints Prange ObjRange p obj of (Prange', ObjRange', guess) \<Rightarrow>
              Inr (s2\<lparr>px_Prange := Prange', px_ObjRange := ObjRange',
                      px_p := np_nanmax2 guess (P_double ints (snd Prange'))\<rparr>, False)))))))"

text \<open>
  \<^verbatim>\<open>calc_Prange_xi\<close>. After the first loop,
  \<^verbatim>\<open>
  if z == maxiter-1:
      raise ValueError("Maximum Number of Iterations Reached: Proper minimum pressure for liquid density could not be found")
  \<close>
  and after the second,
  \<^verbatim>\<open>
  if (z == maxiter-1 or flag_min):
      Prange = np.array([np.nan, np.nan])
      Pguess = np.nan
  else:
      yi_global = yi_range
  return Prange, Pguess
  \<close>
\<close>

definition calc_Prange_xi_start ::
  "'s scipy \<Rightarrow> npfloat \<Rightarrow> npfloat list \<Rightarrow> eos \<Rightarrow> rhodict \<Rightarrow> int \<Rightarrow> error + (bool \<times> npfloat \<times> npfloat)" where
  "calc_Prange_xi_start L T xi e rd Pmin =
     bindE (PvsRho T xi e rd) (\<lambda>(vlist, Plist).
     bindE (PvsV_spline L vlist Plist) (\<lambda>(Pvspline, roots, extrema).
     if extrema = [] then Inr (True, Num (of_int Pmin), Num 100000)
     else
       bindE (mapE (spline_call L Pvspline) extrema) (\<lambda>pe.
       bindE (py_max pe) (\<lambda>Pmax. Inr (False, Num (of_int Pmin), Pmax)))))"

definition calc_Prange_xi_lower ::
  "'s scipy \<Rightarrow> solvers \<Rightarrow> npfloat \<Rightarrow> npfloat list \<Rightarrow> npfloat list \<Rightarrow> eos \<Rightarrow> rhodict \<Rightarrow> zi_opts
     \<Rightarrow> int \<Rightarrow> bool \<times> npfloat \<times> npfloat \<Rightarrow> globals \<Rightarrow> error + (prange_xi_state \<times> nat)" where
  "calc_Prange_xi_lower L V T xi yi e rd zo Pmin start g =
     for_range (calc_Prange_xi_lower_step L V T xi e rd zo Pmin) 0 calc_Prange_maxiter
       \<lparr>px_ints = fst start, px_Prange = snd start, px_ObjRange = (Num 0, Num 0),
        px_yi_range = yi, px_p = fst (snd start), px_flag_liqu = False, px_flag_min = False,
        px_Parray = [], px_ObjArray = [], px_Pguess = None, px_globals = g\<rparr>"

definition calc_Prange_xi_upper ::
  "'s scipy \<Rightarrow> solvers \<Rightarrow> npfloat \<Rightarrow> npfloat list \<Rightarrow> eos \<Rightarrow> rhodict \<Rightarrow> zi_opts
     \<Rightarrow> prange_xi_state \<Rightarrow> error + (prange_xi_state \<times> nat)" where
  "calc_Prange_xi_upper L V T xi e rd zo s =
     (let Prange = px_Prange s;
          Prange' = (if fle (snd Prange) (fst Prange)
                     then (fst Prange, P_store (px_ints s) (fmul (fst Prange) (Num (11 / 10))))
                     else Prange)
      in for_range (calc_Prange_xi_upper_step L V T xi e rd zo) 0 calc_Prange_maxiter
           (s\<lparr>px_Prange := Prange', px_flag_min := False, px_p := snd Prange',
              px_Parray := [snd Prange'], px_ObjArray := [snd (px_ObjRange s)]\<rparr>))"

definition calc_Prange_xi ::
  "'s scipy \<Rightarrow> solvers \<Rightarrow> npfloat \<Rightarrow> npfloat list \<Rightarrow> npfloat list \<Rightarrow> eos \<Rightarrow> rhodict \<Rightarrow> zi_opts
     \<Rightarrow> int \<Rightarrow> globals \<Rightarrow> error + (((npfloat \<times> npfloat) \<times> npfloat) \<times> globals)" where
  "calc_Prange_xi L V T xi yi e rd zo Pmin g =
     bindE (calc_Prange_xi_start L T xi e rd Pmin) (\<lambda>start.
     bindE (calc_Prange_xi_lower L V T xi yi e rd zo Pmin start g) (\<lambda>(s, z).
     if z = calc_Prange_maxiter - 1
     then Inl (ValueError
       ''Maximum Number of Iterations Reached: Proper minimum pressure for liquid density could not be found'' [])
     else
       bindE (calc_Prange_xi_upper L V T xi e rd zo s) (\<lambda>(s', z').
       if z' = calc_Prange_maxiter - 1 \<or> px_flag_min s'
       then Inr (((NaN, NaN), NaN), px_globals s')
       else
         (case px_Pguess s' of
            None \<Rightarrow> Inl UnboundLocalError
          | Some Pguess \<Rightarrow>
              Inr ((px_Prange s', Pguess),
                   (px_globals s')\<lparr>yi_global := Some (px_yi_range s')\<rparr>)))))"

section \<open>The bubble-point entry point \<^verbatim>\<open>calc_xT_phase\<close>\<close>

text \<open>
  \<^verbatim>\<open>
  Prange, Pguess = calc_Prange_xi(T, xi, yi, eos, rhodict, zi_opts=zi_opts)
  if np.any(np.isnan(Prange)):
      raise ValueError("Neither a suitable pressure range, or guess in pressure could be found nor was given.")
  else:
      P = Pguess
  P = gtb.solve_root(solve_P_xiT, args=(xi, T, eos, rhodict, zi_opts), x0=P, method=meth,
                     bounds=Prange, options=pressure_opts)
  \<close>
  The result is \<^verbatim>\<open>(P, yi_global, flagv, flagl, obj)\<close>.
\<close>

definition calc_xT_phase ::
  "'s scipy \<Rightarrow> solvers \<Rightarrow> npfloat list \<Rightarrow> npfloat \<Rightarrow> eos \<Rightarrow> rhodict \<Rightarrow> zi_opts \<Rightarrow> npfloat
     \<Rightarrow> globals \<Rightarrow> error + ((npfloat \<times> npfloat list \<times> nat \<times> nat \<times> npfloat) \<times> globals)" where
  "calc_xT_phase L V xi T e rd zo Pguess0 g =
     bindE (estimate_Psat L False T (length xi) e rd [0..<length xi]) (\<lambda>Psat.
     bindE (np_binop fdiv xi Psat) (\<lambda>ratio.
     let P0 = (if flt Pguess0 (Num 0) then fdiv (Num 1) (np_sum ratio) else Pguess0);
         fresh = (let yg = map (\<lambda>x. fdiv x P0) (map2 fmul xi Psat)
                  in map (\<lambda>y. fdiv y (np_nansum yg)) yg);
         yi = (case yi_global g of
                 None \<Rightarrow> fresh
               | Some yg \<Rightarrow> if np_any_isnan yg then fresh else yg);
         g1 = g\<lparr>yi_global := Some yi\<rparr>
     in
     bindE (calc_Prange_xi L V T xi yi e rd zo 10000 g1) (\<lambda>((Prange, Pguess), g2).
     if isnan (fst Prange) \<or> isnan (snd Prange)
     then Inl (ValueError
       ''Neither a suitable pressure range, or guess in pressure could be found nor was given.'' [])
     else
       bindE (solve_root V (\<lambda>P. solve_P_xiT L V P xi T e rd zo) Pguess Prange g2) (\<lambda>(P, g3).
       bindE (calc_phil L P T xi e rd) (\<lambda>(phil, rhol, flagl).
       bindE (calc_phiv L P T yi e rd) (\<lambda>(phiv, rhov, flagv).
       bindE (solve_P_xiT L V P xi T e rd (tighten_tol zo) g3) (\<lambda>(obj, g4).
       case yi_global g4 of
         None \<Rightarrow> Inl NameError
       | Some yg \<Rightarrow> Inr ((P, yg, flagv, flagl, obj), g4))))))))"

section \<open>Sample collaborators\<close>

text \<open>
  Concrete collaborators on which the functions can be run: the binary CO2/H2O system
  of the test suite with a toy equation of state (the pressure equals the density, the
  maximum density is 11, the fugacity coefficients are the composition), a density grid
  of two points, and a spline library that smooths nothing, keeps the pressure samples
  as the spline object and finds no root and no extremum.
\<close>

definition sample_eos :: eos where
  "sample_eos =
     \<lparr>beads = [''CO2'', ''H2O''],
      nui = [[Num 1, Num 0], [Num 0, Num 1]],
      pressure = (\<lambda>rho T xi. Inr rho),
      density_max = (\<lambda>xi T. Inr (Num 11)),
      fugacity_coefficient = (\<lambda>P rho xi T. Inr xi)\<rparr>"

definition sample_rhodict :: rhodict where
  "sample_rhodict =
     \<lparr>minrhofrac = Num (1 / 11), rhoinc = Num 5, vspacemax = Num 1, maxrho = None\<rparr>"

definition sample_scipy :: "(npfloat list) scipy" where
  "sample_scipy =
     \<lparr>gaussian_filter1d = (\<lambda>y sigma. Inr y),
      InterpolatedUnivariateSpline = (\<lambda>x y k. Inr y),
      spline_roots = (\<lambda>s. Inr []),
      spline_derivative_roots = (\<lambda>s. Inr []),
      spline_call = (\<lambda>s x. Inr (Num 0)),
      spline_integral = (\<lambda>s a b. Inr (Num 0)),
      polyfit = (\<lambda>x y. Inr (Num 1, Num 0)),
      minimize = (\<lambda>f x0 bounds. Inr x0),
      minimize_scalar = (\<lambda>f bounds. Inr (fst bounds)),
      brentq = (\<lambda>f a b. Inr a),
      least_squares = (\<lambda>f x0 bounds. Inr x0)\<rparr>"

text \<open>A spline library as the sample one, but finding three roots.\<close>

definition three_roots_scipy :: "(npfloat list) scipy" where
  "three_roots_scipy = sample_scipy\<lparr>spline_roots := (\<lambda>s. Inr [Num 1, Num 2, Num 4])\<rparr>"

text \<open>
  A binary system of nitrogen and water with a toy equation of state: the pressure is
  the density, and the fugacity coefficients are one half below the density one half
  (the vapor) and one above (the liquid), so that the dew-point objective is \<open>-1/2\<close>
  at every pressure. The outer collaborators: the inner liquid solver of the code
  (\<^verbatim>\<open>solve_xi_yiT\<close>, with a \<^verbatim>\<open>find_new_xi\<close> that is never reached and would raise), an
  inner vapor solver that keeps the guess, and a root finder that returns its starting
  point.
\<close>

definition dew_eos :: eos where
  "dew_eos = sample_eos\<lparr>beads := [''N2'', ''H2O''],
     fugacity_coefficient := (\<lambda>P rho xi T.
       Inr (if flt rho (Num (1 / 2)) then [Num (1 / 2), Num (1 / 2)] else [Num 1, Num 1]))\<rparr>"

definition dew_find_new_xi ::
  "npfloat \<Rightarrow> npfloat \<Rightarrow> npfloat list \<Rightarrow> npfloat list \<Rightarrow> error + npfloat list" where
  "dew_find_new_xi P T phiv yi = Inl (External ''find_new_xi'')"

definition dew_solvers :: solvers where
  "dew_solvers =
     \<lparr>inner_yi = (\<lambda>zo yi xi phil P T g. Inr ((yi, [Num (1 / 2), Num (1 / 2)], Flag 0), g)),
      inner_xi = call_solve_xi_yiT three_roots_scipy dew_find_new_xi dew_eos sample_rhodict,
      solve_root = (\<lambda>f x0 bounds g. Inr (x0, g)),
      random_draw = (\<lambda>place z. Num (1 / 2)),
      quadratic_root_count = (\<lambda>x y. Inr 2),
      cubic_extrema_count = (\<lambda>x y. Inr 2)\<rparr>"

definition default_zi_opts :: zi_opts where
  "default_zi_opts = \<lparr>zi_maxiter = None, zi_tol = None\<rparr>"

text \<open>
  A toy system on which the fixed-point iteration of \<^verbatim>\<open>solve_yi_xiT\<close> never settles:
  the fugacity coefficients of a mixture are \<open>[1, 3]\<close> when the first mole fraction is
  below one half and \<open>[3, 1]\<close> otherwise, the curve has the three roots 1, 2 and 4 at
  every composition, and \<^verbatim>\<open>least_squares\<close> returns some value \<open>y\<close>.
\<close>

definition run_eos :: eos where
  "run_eos = sample_eos\<lparr>fugacity_coefficient :=
     (\<lambda>P rho yi T. case yi of
        [] \<Rightarrow> Inl IndexError
      | y # _ \<Rightarrow> Inr (if flt y (Num (1 / 2)) then [Num 1, Num 3] else [Num 3, Num 1]))\<rparr>"

definition run_scipy :: "npfloat \<Rightarrow> (npfloat list) scipy" where
  "run_scipy y = sample_scipy\<lparr>spline_roots := (\<lambda>s. Inr [Num 1, Num 2, Num 4]),
                             least_squares := (\<lambda>f x0 bounds. Inr y)\<rparr>"

definition run_searches :: searches where
  "run_searches =
     \<lparr>find_new_yi = (\<lambda>P T phil xi. Inr [Num (1 / 2), Num (1 / 2)]),
      bracket_bounding_yi = (\<lambda>P T phil xi bounds. Inr ([Num (1 / 2), Num (1 / 2)], Num 0)),
      random_rand = (\<lambda>n. replicate n (Num (1 / 2)))\<rparr>"

definition no_globals :: globals where
  "no_globals = \<lparr>yi_global = None, xi_global = None\<rparr>"

text \<open>
  The two states between which that iteration alternates: the variables after a pass
  that started below one half (\<open>low\<close>) and after one that started above, with the
  history \<open>ts\<close> of the totals.
\<close>

definition run_state :: "bool \<Rightarrow> npfloat list \<Rightarrow> yi_state" where
  "run_state low ts =
     (if low
      then \<lparr>s_yi = [Num 1, Num (1 / 3)], s_yi_total = ts,
            s_flag_check_vapor = True, s_flag_trivial_sol = True,
            s_yi_tmp = [Num (1 / 4), Num (3 / 4)], s_phiv = [Num 1, Num 3],
            s_rhov = Num (1 / 4), s_flagv = 0,
            s_yinew = Some [Num 1, Num (1 / 3)], s_yi2 = Some [Num (3 / 4), Num (1 / 4)],
            s_phiv2 = Some [Num 3, Num 1], s_flagv2 = Some 0\<rparr>
      else \<lparr>s_yi = [Num (1 / 3), Num 1], s_yi_total = ts,
            s_flag_check_vapor = True, s_flag_trivial_sol = True,
            s_yi_tmp = [Num (3 / 4), Num (1 / 4)], s_phiv = [Num 3, Num 1],
            s_rhov = Num (1 / 4), s_flagv = 0,
            s_yinew = Some [Num (1 / 3), Num 1], s_yi2 = Some [Num (1 / 4), Num (3 / 4)],
            s_phiv2 = Some [Num 1, Num 3], s_flagv2 = Some 0\<rparr>)"

text \<open>
  The variables of \<^verbatim>\<open>calc_Prange_yi\<close> on the dew-point sample with the vapor
  composition \<open>[1, 0]\<close>, and one pass of its loop there.
\<close>

definition dew_state ::
  "npfloat \<times> npfloat \<Rightarrow> npfloat \<times> npfloat \<Rightarrow> npfloat \<Rightarrow> globals \<Rightarrow> prange_yi_state" where
  "dew_state Prange ObjRange p g =
     \<lparr>py_Prange = Prange, py_ObjRange = ObjRange,
      py_xi_range = [Num 1, Num 0], py_p = p, py_flag_sol = False,
      py_flag_vapor = False, py_Pguess = None, py_globals = g\<rparr>"

abbreviation dew_step ::
  "npfloat \<Rightarrow> zi_opts \<Rightarrow> nat \<Rightarrow> prange_yi_state \<Rightarrow> error + (prange_yi_state \<times> bool)" where
  "dew_step T zo \<equiv> calc_Prange_yi_step three_roots_scipy dew_solvers T
     [Num 1, Num 0] dew_eos sample_rhodict zo"

abbreviation dew_globals :: "globals \<Rightarrow> globals" where
  "dew_globals g \<equiv> g\<lparr>xi_global := Some [Num 1, Num 0]\<rparr>"

section \<open>Basic facts\<close>

text \<open>
  A result of moderate size is neither an overflow nor an underflow: the arithmetic
  is exact there.
\<close>

lemma to_double_moderate [simp]:
  assumes "r = 0 \<or> (1 / 10 ^ 40 \<le> \<bar>r\<bar> \<and> \<bar>r\<bar> \<le> 10 ^ 40)"
  shows "to_double r = Num r"
proof -
  have o: "(10::real) ^ 40 < double_overflow"
    by (simp add: double_overflow_def)
  have u: "double_underflow < 1 / (10::real) ^ 40"
    by (simp add: double_underflow_def)
  from assms o u show ?thesis
    by (auto simp: to_double_def)
qed

lemma bindE_Inl [simp]: "bindE (Inl err) f = Inl err"
  by (simp add: bindE_def)

lemma bindE_Inr [simp]: "bindE (Inr v) f = f v"
  by (simp add: bindE_def)

lemma try_except_Inl [simp]: "try_except (Inl err) h = h"
  by (simp add: try_except_def)

lemma try_except_Inr [simp]: "try_except (Inr v) h = Inr v"
  by (simp add: try_except_def)

lemma filter_index_single:
  assumes "length (filter P xs) = 1"
  shows "\<exists>i < length xs. filter (\<lambda>i. P (xs ! i)) [0..<length xs] = [i] \<and> P (xs ! i)"
proof -
  let ?ind = "filter (\<lambda>i. P (xs ! i)) [0..<length xs]"
  have "filter P (map (\<lambda>i. xs ! i) [0..<length xs]) = map (\<lambda>i. xs ! i) ?ind"
    by (simp add: filter_map comp_def)
  then have "filter P xs = map (\<lambda>i. xs ! i) ?ind"
    by (simp add: map_nth)
  with assms have "length ?ind = 1" by simp
  then obtain i where i: "?ind = [i]"
    by (cases ?ind) auto
  then have "i \<in> set ?ind" by simp
  then have "i < length xs" "P (xs ! i)" by auto
  with i show ?thesis by blast
qed

text \<open>
  The sample grid: with a maximum density of 11 there are two densities, 1 and 6, listed
  by increasing specific volume.
\<close>

lemma np_arange_sample: "np_arange (Num 1) (Num 11) (Num 5) = Inr [Num 1, Num 6]"
  by (simp add: np_arange_def upt_rec)

lemma PvsRho_sample_grid:
  assumes "density_max e = (\<lambda>xi T. Inr (Num 11))"
  shows "PvsRho T xi e sample_rhodict =
     bindE (pressure e (Num 1) T xi) (\<lambda>p1. bindE (pressure e (Num 6) T xi) (\<lambda>p6.
       Inr ([Num (1 / 6), Num 1], [p6, p1])))"
  by (cases "pressure e (Num 1) T xi"; cases "pressure e (Num 6) T xi")
    (simp_all add: PvsRho_def assms sample_rhodict_def np_arange_sample fsub_def flt_def
      np_amax_def np_any_isnan_def)

lemma PvsRho_sample:
  "PvsRho T xi (sample_eos\<lparr>pressure := p\<rparr>) sample_rhodict =
     bindE (p (Num 1) T xi) (\<lambda>p1. bindE (p (Num 6) T xi) (\<lambda>p6.
       Inr ([Num (1 / 6), Num 1], [p6, p1])))"
  using PvsRho_sample_grid [of "sample_eos\<lparr>pressure := p\<rparr>" T xi]
  by (simp add: sample_eos_def)

text \<open>
  Unrolling a \<^verbatim>\<open>for\<close> loop by one pass, and a loop whose body leaves the state as it
  is and never breaks: it runs to the end of the range.
\<close>

lemma for_range_numeral:
  "for_range body z (numeral k) s =
     bindE (body z s) (\<lambda>(s', stop).
     if stop then Inr (s', z) else for_range body (z + 1) (pred_numeral k) s')"
  by (simp add: numeral_eq_Suc cong: if_cong)

lemma for_range_stationary:
  assumes "\<And>k. z \<le> k \<Longrightarrow> body k s = Inr (s, False)"
  shows "for_range body z (Suc n) s = Inr (s, z + n)"
  using assms
proof (induction n arbitrary: z)
  case 0
  then show ?case by simp
next
  case (Suc n)
  have "body z s = Inr (s, False)" using Suc.prems by simp
  moreover have "for_range body (Suc z) (Suc n) s = Inr (s, Suc z + n)"
    using Suc.prems by (intro Suc.IH) simp
  ultimately show ?case by simp
qed

section \<open>The composition round trip\<close>












section \<open>The fugacity layer\<close>

lemma calc_phiv_by_flag:
  assumes "calc_rhov L P T yi e rd = Inr (rhov, flagv)"
  shows "calc_phiv L P T yi e rd =
    (if flagv = 4 then Inr (replicate (length yi) (Num 1), Num 0, 4)
     else if flagv = 3 then Inr ([NaN, NaN], rhov, 3)
     else bindE (fugacity_coefficient e P rhov yi T) (\<lambda>phiv. Inr (phiv, rhov, flagv)))"
  using assms by (simp add: calc_phiv_def)

lemma calc_phil_by_flag:
  assumes "calc_rhol L P T xi e rd = Inr (rhol, flagl)"
  shows "calc_phil L P T xi e rd =
    (if flagl = 3 then Inr ([NaN, NaN], rhol, 3)
     else bindE (fugacity_coefficient e P rhol xi T) (\<lambda>phil. Inr (phil, rhol, flagl)))"
  using assms by (simp add: calc_phil_def)

text \<open>A ternary system whose equation of state gives no pressure (NaN everywhere).\<close>

definition ternary_nan_eos :: eos where
  "ternary_nan_eos =
     \<lparr>beads = [''CO2'', ''H2O'', ''N2''],
      nui = [[Num 1, Num 0, Num 0], [Num 0, Num 1, Num 0], [Num 0, Num 0, Num 1]],
      pressure = (\<lambda>rho T xi. Inr NaN),
      density_max = (\<lambda>xi T. Inr (Num 11)),
      fugacity_coefficient = (\<lambda>P rho xi T. Inr xi)\<rparr>"

lemma PvsRho_ternary_nan:
  "PvsRho T xi ternary_nan_eos sample_rhodict = Inr ([Num (1 / 6), Num 1], [NaN, NaN])"
proof -
  have a: "np_arange (Num 1) (Num 11) (Num 5) = Inr [Num 1, Num 6]"
    by (simp add: np_arange_def upt_rec)
  show ?thesis
    by (simp add: PvsRho_def ternary_nan_eos_def sample_rhodict_def a fsub_def flt_def
        np_amax_def np_any_isnan_def)
qed

text \<open>
  C2 at a composition of three components for which the classifier reports no stable
  phase (flag 3): \<^verbatim>\<open>calc_phiv\<close> and \<^verbatim>\<open>calc_phil\<close> return the two-entry array
  \<^verbatim>\<open>np.array([np.nan,np.nan])\<close>, whose length is not the number of components.
\<close>

theorem calc_phiv_flag3_length_two:
  "calc_rhov sample_scipy (Num 7) (Num 300) [Num (1 / 2), Num (1 / 4), Num (1 / 4)]
     ternary_nan_eos sample_rhodict = Inr (NaN, 3)
   \<and> calc_phiv sample_scipy (Num 7) (Num 300) [Num (1 / 2), Num (1 / 4), Num (1 / 4)]
       ternary_nan_eos sample_rhodict = Inr ([NaN, NaN], NaN, 3)
   \<and> calc_phil sample_scipy (Num 7) (Num 300) [Num (1 / 2), Num (1 / 4), Num (1 / 4)]
       ternary_nan_eos sample_rhodict = Inr ([NaN, NaN], NaN, 3)
   \<and> length [NaN, NaN] \<noteq> length [Num (1 / 2), Num (1 / 4), Num (1 / 4 :: real)]"
proof -
  have s: "PvsV_spline sample_scipy [Num (1 / 6), Num 1] [NaN, NaN] = Inr ([NaN, NaN], [NaN], [])"
    by (simp add: PvsV_spline_def sample_scipy_def np_any_isnan_def)
  have v: "calc_rhov sample_scipy (Num 7) (Num 300) [Num (1 / 2), Num (1 / 4), Num (1 / 4)]
     ternary_nan_eos sample_rhodict = Inr (NaN, 3)"
    by (simp add: calc_rhov_def PvsRho_ternary_nan fsub_def s calc_rhov_classify_def
        calc_rhov_refine_def np_any_isnan_def)
  have l: "calc_rhol sample_scipy (Num 7) (Num 300) [Num (1 / 2), Num (1 / 4), Num (1 / 4)]
     ternary_nan_eos sample_rhodict = Inr (NaN, 3)"
    by (simp add: calc_rhol_def PvsRho_ternary_nan fsub_def s calc_rhol_classify_def
        calc_rhol_refine_def np_any_isnan_def)
  from v l show ?thesis
    by (simp add: calc_phiv_def calc_phil_def)
qed

section \<open>\<^verbatim>\<open>solve_yi_xiT\<close> when the iteration cap is reached\<close>

text \<open>
  Whatever the re-solve gives, the block after the loop returns the coefficients and
  the flag of the last pass: in its second branch (\<open>z = maxiter - 1\<close>, \<open>flagv\<close> not 3)
  the result is \<open>(yinew / sum(yinew), phiv2, flagv2)\<close> with \<open>phiv2\<close> and
  \<open>flagv2\<close> as the loop left them.
\<close>

lemma solve_yi_finish_returns_last_pass:
  assumes "solve_yi_finish L S xi phil P T e rd maxiter tol z s = Inr ((yi2, phiv2, fl), s')"
    and "z = maxiter - 1" and "s_flagv s \<noteq> 3"
  shows "s_phiv2 s = Some phiv2 \<and> (\<exists>n. s_flagv2 s = Some n \<and> fl = Flag n)"
  using assms
  by (auto simp: solve_yi_finish_def bindE_def Let_def
      split: sum.splits option.splits if_splits prod.splits)

text \<open>The toy system: the classifier, the fugacity layer and the objective.\<close>

lemma calc_rhov_run:
  "calc_rhov (run_scipy y) (Num 7) T yi run_eos sample_rhodict = Inr (Num (1 / 4), 0)"
proof -
  have g: "PvsRho T yi run_eos sample_rhodict = Inr ([Num (1 / 6), Num 1], [Num 6, Num 1])"
    using PvsRho_sample_grid [of run_eos T yi]
    by (simp add: run_eos_def sample_eos_def)
  have s: "PvsV_spline (run_scipy y) [Num (1 / 6), Num 1] [Num (- 1), Num (- 6)] =
       Inr ([Num (- 1), Num (- 6)], [Num 1, Num 2, Num 4], [])"
    by (simp add: PvsV_spline_def run_scipy_def sample_scipy_def np_any_isnan_def)
  have c: "calc_rhov_classify (run_scipy y) (Num 7) T yi run_eos
      [Num (1 / 6), Num 1] [Num (- 1), Num (- 6)] [Num (- 1), Num (- 6)]
      [Num 1, Num 2, Num 4] [] = Inr (Num (1 / 4), 0, False)"
    by (simp add: calc_rhov_classify_def np_any_isnan_def pydiv_def)
  have r: "calc_rhov_refine (run_scipy y) (Num 7) T yi run_eos
      [Num (- 1), Num (- 6)] (Num (1 / 4)) 0 False = Inr (Num (1 / 4))"
    by (simp add: calc_rhov_refine_def run_eos_def sample_eos_def Pdiff_def fsub_def flt_def
        nthE_def)
  show ?thesis
    by (simp add: calc_rhov_def g fsub_def s c r)
qed

lemma run_eos_fugacity:
  "fugacity_coefficient run_eos P rho (a # rest) T =
     Inr (if flt a (Num (1 / 2)) then [Num 1, Num 3] else [Num 3, Num 1])"
  by (simp add: run_eos_def sample_eos_def)

lemma calc_phiv_run:
  "calc_phiv (run_scipy y) (Num 7) T (a # rest) run_eos sample_rhodict =
     Inr (if flt a (Num (1 / 2)) then [Num 1, Num 3] else [Num 3, Num 1], Num (1 / 4), 0)"
  by (simp add: calc_phiv_def calc_rhov_run run_eos_fugacity)

lemma obj_yi_run:
  "obj_yi (run_scipy y) [a, b] (Num 7) T [Num 2, Num 2] [Num (1 / 2), Num (1 / 2)] run_eos
     sample_rhodict = Inr (Num (4 / 3), 0)"
  by (simp add: obj_yi_def calc_phiv_run np_binop_def np_sum_def flt_def fsub_def Let_def)

lemmas run_defs = solve_yi_step_def solve_yi_propose_def solve_yi_check_def
  solve_yi_new_guess_def solve_yi_bouncing_def solve_yi_converged_def
  smallest_fraction_index_def relative_change_def calc_phiv_run np_binop_def np_sum_def
  flt_def fsub_def Let_def nan_to_zero_def np_any_isnan_def lastE_def nthE_def py_min_def
  feq_def array_truth_def nonzero_def solve_yi_tol_def solve_yi_maxiter_def

text \<open>The passes of the loop on the toy system.\<close>

lemma run_step_first:
  "solve_yi_step (run_scipy y) run_searches [Num (1 / 2), Num (1 / 2)] [Num 2, Num 2] (Num 7) T
     run_eos sample_rhodict solve_yi_maxiter solve_yi_tol 0
     (solve_yi_init [Num (1 / 4), Num (3 / 4)], g) =
   Inr ((run_state True [Num 1, Num (4 / 3)], g), False)"
  by (simp add: run_defs solve_yi_init_def run_state_def)

lemma run_step_next:
  assumes "ts \<noteq> []" "last ts = Num (4 / 3)" "z < 29"
  shows "solve_yi_step (run_scipy y) run_searches [Num (1 / 2), Num (1 / 2)] [Num 2, Num 2]
     (Num 7) T run_eos sample_rhodict solve_yi_maxiter solve_yi_tol z (run_state low ts, g) =
   Inr ((run_state (\<not> low) (ts @ [Num (4 / 3)]), g), False)"
  using assms by (cases low) (simp_all add: run_defs run_state_def)

lemma run_step_last:
  assumes "ts \<noteq> []" "last ts = Num (4 / 3)" "z = 29"
  shows "solve_yi_step (run_scipy y) run_searches [Num (1 / 2), Num (1 / 2)] [Num 2, Num 2]
     (Num 7) T run_eos sample_rhodict solve_yi_maxiter solve_yi_tol z (run_state True ts, g) =
   Inr (((run_state False ts)\<lparr>s_yi := [Num 1, Num (1 / 3)]\<rparr>, g), False)"
  using assms by (simp_all add: run_defs run_state_def)

lemma run_loop:
  "for_range (solve_yi_step (run_scipy y) run_searches [Num (1 / 2), Num (1 / 2)]
       [Num 2, Num 2] (Num 7) T run_eos sample_rhodict solve_yi_maxiter solve_yi_tol)
     0 30 (solve_yi_init [Num (1 / 4), Num (3 / 4)], g) =
   Inr (((run_state False (Num 1 # replicate 29 (Num (4 / 3))))\<lparr>s_yi := [Num 1, Num (1 / 3)]\<rparr>,
         g), 29)"
proof -
  have ts: "replicate 29 (Num (4 / 3)) =
      [Num (4 / 3), Num (4 / 3), Num (4 / 3), Num (4 / 3),
       Num (4 / 3), Num (4 / 3), Num (4 / 3), Num (4 / 3), Num (4 / 3),
       Num (4 / 3), Num (4 / 3), Num (4 / 3), Num (4 / 3), Num (4 / 3),
       Num (4 / 3), Num (4 / 3), Num (4 / 3), Num (4 / 3), Num (4 / 3),
       Num (4 / 3), Num (4 / 3), Num (4 / 3), Num (4 / 3), Num (4 / 3),
       Num (4 / 3), Num (4 / 3), Num (4 / 3), Num (4 / 3), Num (4 / 3)]"
    by (simp add: numeral_eq_Suc)
  show ?thesis
    unfolding ts
    by (simp add: for_range_numeral run_step_first run_step_next run_step_last)
qed

text \<open>
  The block after the loop on the toy system: the smallest fraction differs by 200%,
  \<^verbatim>\<open>find_new_yi\<close> and \<^verbatim>\<open>least_squares\<close> are called, the objective at the re-solved
  composition is \<open>4/3\<close>, above the tolerance, and \<^verbatim>\<open>phiv\<close> and \<^verbatim>\<open>flagv\<close> are set to
  NaN and 3; the values returned are \<^verbatim>\<open>phiv2\<close> and \<^verbatim>\<open>flagv2\<close>.
\<close>

lemma run_finish:
  "solve_yi_finish (run_scipy y) run_searches [Num (1 / 2), Num (1 / 2)] [Num 2, Num 2] (Num 7) T
     run_eos sample_rhodict solve_yi_maxiter solve_yi_tol 29
     ((run_state False ts)\<lparr>s_yi := [Num 1, Num (1 / 3)]\<rparr>) =
   Inr (([Num (1 / 4), Num (3 / 4)], [Num 1, Num 3], Flag 0),
        (run_state False ts)\<lparr>s_yi := [y, fsub (Num 1) y],
          s_yinew := Some [Num (1 / 2), Num (1 / 2)],
          s_phiv := [NaN, NaN], s_flagv := 3\<rparr>)"
  by (simp add: solve_yi_finish_def run_state_def smallest_fraction_index_def
      relative_change_def py_min_def feq_def nthE_def np_sum_def array_truth_def
      run_searches_def run_scipy_def [of y, THEN arg_cong [of _ _ least_squares]]
      calc_phiv_run obj_yi_run solve_yi_tol_def solve_yi_maxiter_def Let_def flt_def fsub_def)

text \<open>
  C3 on the toy system, at the defaults (30 passes, tolerance 1e-8), from the guess
  \<open>[1/4, 3/4]\<close> with \<open>xi = [1/2, 1/2]\<close> and \<open>phil = [2, 2]\<close>: the 30 passes are
  used up, the smallest fraction is off by more than 10%, and whatever value \<open>y\<close> the
  least-squares re-solve gives, the objective there is \<open>4/3\<close>, above the tolerance.
  The result returned is the composition \<open>[1/4, 3/4]\<close> with the finite coefficients
  \<open>[1, 3]\<close> and flag 0: the NaN vector and the flag 3 are stored in \<^verbatim>\<open>phiv\<close> and
  \<^verbatim>\<open>flagv\<close>, which the \<^verbatim>\<open>return\<close> does not use.
\<close>

theorem solve_yi_xiT_cap_reached_returns_flag_0:
  "solve_yi_xiT_run (run_scipy y) run_searches [Num (1 / 4), Num (3 / 4)]
       [Num (1 / 2), Num (1 / 2)] [Num 2, Num 2] (Num 7) (Num 300) run_eos sample_rhodict
       solve_yi_maxiter solve_yi_tol no_globals =
     Inr ((([Num (1 / 4), Num (3 / 4)], [Num 1, Num 3], Flag 0),
           (run_state False (Num 1 # replicate 29 (Num (4 / 3))))\<lparr>s_yi := [y, fsub (Num 1) y],
             s_yinew := Some [Num (1 / 2), Num (1 / 2)],
             s_phiv := [NaN, NaN], s_flagv := 3\<rparr>), no_globals)
   \<and> solve_yi_xiT (run_scipy y) run_searches [Num (1 / 4), Num (3 / 4)]
       [Num (1 / 2), Num (1 / 2)] [Num 2, Num 2] (Num 7) (Num 300) run_eos sample_rhodict
       solve_yi_maxiter solve_yi_tol no_globals =
     Inr (([Num (1 / 4), Num (3 / 4)], [Num 1, Num 3], Flag 0), no_globals)
   \<and> obj_yi (run_scipy y) [y, fsub (Num 1) y] (Num 7) (Num 300) [Num 2, Num 2]
       [Num (1 / 2), Num (1 / 2)] run_eos sample_rhodict = Inr (Num (4 / 3), 0)
   \<and> fgt (Num (4 / 3)) solve_yi_tol"
proof -
  have m: "solve_yi_maxiter = 30"
    by (simp add: solve_yi_maxiter_def)
  have r: "solve_yi_xiT_run (run_scipy y) run_searches [Num (1 / 4), Num (3 / 4)]
       [Num (1 / 2), Num (1 / 2)] [Num 2, Num 2] (Num 7) (Num 300) run_eos sample_rhodict
       solve_yi_maxiter solve_yi_tol no_globals =
     Inr ((([Num (1 / 4), Num (3 / 4)], [Num 1, Num 3], Flag 0),
           (run_state False (Num 1 # replicate 29 (Num (4 / 3))))\<lparr>s_yi := [y, fsub (Num 1) y],
             s_yinew := Some [Num (1 / 2), Num (1 / 2)],
             s_phiv := [NaN, NaN], s_flagv := 3\<rparr>), no_globals)"
    unfolding solve_yi_xiT_run_def
    by (simp add: run_loop [unfolded m [symmetric]] run_finish) (simp add: m)
  have t: "fgt (Num (4 / 3)) solve_yi_tol"
    by (simp add: solve_yi_tol_def)
  from r t show ?thesis
    by (simp add: solve_yi_xiT_def obj_yi_run)
qed

section \<open>The iteration cap of the pressure bracketing\<close>

text \<open>
  What the two bracketing procedures do when a loop runs through all of its 200 passes
  (the loop variable is then \<open>maxiter - 1\<close>). \<^verbatim>\<open>calc_Prange_xi\<close> raises after its first
  loop and gives the NaN bracket and the NaN guess after its second;
  \<^verbatim>\<open>calc_xT_phase\<close> raises on a NaN bracket. \<^verbatim>\<open>calc_Prange_yi\<close> logs an error and gives
  the NaN bracket and the NaN guess.
\<close>

lemma calc_Prange_xi_lower_exhausted:
  assumes "calc_Prange_xi_start L T xi e rd Pmin = Inr start"
    and "calc_Prange_xi_lower L V T xi yi e rd zo Pmin start g = Inr (s, calc_Prange_maxiter - 1)"
  shows "calc_Prange_xi L V T xi yi e rd zo Pmin g = Inl (ValueError
    ''Maximum Number of Iterations Reached: Proper minimum pressure for liquid density could not be found'' [])"
  using assms by (simp add: calc_Prange_xi_def)

lemma calc_Prange_xi_upper_exhausted:
  assumes "calc_Prange_xi_start L T xi e rd Pmin = Inr start"
    and "calc_Prange_xi_lower L V T xi yi e rd zo Pmin start g = Inr (s, z)"
    and "z \<noteq> calc_Prange_maxiter - 1"
    and "calc_Prange_xi_upper L V T xi e rd zo s = Inr (s', calc_Prange_maxiter - 1)"
  shows "calc_Prange_xi L V T xi yi e rd zo Pmin g = Inr (((NaN, NaN), NaN), px_globals s')"
  using assms by (simp add: calc_Prange_xi_def)

lemma calc_xT_phase_nan_bracket_raises:
  assumes "estimate_Psat L False T (length xi) e rd [0..<length xi] = Inr Psat"
    and "np_binop fdiv xi Psat = Inr ratio"
    and "\<And>yi g1. \<exists>g2. calc_Prange_xi L V T xi yi e rd zo 10000 g1 = Inr (((NaN, NaN), NaN), g2)"
  shows "calc_xT_phase L V xi T e rd zo Pguess0 g = Inl (ValueError
    ''Neither a suitable pressure range, or guess in pressure could be found nor was given.'' [])"
proof -
  from assms(3) obtain G where
    "\<And>yi g1. calc_Prange_xi L V T xi yi e rd zo 10000 g1 = Inr (((NaN, NaN), NaN), G yi g1)"
    by metis
  then show ?thesis
    by (simp add: calc_xT_phase_def assms(1,2) Let_def)
qed

lemma calc_Prange_yi_exhausted:
  assumes "calc_Prange_yi_start L T yi e rd = Inr Prange"
    and "calc_Prange_yi_loop L V T xi yi e rd zo Prange g = Inr (s, calc_Prange_maxiter - 1)"
  shows "calc_Prange_yi L V T xi yi e rd zo g = Inr (((NaN, NaN), NaN), py_globals s)"
  using assms by (simp add: calc_Prange_yi_def)

text \<open>
  The dew-point sample: the sampled curve, the saturation pressures (both from
  \<^verbatim>\<open>setPsat\<close>, the curve having no extremum), the densities and the fugacity layer at
  the pressures the bracketing tries, and at a NaN pressure.
\<close>

lemma PvsRho_dew:
  "PvsRho T yi dew_eos sample_rhodict = Inr ([Num (1 / 6), Num 1], [Num 6, Num 1])"
  using PvsRho_sample_grid [of dew_eos T yi]
  by (simp add: dew_eos_def sample_eos_def)

lemma PvsV_spline_dew:
  "PvsV_spline three_roots_scipy vl pl =
     Inr (pl, if np_any_isnan pl then [NaN] else [Num 1, Num 2, Num 4], [])"
  by (simp add: PvsV_spline_def three_roots_scipy_def sample_scipy_def)

lemma estimate_Psat_dew:
  "estimate_Psat three_roots_scipy True T 2 dew_eos sample_rhodict [0, 1] =
     Inr [Num 7377000, Num 7377000]"
proof -
  have c: "calc_Psat three_roots_scipy T xi dew_eos sample_rhodict = Inr (NaN, Num 1, Num 1)"
    if "length (filter nonzero xi) = 1" for xi
    using that
    by (simp add: calc_Psat_def Psat_composition_check_def PvsRho_dew PvsV_spline_dew pydiv_def)
  have s: "setPsat 0 dew_eos = Inr (Num 7377000, ''No NaNbead'')"
    "setPsat (Suc 0) dew_eos = Inr (Num 7377000, ''H2O'')"
    by (simp_all add: setPsat_def dew_eos_def sample_eos_def nthE_def upt_rec)
  have u: "(replicate 2 (Num 0))[0 := Num 1] = [Num 1, Num 0]"
    "(replicate 2 (Num 0))[Suc 0 := Num 1] = [Num 0, Num 1]"
    by (simp_all add: numeral_2_eq_2)
  show ?thesis
    by (simp add: u c s nonzero_def)
qed

lemma estimate_Psat_dew_yi:
  "estimate_Psat three_roots_scipy True T (length [Num 1, Num 0]) dew_eos
     sample_rhodict [0..<length [Num 1, Num 0]] = Inr [Num 7377000, Num 7377000]"
proof -
  have "length [Num 1, Num 0] = 2" by simp
  moreover have "[0..<2] = [0, 1::nat]" by (simp add: upt_rec)
  ultimately show ?thesis by (simp only: estimate_Psat_dew)
qed

lemma dew_eos_fugacity:
  "fugacity_coefficient dew_eos P rho xi T =
     Inr (if flt rho (Num (1 / 2)) then [Num (1 / 2), Num (1 / 2)] else [Num 1, Num 1])"
  by (simp add: dew_eos_def)

lemma dew_eos_pressure: "pressure dew_eos rho T xi = Inr rho"
  by (simp add: dew_eos_def sample_eos_def)

lemma dew_eos_density_max: "density_max dew_eos xi T = Inr (Num 11)"
  by (simp add: dew_eos_def sample_eos_def)

lemma three_roots_scipy_search:
  "brentq three_roots_scipy f a b = Inr a"
  "minimize three_roots_scipy f x0 bounds = Inr x0"
  by (simp_all add: three_roots_scipy_def sample_scipy_def)

lemmas dew_rho_defs = np_any_isnan_def pydiv_def fsub_def Pdiff_def dew_eos_pressure
  dew_eos_density_max three_roots_scipy_search flt_def nthE_def Let_def

lemma calc_rhov_dew:
  assumes "p = Num 1 \<or> p = Num 10 \<or> p = PInf"
  shows "calc_rhov three_roots_scipy p T yi dew_eos sample_rhodict = Inr (Num (1 / 4), 0)"
proof -
  have n: "\<not> np_any_isnan (map (\<lambda>q. fsub q p) [Num 6, Num 1])"
    using assms by (auto simp: np_any_isnan_def fsub_def)
  have c: "calc_rhov_classify three_roots_scipy p T yi dew_eos
      [Num (1 / 6), Num 1] pl pl [Num 1, Num 2, Num 4] [] = Inr (Num (1 / 4), 0, False)" for pl
    by (simp add: calc_rhov_classify_def np_any_isnan_def pydiv_def)
  have r: "calc_rhov_refine three_roots_scipy p T yi dew_eos
      (map (\<lambda>q. fsub q p) [Num 6, Num 1]) (Num (1 / 4)) 0 False = Inr (Num (1 / 4))"
    using assms
    by (auto simp: calc_rhov_refine_def dew_rho_defs)
  show ?thesis
    using n r by (simp add: calc_rhov_def PvsRho_dew PvsV_spline_dew c)
qed

lemma calc_phiv_dew:
  assumes "p = Num 1 \<or> p = Num 10 \<or> p = PInf"
  shows "calc_phiv three_roots_scipy p T yi dew_eos sample_rhodict =
    Inr ([Num (1 / 2), Num (1 / 2)], Num (1 / 4), 0)"
  by (simp add: calc_phiv_def calc_rhov_dew [OF assms] dew_eos_fugacity flt_def)

lemma calc_rhol_dew:
  assumes "p = Num 1 \<or> p = Num 10 \<or> p = PInf"
  shows "calc_rhol three_roots_scipy p T xi dew_eos sample_rhodict =
    Inr (if p = Num 1 then Num (99 / 100) else Num 1, 1)"
  using assms
  by (auto simp: calc_rhol_def PvsRho_dew PvsV_spline_dew calc_rhol_classify_def
      calc_rhol_refine_def dew_rho_defs)

lemma calc_phil_dew:
  assumes "p = Num 1 \<or> p = Num 10 \<or> p = PInf"
  shows "calc_phil three_roots_scipy p T xi dew_eos sample_rhodict =
    Inr ([Num 1, Num 1], if p = Num 1 then Num (99 / 100) else Num 1, 1)"
  by (simp add: calc_phil_def calc_rhol_dew [OF assms] dew_eos_fugacity flt_def)

lemma calc_rho_dew_nan:
  "calc_rhov three_roots_scipy NaN T yi dew_eos sample_rhodict = Inr (NaN, 3)"
  "calc_rhol three_roots_scipy NaN T yi dew_eos sample_rhodict = Inr (NaN, 3)"
  by (simp_all add: calc_rhov_def calc_rhol_def PvsRho_dew PvsV_spline_dew fsub_def
      np_any_isnan_def calc_rhov_classify_def calc_rhov_refine_def calc_rhol_classify_def
      calc_rhol_refine_def)

lemma calc_phi_dew_nan:
  "calc_phiv three_roots_scipy NaN T yi dew_eos sample_rhodict = Inr ([NaN, NaN], NaN, 3)"
  "calc_phil three_roots_scipy NaN T yi dew_eos sample_rhodict = Inr ([NaN, NaN], NaN, 3)"
  by (simp_all add: calc_phiv_def calc_phil_def calc_rho_dew_nan)

text \<open>
  The inner liquid solver on the sample, from the guess \<open>[1, 0]\<close>. At a pressure of
  the bracketing the first pass proposes \<open>[1/2, 0]\<close>, the second finds the same total
  and stops: the result is \<open>[1, 0]\<close> with unit coefficients and flag 1. At a NaN
  pressure the liquid coefficients are NaN and, the guess having a zero entry, no new
  guess is searched: the first pass keeps the guess and stops, with flag 3. From a
  guess without a zero entry (and a \<^verbatim>\<open>find_new_xi\<close> that finds nothing and gives NaN)
  the second pass at a NaN pressure takes the minimum of an empty array, which raises.
\<close>

lemmas solve_xi_defs = solve_xi_step_def solve_xi_propose_def solve_xi_check_def
  solve_xi_init_def np_sum_def np_binop_def nan_to_zero_def lastE_def
  smallest_fraction_index_def relative_change_def array_truth_def py_min_def feq_def
  solve_xi_tol_def flt_def fsub_def nonzero_def nthE_def np_any_isnan_def Let_def

lemma solve_xi_yiT_dew:
  assumes "p = Num 1 \<or> p = Num 10 \<or> p = PInf"
  shows "solve_xi_yiT three_roots_scipy dew_find_new_xi [Num 1, Num 0] [Num 1, Num 0]
     [Num (1 / 2), Num (1 / 2)] p T dew_eos sample_rhodict solve_xi_maxiter solve_xi_tol g =
   Inr (([Num 1, Num 0], [Num 1, Num 1], 1), g\<lparr>xi_global := Some [Num 1, Num 0]\<rparr>)"
  by (simp add: solve_xi_yiT_def solve_xi_maxiter_def for_range_numeral solve_xi_finish_def
      solve_xi_defs calc_phil_dew [OF assms])

lemma solve_xi_yiT_dew_nan:
  "solve_xi_yiT three_roots_scipy dew_find_new_xi [Num 1, Num 0] [Num 1, Num 0]
     [NaN, NaN] NaN T dew_eos sample_rhodict solve_xi_maxiter solve_xi_tol g =
   Inr (([Num 1, Num 0], [NaN], 3), g\<lparr>xi_global := Some [Num 1, Num 0]\<rparr>)"
  by (simp add: solve_xi_yiT_def solve_xi_maxiter_def for_range_numeral solve_xi_finish_def
      solve_xi_defs calc_phi_dew_nan)

lemma solve_xi_yiT_nan_pressure_interior:
  "solve_xi_yiT three_roots_scipy (\<lambda>P T phiv yi. Inr [NaN, NaN]) [Num (1 / 4), Num (3 / 4)]
     [Num (1 / 4), Num (3 / 4)] [NaN, NaN] NaN T dew_eos sample_rhodict solve_xi_maxiter
     solve_xi_tol g = Inl (ValueError ''min() arg is an empty sequence'' [])"
  by (simp add: solve_xi_yiT_def solve_xi_maxiter_def for_range_numeral solve_xi_finish_def
      solve_xi_defs calc_phi_dew_nan)

lemma dew_inner_xi:
  assumes "p = Num 1 \<or> p = Num 10 \<or> p = PInf"
  shows "inner_xi dew_solvers default_zi_opts [Num 1, Num 0] [Num 1, Num 0]
     [Num (1 / 2), Num (1 / 2)] p T g =
   Inr (([Num 1, Num 0], [Num 1, Num 1], 1), g\<lparr>xi_global := Some [Num 1, Num 0]\<rparr>)"
  by (simp add: dew_solvers_def call_solve_xi_yiT_def default_zi_opts_def
      solve_xi_yiT_dew [OF assms])

lemma dew_inner_xi_nan:
  "inner_xi dew_solvers default_zi_opts [Num 1, Num 0] [Num 1, Num 0] [NaN, NaN] NaN T g =
   Inr (([Num 1, Num 0], [NaN], 3), g\<lparr>xi_global := Some [Num 1, Num 0]\<rparr>)"
  by (simp add: dew_solvers_def call_solve_xi_yiT_def default_zi_opts_def solve_xi_yiT_dew_nan)

lemma dew_solvers_solve_root: "solve_root dew_solvers f x0 bounds g = Inr (x0, g)"
  by (simp add: dew_solvers_def)

lemma no_globals_xi: "xi_global no_globals = None"
  by (simp add: no_globals_def)

lemma tighten_tol_default: "tighten_tol default_zi_opts = default_zi_opts"
  by (simp add: tighten_tol_def default_zi_opts_def)

text \<open>
  The passes of the loop of \<^verbatim>\<open>calc_Prange_yi\<close> on the sample. The bracket starts at
  \<open>(1, 10)\<close>; the objective is \<open>-1/2\<close> at both ends, so the slope is zero and the next
  pressure is \<open>+inf\<close>; the third pass moves the bracket to \<open>(10, +inf)\<close>, and from then
  on nothing changes: the objective never becomes positive and the loop never breaks.
\<close>

lemmas dew_defs = calc_Prange_yi_step_def calc_phiv_dew dew_inner_xi equilibrium_objective_def
  np_binop_def np_nansum_def np_sum_def fsub_def flt_def not_vapor_def move_upper_def
  np_nanmax2_def Let_def dew_state_def

lemma dew_step0:
  "dew_step T default_zi_opts 0 (dew_state (Num 1, Num 10) (Num 0, Num 0) (Num 1) (dew_globals g)) =
   Inr (dew_state (Num 1, Num 10) (Num (- (1 / 2)), Num 0) (Num 10) (dew_globals g), False)"
  by (simp add: dew_defs)

lemma dew_step1:
  "dew_step T default_zi_opts (Suc 0)
     (dew_state (Num 1, Num 10) (Num (- (1 / 2)), Num 0) (Num 10) (dew_globals g)) =
   Inr (dew_state (Num 1, Num 10) (Num (- (1 / 2)), Num (- (1 / 2))) PInf (dew_globals g), False)"
  by (simp add: dew_defs)

lemma dew_step2:
  "dew_step T default_zi_opts (Suc (Suc 0))
     (dew_state (Num 1, Num 10) (Num (- (1 / 2)), Num (- (1 / 2))) PInf (dew_globals g)) =
   Inr (dew_state (Num 10, PInf) (Num (- (1 / 2)), Num (- (1 / 2))) PInf (dew_globals g), False)"
  by (simp add: dew_defs)

lemma dew_step_later:
  "1 < z \<Longrightarrow>
   dew_step T default_zi_opts z
     (dew_state (Num 10, PInf) (Num (- (1 / 2)), Num (- (1 / 2))) PInf (dew_globals g)) =
   Inr (dew_state (Num 10, PInf) (Num (- (1 / 2)), Num (- (1 / 2))) PInf (dew_globals g), False)"
  by (simp add: dew_defs)

lemma calc_Prange_yi_start_dew:
  "calc_Prange_yi_start three_roots_scipy T yi dew_eos sample_rhodict = Inr (Num 1, Num 10)"
  by (simp add: calc_Prange_yi_start_def PvsRho_dew PvsV_spline_dew py_min_def flt_def
      np_any_isnan_def Let_def)

lemma calc_Prange_yi_loop_dew:
  "calc_Prange_yi_loop three_roots_scipy dew_solvers T [Num 1, Num 0]
     [Num 1, Num 0] dew_eos sample_rhodict default_zi_opts (Num 1, Num 10) (dew_globals g) =
   Inr (dew_state (Num 10, PInf) (Num (- (1 / 2)), Num (- (1 / 2))) PInf (dew_globals g), 199)"
proof -
  let ?B = "dew_step T default_zi_opts"
  have a: "for_range ?B 0 200 (dew_state (Num 1, Num 10) (Num 0, Num 0) (Num 1) (dew_globals g)) =
      for_range ?B (Suc 0) 199
        (dew_state (Num 1, Num 10) (Num (- (1 / 2)), Num 0) (Num 10) (dew_globals g))"
    by (subst for_range_numeral) (simp add: dew_step0)
  have b: "for_range ?B (Suc 0) 199
        (dew_state (Num 1, Num 10) (Num (- (1 / 2)), Num 0) (Num 10) (dew_globals g)) =
      for_range ?B (Suc (Suc 0)) 198
        (dew_state (Num 1, Num 10) (Num (- (1 / 2)), Num (- (1 / 2))) PInf (dew_globals g))"
    by (subst for_range_numeral) (simp add: dew_step1)
  have c: "for_range ?B (Suc (Suc 0)) 198
        (dew_state (Num 1, Num 10) (Num (- (1 / 2)), Num (- (1 / 2))) PInf (dew_globals g)) =
      for_range ?B (Suc (Suc (Suc 0))) 197
        (dew_state (Num 10, PInf) (Num (- (1 / 2)), Num (- (1 / 2))) PInf (dew_globals g))"
    by (subst for_range_numeral) (simp add: dew_step2)
  have "for_range ?B (Suc (Suc (Suc 0))) (Suc 196)
      (dew_state (Num 10, PInf) (Num (- (1 / 2)), Num (- (1 / 2))) PInf (dew_globals g)) =
    Inr (dew_state (Num 10, PInf) (Num (- (1 / 2)), Num (- (1 / 2))) PInf (dew_globals g),
         Suc (Suc (Suc 0)) + 196)"
    by (rule for_range_stationary) (simp add: dew_step_later)
  then have d: "for_range ?B (Suc (Suc (Suc 0))) 197
      (dew_state (Num 10, PInf) (Num (- (1 / 2)), Num (- (1 / 2))) PInf (dew_globals g)) =
    Inr (dew_state (Num 10, PInf) (Num (- (1 / 2)), Num (- (1 / 2))) PInf (dew_globals g), 199)"
    by simp
  have i: "\<lparr>py_Prange = (Num 1, Num 10), py_ObjRange = (Num 0, Num 0),
       py_xi_range = [Num 1, Num 0], py_p = fst (Num 1, Num 10),
       py_flag_sol = False, py_flag_vapor = False, py_Pguess = None,
       py_globals = dew_globals g\<rparr> =
     dew_state (Num 1, Num 10) (Num 0, Num 0) (Num 1) (dew_globals g)"
    by (simp add: dew_state_def)
  show ?thesis
    unfolding calc_Prange_yi_loop_def calc_Prange_maxiter_def i a b c d ..
qed

lemma calc_Prange_yi_dew:
  "calc_Prange_yi three_roots_scipy dew_solvers T [Num 1, Num 0]
     [Num 1, Num 0] dew_eos sample_rhodict default_zi_opts (dew_globals g) =
   Inr (((NaN, NaN), NaN), dew_globals g)"
  by (simp add: calc_Prange_yi_def calc_Prange_yi_start_dew calc_Prange_yi_loop_dew
      calc_Prange_maxiter_def dew_state_def)

lemma solve_P_yiT_dew_nan:
  "solve_P_yiT three_roots_scipy dew_solvers NaN [Num 1, Num 0] T dew_eos
     sample_rhodict default_zi_opts (dew_globals g) = Inr (Num (- 1), dew_globals g)"
  by (simp add: solve_P_yiT_def calc_phi_dew_nan flt_def dew_inner_xi_nan np_sum_def
      nonzero_def equilibrium_objective_def np_binop_def np_nansum_def fsub_def
      Let_def dew_eos_pressure)

lemma calc_yT_phase_dew:
  "calc_yT_phase three_roots_scipy dew_solvers [Num 1, Num 0] (Num 300) dew_eos
     sample_rhodict default_zi_opts (Num (- 1)) no_globals =
   Inr ((NaN, [Num 1, Num 0], 3, 3, Num (- 1)), dew_globals no_globals)"
  unfolding calc_yT_phase_def estimate_Psat_dew_yi
  by (simp add: np_binop_def nonzero_def flt_def
      np_sum_def no_globals_xi Let_def calc_Prange_yi_dew dew_solvers_solve_root
      calc_phi_dew_nan solve_P_yiT_dew_nan tighten_tol_default)

text \<open>
  Claim C4: whenever the outer pressure bracketing (\<^verbatim>\<open>calc_Prange_xi\<close> for
  \<^verbatim>\<open>calc_xT_phase\<close>, \<^verbatim>\<open>calc_Prange_yi\<close> for \<^verbatim>\<open>calc_yT_phase\<close>) exhausts its cap of 200
  passes without finding a sign change of the objective, the state-point calculation
  fails with a raised error and never returns a numeric result. On the dew-point side
  the code does not do that. On the sample, with the vapor composition \<open>[1, 0]\<close>, the
  loop of \<^verbatim>\<open>calc_Prange_yi\<close> ends with its loop variable at \<open>maxiter - 1\<close>,
  \<^verbatim>\<open>calc_Prange_yi\<close> returns the NaN bracket and the NaN guess, and \<^verbatim>\<open>calc_yT_phase\<close>,
  which does not test them, hands them to the root finder and returns the pressure
  NaN with the liquid composition \<open>[1, 0]\<close>, the flags 3 and 3 and the objective
  \<open>-1\<close>. The root finder of the sample returns its starting point;
  \<^verbatim>\<open>calc_yT_phase\<close> itself has no \<^verbatim>\<open>raise\<close> after the saturation pressures.
\<close>

theorem calc_yT_phase_returns_after_exhausted_bracketing:
  "calc_Prange_yi_loop three_roots_scipy dew_solvers (Num 300) [Num 1, Num 0] [Num 1, Num 0]
     dew_eos sample_rhodict default_zi_opts (Num 1, Num 10) (dew_globals no_globals) =
   Inr (dew_state (Num 10, PInf) (Num (- (1 / 2)), Num (- (1 / 2))) PInf
          (dew_globals no_globals),
        calc_Prange_maxiter - 1) \<and>
   calc_Prange_yi three_roots_scipy dew_solvers (Num 300) [Num 1, Num 0] [Num 1, Num 0]
     dew_eos sample_rhodict default_zi_opts (dew_globals no_globals) =
   Inr (((NaN, NaN), NaN), dew_globals no_globals) \<and>
   calc_yT_phase three_roots_scipy dew_solvers [Num 1, Num 0] (Num 300) dew_eos
     sample_rhodict default_zi_opts (Num (- 1)) no_globals =
   Inr ((NaN, [Num 1, Num 0], 3, 3, Num (- 1)), dew_globals no_globals)"
  by (simp add: calc_Prange_yi_loop_dew calc_Prange_yi_dew calc_yT_phase_dew
      calc_Prange_maxiter_def)

section \<open>\<^verbatim>\<open>calc_Psat\<close>: the composition test\<close>

text \<open>
  C5 as stated fails where two components are above 10%: the error raised there is the
  one with the message "Multiple components have compositions greater than 10%, check
  code for source", into which nothing is formatted, so it identifies no component.
\<close>

theorem calc_Psat_two_above_10pct_names_no_component:
  "calc_Psat sample_scipy (Num 300) [Num (1 / 2), Num (1 / 2)] sample_eos sample_rhodict =
     Inl (ValueError
       ''Multiple components have compositions greater than 10%, check code for source'' [])"
  by (simp add: calc_Psat_def Psat_composition_check_def nonzero_def double_tenth_def)

text \<open>
  C5, amended. For every composition whose number of nonzero entries is not one,
  \<^verbatim>\<open>calc_Psat\<close> raises and returns no numeric result. When the number of entries above
  the double 0.1 is not one (two components above 10% in particular) the error is the
  \<^verbatim>\<open>ValueError\<close> "Multiple components have compositions greater than 10%, check code for
  source", which names no component.
\<close>

theorem calc_Psat_rejects_mixture:
  assumes "length (filter nonzero xi) \<noteq> 1"
  shows "(\<exists>err. calc_Psat L T xi e rd = Inl err) \<and>
    (length (filter (\<lambda>x. fgt x (Num double_tenth)) xi) \<noteq> 1 \<longrightarrow>
       calc_Psat L T xi e rd = Inl (ValueError
         ''Multiple components have compositions greater than 10%, check code for source'' []))"
  using assms by (simp add: calc_Psat_def Psat_composition_check_def)

theorem calc_Psat_rejects_mixture_witness:
  "length (filter nonzero [Num (1 / 5), Num (3 / 10), Num (1 / 2)]) \<noteq> 1
   \<and> length (filter (\<lambda>x. fgt x (Num double_tenth)) [Num (1 / 5), Num (3 / 10), Num (1 / 2)]) \<noteq> 1
   \<and> calc_Psat sample_scipy (Num 300) [Num (1 / 5), Num (3 / 10), Num (1 / 2)] sample_eos
       sample_rhodict =
       Inl (ValueError
         ''Multiple components have compositions greater than 10%, check code for source'' [])"
proof -
  have h: "length (filter nonzero [Num (1 / 5), Num (3 / 10), Num (1 / 2)]) \<noteq> 1"
    by (simp add: nonzero_def)
  have t: "length (filter (\<lambda>x. fgt x (Num double_tenth))
      [Num (1 / 5), Num (3 / 10), Num (1 / 2)]) \<noteq> 1"
    by (simp add: double_tenth_def)
  from calc_Psat_rejects_mixture [OF h, of sample_scipy "Num 300" sample_eos sample_rhodict] h t
  show ?thesis by blast
qed

section \<open>\<^verbatim>\<open>calc_Psat\<close>: the branch without a solution\<close>

lemma calc_Psat_no_solution:
  assumes "length (filter nonzero xi) = 1"
    and "PvsRho T xi e rd = Inr (vlist, Plist)"
    and "PvsV_spline L vlist Plist = Inr (spl, roots, extrema)"
    and "length extrema < 2 \<or> np_any_isnan roots"
  shows "calc_Psat L T xi e rd = Inr (NaN, Num 1, Num 1)"
proof -
  from assms(4) have "extrema = [] \<or> length extrema < 2 \<or> np_any_isnan roots"
    by blast
  then show ?thesis
    using assms(1-3) by (simp add: calc_Psat_def Psat_composition_check_def pydiv_def)
qed

lemma calc_Psat_sample:
  "calc_Psat sample_scipy (Num 300) [Num 1, Num 0] sample_eos sample_rhodict =
     Inr (NaN, Num 1, Num 1)"
proof -
  have g: "PvsRho (Num 300) [Num 1, Num 0] sample_eos sample_rhodict =
      Inr ([Num (1 / 6), Num 1], [Num 6, Num 1])"
    using PvsRho_sample [of "Num 300" "[Num 1, Num 0]" "\<lambda>rho T xi. Inr rho"]
    by (simp add: sample_eos_def)
  show ?thesis
    by (simp add: calc_Psat_def Psat_composition_check_def g PvsV_spline_def sample_scipy_def
        nonzero_def pydiv_def np_any_isnan_def)
qed

text \<open>
  C6. For a pure composition (one nonzero entry) whose sampled curve gives fewer than
  two extrema, or a NaN among the roots, \<^verbatim>\<open>calc_Psat\<close> returns, and the saturation
  pressure it returns is NaN: nothing is raised once the curve has been sampled and
  fitted.
\<close>

theorem calc_Psat_supercritical_returns_nan:
  assumes "length (filter nonzero xi) = 1"
    and "PvsRho T xi e rd = Inr (vlist, Plist)"
    and "PvsV_spline L vlist Plist = Inr (spl, roots, extrema)"
    and "length extrema < 2 \<or> np_any_isnan roots"
  shows "\<exists>rhol rhov. calc_Psat L T xi e rd = Inr (NaN, rhol, rhov)"
  using calc_Psat_no_solution [OF assms] by blast

theorem calc_Psat_supercritical_returns_nan_witness:
  "length (filter nonzero [Num 1, Num 0]) = 1
   \<and> PvsRho (Num 300) [Num 1, Num 0] sample_eos sample_rhodict =
       Inr ([Num (1 / 6), Num 1], [Num 6, Num 1])
   \<and> PvsV_spline sample_scipy [Num (1 / 6), Num 1] [Num 6, Num 1] =
       Inr ([Num 6, Num 1], [], [])
   \<and> length ([] :: npfloat list) < 2
   \<and> (\<exists>rhol rhov. calc_Psat sample_scipy (Num 300) [Num 1, Num 0] sample_eos sample_rhodict =
         Inr (NaN, rhol, rhov))"
proof -
  have h1: "length (filter nonzero [Num 1, Num 0]) = 1"
    by (simp add: nonzero_def)
  have h2: "PvsRho (Num 300) [Num 1, Num 0] sample_eos sample_rhodict =
      Inr ([Num (1 / 6), Num 1], [Num 6, Num 1])"
    using PvsRho_sample [of "Num 300" "[Num 1, Num 0]" "\<lambda>rho T xi. Inr rho"]
    by (simp add: sample_eos_def)
  have h3: "PvsV_spline sample_scipy [Num (1 / 6), Num 1] [Num 6, Num 1] =
      Inr ([Num 6, Num 1], [], [])"
    by (simp add: PvsV_spline_def sample_scipy_def np_any_isnan_def)
  have h4: "length ([] :: npfloat list) < 2 \<or> np_any_isnan []"
    by simp
  from calc_Psat_supercritical_returns_nan [OF h1 h2 h3 h4] h1 h2 h3 show ?thesis
    by simp
qed

text \<open>
  C9. In that branch the two densities returned are \<open>1.0 / 1.0\<close>, the number one and
  not NaN: the roots are replaced by \<^verbatim>\<open>[1.0, 1.0, 1.0]\<close> before the \<^verbatim>\<open>return\<close>. Only
  the saturation pressure is NaN.
\<close>

theorem calc_Psat_supercritical_densities_one:
  assumes "length (filter nonzero xi) = 1"
    and "PvsRho T xi e rd = Inr (vlist, Plist)"
    and "PvsV_spline L vlist Plist = Inr (spl, roots, extrema)"
    and "length extrema < 2 \<or> np_any_isnan roots"
  shows "calc_Psat L T xi e rd = Inr (NaN, Num 1, Num 1) \<and> \<not> isnan (Num 1) \<and> isnan NaN"
  using calc_Psat_no_solution [OF assms] by simp

theorem calc_Psat_supercritical_densities_one_witness:
  "length (filter nonzero [Num 0, Num 1]) = 1
   \<and> PvsRho (Num 300) [Num 0, Num 1] sample_eos sample_rhodict =
       Inr ([Num (1 / 6), Num 1], [Num 6, Num 1])
   \<and> PvsV_spline sample_scipy [Num (1 / 6), Num 1] [Num 6, Num 1] =
       Inr ([Num 6, Num 1], [], [])
   \<and> length ([] :: npfloat list) < 2
   \<and> calc_Psat sample_scipy (Num 300) [Num 0, Num 1] sample_eos sample_rhodict =
       Inr (NaN, Num 1, Num 1)"
proof -
  have h1: "length (filter nonzero [Num 0, Num 1]) = 1"
    by (simp add: nonzero_def)
  have h2: "PvsRho (Num 300) [Num 0, Num 1] sample_eos sample_rhodict =
      Inr ([Num (1 / 6), Num 1], [Num 6, Num 1])"
    using PvsRho_sample [of "Num 300" "[Num 0, Num 1]" "\<lambda>rho T xi. Inr rho"]
    by (simp add: sample_eos_def)
  have h3: "PvsV_spline sample_scipy [Num (1 / 6), Num 1] [Num 6, Num 1] =
      Inr ([Num 6, Num 1], [], [])"
    by (simp add: PvsV_spline_def sample_scipy_def np_any_isnan_def)
  have h4: "length ([] :: npfloat list) < 2 \<or> np_any_isnan []"
    by simp
  from calc_Psat_supercritical_densities_one [OF h1 h2 h3 h4] h1 h2 h3 show ?thesis
    by simp
qed

section \<open>Three roots and more: which root the classifier takes\<close>

text \<open>A spline library as the sample one, but finding four roots.\<close>

definition four_roots_scipy :: "(npfloat list) scipy" where
  "four_roots_scipy = sample_scipy\<lparr>spline_roots := (\<lambda>s. Inr [Num 1, Num 2, Num 3, Num 4])\<rparr>"

text \<open>
  What the last branch of each classifier does, for every input: with three roots or
  more, none of them NaN or zero, \<^verbatim>\<open>calc_rhov\<close> hands the reciprocal of the third root
  \<^verbatim>\<open>roots[2]\<close> to the refinement, with flag 0, and \<^verbatim>\<open>calc_rhol\<close> that of the first root
  \<^verbatim>\<open>roots[0]\<close>, with flag 1 (its warning for a single extremum formats
  \<^verbatim>\<open>1/extrema[0]\<close>, so that extremum must not be zero).
\<close>

lemma calc_rhov_takes_third_root:
  assumes "PvsRho T xi e rd = Inr (vlist, Plist0)"
    and "PvsV_spline L vlist (map (\<lambda>p. fsub p P) Plist0) = Inr (spl, roots, extrema)"
    and "3 \<le> length roots"
    and "\<not> np_any_isnan roots"
    and "Num 0 \<notin> set roots"
  shows "calc_rhov L P T xi e rd =
           bindE (calc_rhov_refine L P T xi e (map (\<lambda>p. fsub p P) Plist0)
                    (fdiv (Num 1) (roots ! 2)) 0 False) (\<lambda>rho. Inr (rho, 0))"
proof -
  from assms(3) obtain a b c rest where roots: "roots = a # b # c # rest"
    by (cases roots rule: list.exhaust; simp;
        cases "tl roots" rule: list.exhaust; simp;
        cases "tl (tl roots)" rule: list.exhaust; simp)
  from roots assms(5) have r2: "roots ! 2 \<noteq> Num 0"
    by auto
  have v: "calc_rhov_classify L P T xi e vlist (map (\<lambda>p. fsub p P) Plist0) spl roots extrema
      = Inr (fdiv (Num 1) (roots ! 2), 0, False)"
    using assms(4) r2 by (simp add: roots calc_rhov_classify_def pydiv_def Let_def)
  with assms(1,2) show ?thesis
    by (simp add: calc_rhov_def)
qed

lemma calc_rhol_takes_first_root:
  assumes "PvsRho T xi e rd = Inr (vlist, Plist0)"
    and "PvsV_spline L vlist (map (\<lambda>p. fsub p P) Plist0) = Inr (spl, roots, extrema)"
    and "3 \<le> length roots"
    and "\<not> np_any_isnan roots"
    and "Num 0 \<notin> set roots"
    and "extrema \<noteq> [Num 0]"
  shows "calc_rhol L P T xi e rd =
           bindE (calc_rhol_refine L P T xi e (map (\<lambda>p. fsub p P) Plist0)
                    (fdiv (Num 1) (hd roots)) 1 False) (\<lambda>rho. Inr (rho, 1))"
proof -
  from assms(3) obtain a b c rest where roots: "roots = a # b # c # rest"
    by (cases roots rule: list.exhaust; simp;
        cases "tl roots" rule: list.exhaust; simp;
        cases "tl (tl roots)" rule: list.exhaust; simp)
  from roots assms(5) have r0: "roots ! 0 \<noteq> Num 0"
    by auto
  have x: "\<not> (length extrema = 1 \<and> extrema ! 0 = Num 0)"
    using assms(6) by (cases extrema) auto
  have l: "calc_rhol_classify L P T xi e vlist (map (\<lambda>p. fsub p P) Plist0) spl roots extrema
      = Inr (fdiv (Num 1) (hd roots), 1, False)"
    using assms(4) r0 x by (auto simp: roots calc_rhol_classify_def pydiv_def Let_def)
  with assms(1,2) show ?thesis
    by (simp add: calc_rhol_def)
qed

text \<open>
  Claim C7: whenever the curve shifted by \<open>P\<close> has three or more roots (listed by
  increasing specific volume), \<^verbatim>\<open>calc_rhov\<close> selects the root closest to infinite
  specific volume and returns its reciprocal as the vapor density, with the flag of a
  vapor, and \<^verbatim>\<open>calc_rhol\<close> selects the root of smallest specific volume. With four
  roots the code does not do that: the last branch of \<^verbatim>\<open>calc_rhov\<close>, commented
  "3 roots", takes \<^verbatim>\<open>roots[2]\<close>. On a curve with the roots 1, 2, 3 and 4 it returns the
  density \<open>1/3\<close> with flag 0; the root closest to infinite specific volume is the fourth,
  whose reciprocal is \<open>1/4\<close>.
\<close>

theorem calc_rhov_four_roots_takes_third:
  "PvsRho (Num 300) [Num 1, Num 0] sample_eos sample_rhodict =
     Inr ([Num (1 / 6), Num 1], [Num 6, Num 1])
   \<and> PvsV_spline four_roots_scipy [Num (1 / 6), Num 1] [Num (- 1), Num (- 6)] =
       Inr ([Num (- 1), Num (- 6)], [Num 1, Num 2, Num 3, Num 4], [])
   \<and> calc_rhov four_roots_scipy (Num 7) (Num 300) [Num 1, Num 0] sample_eos sample_rhodict =
       Inr (Num (1 / 3), 0)
   \<and> fdiv (Num 1) (last [Num 1, Num 2, Num 3, Num 4]) = Num (1 / 4)"
proof -
  have g: "PvsRho (Num 300) [Num 1, Num 0] sample_eos sample_rhodict =
      Inr ([Num (1 / 6), Num 1], [Num 6, Num 1])"
    using PvsRho_sample [of "Num 300" "[Num 1, Num 0]" "\<lambda>rho T xi. Inr rho"]
    by (simp add: sample_eos_def)
  have s: "PvsV_spline four_roots_scipy [Num (1 / 6), Num 1] [Num (- 1), Num (- 6)] =
      Inr ([Num (- 1), Num (- 6)], [Num 1, Num 2, Num 3, Num 4], [])"
    by (simp add: PvsV_spline_def four_roots_scipy_def sample_scipy_def np_any_isnan_def)
  have c: "calc_rhov_classify four_roots_scipy (Num 7) (Num 300) [Num 1, Num 0] sample_eos
      [Num (1 / 6), Num 1] [Num (- 1), Num (- 6)] [Num (- 1), Num (- 6)]
      [Num 1, Num 2, Num 3, Num 4] [] = Inr (Num (1 / 3), 0, False)"
    by (simp add: calc_rhov_classify_def np_any_isnan_def pydiv_def)
  have r: "calc_rhov_refine four_roots_scipy (Num 7) (Num 300) [Num 1, Num 0] sample_eos
      [Num (- 1), Num (- 6)] (Num (1 / 3)) 0 False = Inr (Num (1 / 3))"
    by (simp add: calc_rhov_refine_def sample_eos_def Pdiff_def fsub_def flt_def nthE_def)
  have "calc_rhov four_roots_scipy (Num 7) (Num 300) [Num 1, Num 0] sample_eos sample_rhodict =
       Inr (Num (1 / 3), 0)"
    by (simp add: calc_rhov_def g fsub_def s c r)
  with g s show ?thesis by simp
qed

section \<open>\<^verbatim>\<open>PvsV_spline\<close> on pressures that are not finite\<close>

text \<open>
  C8 as stated fails for an infinite pressure sample: the test of the source is
  \<^verbatim>\<open>np.any(np.isnan(Plist))\<close>, which an infinity does not meet, and the roots returned
  are those the spline gave (here none), not \<^verbatim>\<open>[nan]\<close>.
\<close>

theorem PvsV_spline_infinite_sample_keeps_roots:
  "\<not> isfinite PInf \<and>
   PvsV_spline sample_scipy [Num (1 / 6), Num 1] [PInf, Num 1] = Inr ([PInf, Num 1], [], [])"
  by (simp add: PvsV_spline_def sample_scipy_def np_any_isnan_def)

text \<open>
  C8, amended. Where some entry of the sampled pressure list is NaN, and the smoothing,
  the two spline fits and the two root searches of the library return, \<^verbatim>\<open>PvsV_spline\<close>
  returns with the roots \<^verbatim>\<open>[nan]\<close> (the spline object and the extrema, at most two, are
  those of the quartic fit). The test is made after the library calls, so an exception
  of theirs is not caught.
\<close>

theorem PvsV_spline_nan_sample:
  assumes "np_any_isnan Plist"
    and "gaussian_filter1d L Plist (Num (1 / 100)) = Inr Psmoothed"
    and "InterpolatedUnivariateSpline L vlist Psmoothed 3 = Inr cubic"
    and "spline_roots L cubic = Inr roots0"
    and "InterpolatedUnivariateSpline L vlist Psmoothed 4 = Inr quartic"
    and "spline_derivative_roots L quartic = Inr extrema0"
  shows "PvsV_spline L vlist Plist = Inr (quartic, [NaN], take 2 extrema0)"
  using assms by (simp add: PvsV_spline_def)

theorem PvsV_spline_nan_sample_witness:
  "np_any_isnan [Num 6, NaN]
   \<and> gaussian_filter1d sample_scipy [Num 6, NaN] (Num (1 / 100)) = Inr [Num 6, NaN]
   \<and> InterpolatedUnivariateSpline sample_scipy [Num (1 / 6), Num 1] [Num 6, NaN] 3 = Inr [Num 6, NaN]
   \<and> spline_roots sample_scipy [Num 6, NaN] = Inr []
   \<and> InterpolatedUnivariateSpline sample_scipy [Num (1 / 6), Num 1] [Num 6, NaN] 4 = Inr [Num 6, NaN]
   \<and> spline_derivative_roots sample_scipy [Num 6, NaN] = Inr []
   \<and> PvsV_spline sample_scipy [Num (1 / 6), Num 1] [Num 6, NaN] = Inr ([Num 6, NaN], [NaN], [])"
proof -
  have h1: "np_any_isnan [Num 6, NaN]"
    by (simp add: np_any_isnan_def)
  have h2: "gaussian_filter1d sample_scipy [Num 6, NaN] (Num (1 / 100)) = Inr [Num 6, NaN]"
    and h3: "InterpolatedUnivariateSpline sample_scipy [Num (1 / 6), Num 1] [Num 6, NaN] 3
      = Inr [Num 6, NaN]"
    and h4: "spline_roots sample_scipy [Num 6, NaN] = Inr []"
    and h5: "InterpolatedUnivariateSpline sample_scipy [Num (1 / 6), Num 1] [Num 6, NaN] 4
      = Inr [Num 6, NaN]"
    and h6: "spline_derivative_roots sample_scipy [Num 6, NaN] = Inr []"
    by (simp_all add: sample_scipy_def)
  from PvsV_spline_nan_sample [OF h1 h2 h3 h4 h5 h6] h1 h2 h3 h4 h5 h6 show ?thesis
    by simp
qed

section \<open>\<^verbatim>\<open>setPsat\<close> never gives NaN\<close>

definition fallback_pressure :: "npfloat option \<Rightarrow> bool" where
  "fallback_pressure v =
     (v = Some (Num 10377000) \<or> v = Some (Num 7377000) \<or> v = Some (Num 6377000))"

text \<open>The sample system with a bead name for its first column only.\<close>

definition short_beads_eos :: eos where
  "short_beads_eos = sample_eos\<lparr>beads := [''CO2'']\<rparr>"

text \<open>
  Whatever the loop of \<^verbatim>\<open>setPsat\<close> assigns to \<^verbatim>\<open>Psat\<close> is one of the three constants;
  it returns when every positive entry of the row has a bead name, and then it has
  assigned \<^verbatim>\<open>Psat\<close> as soon as the row has a positive entry.
\<close>

lemma setPsat_loop_fallback:
  assumes "setPsat_loop js row bs (Psat, nb) = Inr (Psat', nb')"
    and "Psat = None \<or> fallback_pressure Psat"
  shows "Psat' = None \<or> fallback_pressure Psat'"
  using assms
proof (induction js arbitrary: Psat nb)
  case Nil
  then show ?case by simp
next
  case (Cons j js)
  show ?case
  proof (cases "fgt (row ! j) (Num 0)")
    case False
    with Cons.prems(1) have "setPsat_loop js row bs (Psat, nb) = Inr (Psat', nb')" by simp
    from Cons.IH [OF this Cons.prems(2)] show ?thesis .
  next
    case True
    have fb: "fallback_pressure (Some (Num 10377000))" "fallback_pressure (Some (Num 7377000))"
      "fallback_pressure (Some (Num 6377000))"
      by (simp_all add: fallback_pressure_def)
    from True Cons.prems(1) obtain v nb1 where
      "fallback_pressure (Some v)" "setPsat_loop js row bs (Some v, nb1) = Inr (Psat', nb')"
      using fb by (auto simp: nthE_def bindE_def split: if_splits)
    from Cons.IH [OF this(2)] this(1) show ?thesis by simp
  qed
qed

lemma setPsat_loop_assigns:
  assumes "\<forall>j \<in> set js. fgt (row ! j) (Num 0) \<longrightarrow> j < length bs"
  shows "\<exists>Psat' nb'. setPsat_loop js row bs (Psat, nb) = Inr (Psat', nb') \<and>
           ((\<exists>j \<in> set js. fgt (row ! j) (Num 0)) \<or> Psat \<noteq> None \<longrightarrow> Psat' \<noteq> None)"
  using assms
proof (induction js arbitrary: Psat nb)
  case Nil
  then show ?case by simp
next
  case (Cons j js)
  from Cons.prems have rest: "\<forall>j \<in> set js. fgt (row ! j) (Num 0) \<longrightarrow> j < length bs"
    by simp
  show ?case
  proof (cases "fgt (row ! j) (Num 0)")
    case False
    with Cons.IH [OF rest, of Psat nb] show ?thesis by auto
  next
    case True
    with Cons.prems have j: "j < length bs" by simp
    have "\<exists>v nb1. setPsat_loop (j # js) row bs (Psat, nb) = setPsat_loop js row bs (Some v, nb1)"
      using True j by (auto simp: nthE_def bindE_def)
    then obtain v nb1 where
      v: "setPsat_loop (j # js) row bs (Psat, nb) = setPsat_loop js row bs (Some v, nb1)"
      by blast
    from Cons.IH [OF rest, of "Some v" nb1] obtain Psat' nb' where
      "setPsat_loop js row bs (Some v, nb1) = Inr (Psat', nb')" "Psat' \<noteq> None"
      by auto
    with v show ?thesis by auto
  qed
qed

lemma setPsat_result:
  assumes "setPsat ind e = Inr (p, name)"
  shows "p \<in> {Num 10377000, Num 7377000, Num 6377000}"
proof -
  from assms obtain row Psat' nb' where
    l: "setPsat_loop [0..<length row] row (beads e) (None, None) = Inr (Psat', nb')"
    and p: "Psat' = Some p"
    by (auto simp: setPsat_def bindE_def split: sum.splits option.splits)
  from setPsat_loop_fallback [OF l] p show ?thesis
    by (auto simp: fallback_pressure_def)
qed

lemma setPsat_returns:
  assumes "ind < length (nui e)"
    and "list_ex (\<lambda>x. fgt x (Num 0)) (nui e ! ind)"
    and "length (nui e ! ind) \<le> length (beads e)"
  shows "\<exists>p name. setPsat ind e = Inr (p, name)"
proof -
  let ?row = "nui e ! ind"
  have inr: "\<forall>j \<in> set [0..<length ?row]. fgt (?row ! j) (Num 0) \<longrightarrow> j < length (beads e)"
    using assms(3) by auto
  from assms(2) have pos: "\<exists>j \<in> set [0..<length ?row]. fgt (?row ! j) (Num 0)"
    by (fastforce simp: list_ex_iff in_set_conv_nth)
  from setPsat_loop_assigns [OF inr, of None None] pos obtain Psat' nb' where
    "setPsat_loop [0..<length ?row] ?row (beads e) (None, None) = Inr (Psat', nb')"
    "Psat' \<noteq> None"
    by blast
  then show ?thesis
    using assms(1) by (auto simp: setPsat_def nthE_def bindE_def)
qed

text \<open>
  The loop over the components in the callers, with the \<^verbatim>\<open>raise\<close> of \<^verbatim>\<open>calc_yT_phase\<close>
  (lines 2140 to 2143) and without it, as in \<^verbatim>\<open>calc_xT_phase\<close>: they do the same.
\<close>

lemma estimate_Psat_strict:
  "estimate_Psat L True T n e rd js = estimate_Psat L False T n e rd js"
proof (induction js)
  case Nil
  show ?case by simp
next
  case (Cons i js)
  have f: "bindE (setPsat i e) (\<lambda>(Psat', NaNbead).
        if isnan Psat' \<and> strict then Inl (err NaNbead) else Inr Psat') =
      bindE (setPsat i e) (\<lambda>(Psat', NaNbead). Inr Psat')" for err strict
  proof (cases "setPsat i e")
    case (Inl a)
    then show ?thesis by simp
  next
    case (Inr r)
    obtain p name where r: "r = (p, name)" by (cases r)
    from setPsat_result [of i e p name] Inr r have "\<not> isnan p" by auto
    with Inr r show ?thesis by simp
  qed
  show ?case
    by (simp only: estimate_Psat.simps f Cons.IH cong: if_cong)
qed

text \<open>
  C10 as stated fails where a positive entry of the row has no bead name: \<^verbatim>\<open>setPsat\<close>
  reads \<^verbatim>\<open>eos.beads[j]\<close> there and raises \<^verbatim>\<open>IndexError\<close>, so it returns no pressure.
\<close>

theorem setPsat_short_beads_raises:
  "list_ex (\<lambda>x. fgt x (Num 0)) (nui short_beads_eos ! 1)
   \<and> setPsat 1 short_beads_eos = Inl IndexError"
  by (simp add: short_beads_eos_def sample_eos_def setPsat_def nthE_def upt_rec)

text \<open>
  C10, amended. Whenever \<^verbatim>\<open>setPsat\<close> returns, the pressure it returns is one of the
  three constants 10377000, 7377000 and 6377000 (an unknown bead falls back to
  7377000), so it is not NaN; it returns for every component index whose row
  \<^verbatim>\<open>eos.nui[ind]\<close> has a positive entry, the EOS naming a bead for every column of the
  row. Consequently the callers' test \<^verbatim>\<open>np.isnan(Psat[i])\<close> after \<^verbatim>\<open>setPsat\<close>, which
  guards the error "Component ... is beyond it's critical point", is never true: the
  loop of \<^verbatim>\<open>calc_yT_phase\<close>, which has the \<^verbatim>\<open>raise\<close>, does what the loop without it
  does, for every system.
\<close>

theorem setPsat_not_nan:
  "(\<forall>p name. setPsat ind e = Inr (p, name) \<longrightarrow>
      \<not> isnan p \<and> p \<in> {Num 10377000, Num 7377000, Num 6377000})
   \<and> (ind < length (nui e) \<and> list_ex (\<lambda>x. fgt x (Num 0)) (nui e ! ind) \<and>
        length (nui e ! ind) \<le> length (beads e) \<longrightarrow>
        (\<exists>p name. setPsat ind e = Inr (p, name)))
   \<and> estimate_Psat L True T n e rd js = estimate_Psat L False T n e rd js"
proof -
  have "\<not> isnan p \<and> p \<in> {Num 10377000, Num 7377000, Num 6377000}"
    if "setPsat ind e = Inr (p, name)" for p name
    using setPsat_result [OF that] by auto
  with setPsat_returns [of ind e] estimate_Psat_strict [of L T n e rd js]
  show ?thesis by blast
qed

theorem setPsat_not_nan_witness:
  "1 < length (nui sample_eos)
   \<and> list_ex (\<lambda>x. fgt x (Num 0)) (nui sample_eos ! 1)
   \<and> length (nui sample_eos ! 1) \<le> length (beads sample_eos)
   \<and> setPsat 1 sample_eos = Inr (Num 7377000, ''H2O'')
   \<and> \<not> isnan (Num 7377000)
   \<and> estimate_Psat sample_scipy True (Num 300) 2 sample_eos sample_rhodict [0, 1] =
       estimate_Psat sample_scipy False (Num 300) 2 sample_eos sample_rhodict [0, 1]"
proof -
  have h: "1 < length (nui sample_eos)" "list_ex (\<lambda>x. fgt x (Num 0)) (nui sample_eos ! 1)"
    "length (nui sample_eos ! 1) \<le> length (beads sample_eos)"
    by (simp_all add: sample_eos_def)
  have v: "setPsat 1 sample_eos = Inr (Num 7377000, ''H2O'')"
    by (simp add: setPsat_def sample_eos_def nthE_def bindE_def upt_rec)
  from setPsat_not_nan [of 1 sample_eos sample_scipy "Num 300" 2 sample_rhodict "[0, 1]"] h v
  show ?thesis by simp
qed

end
